theory Spec2Isabelle
  imports Complex_Main "HOL-Library.Monad_Syntax" "HOL-Library.Signed_Division"
begin

section \<open>ClassicBloomFX: the bloom render-graph builder\<close>

text \<open>
  A shallow embedding of \<^verbatim>\<open>ClassicBloomSubsystem.cpp\<close> and of the configuration
  declared in \<^verbatim>\<open>BloomFXComponent.h\<close>.

  Conventions of the embedding.
  \<^item> \<^verbatim>\<open>int32\<close> quantities are mathematical integers (\<^typ>\<open>int\<close>). Signed overflow is
    undefined in C++, so the embedding agrees with the source exactly where no
    intermediate value leaves the \<^verbatim>\<open>int32\<close> range; theorems about sizes state that
    bound explicitly.
  \<^item> \<^verbatim>\<open>float\<close> quantities are real numbers (\<^typ>\<open>real\<close>). Where a \<^verbatim>\<open>float\<close> result
    decides an integer, in the divisor of the bright pass, the operation is followed by
    the rounding to single precision (\<open>float32\<close> below). The values that only travel
    to a shader as parameters are not rounded. The \<^verbatim>\<open>double\<close> times that throttle the log
    are real numbers and their difference is not rounded: it decides only whether a log
    line is written. The special values (NaN, infinities) are
    not represented.
  \<^item> A pointer that may be null is an \<^typ>\<open>'a option\<close>. Dereferencing a null pointer
    and reading a \<^verbatim>\<open>TArray\<close> out of range abort the program; both are the value
    \<^term>\<open>None\<close> of the option monad in which the graph builder runs.
  \<^item> Engine types whose code is not part of the plugin (\<^verbatim>\<open>FScreenTransform\<close>, samplers,
    the view uniform buffer) are kept symbolic. So is the direction of a streak: the
    parameter value \<open>CosSinOfDegrees Angle\<close> stands for
    \<^verbatim>\<open>FVector2f(FMath::Cos(RadAngle), FMath::Sin(RadAngle))\<close> with
    \<^verbatim>\<open>RadAngle = FMath::DegreesToRadians(Angle)\<close>.
\<close>

subsection \<open>Integer geometry (FIntPoint, FIntRect, FMath)\<close>

record FIntPoint =
  X :: int
  Y :: int

record FIntRect =
  Min_pt :: FIntPoint
  Max_pt :: FIntPoint

definition ZeroValue :: FIntPoint where
  "ZeroValue = \<lparr>X = 0, Y = 0\<rparr>"

definition Width :: "FIntRect \<Rightarrow> int" where
  "Width r = X (Max_pt r) - X (Min_pt r)"

definition Height :: "FIntRect \<Rightarrow> int" where
  "Height r = Y (Max_pt r) - Y (Min_pt r)"

text \<open>\<^verbatim>\<open>FIntRect::IsEmpty\<close>: both sides have length zero.\<close>

definition IsEmpty :: "FIntRect \<Rightarrow> bool" where
  "IsEmpty r \<longleftrightarrow> Width r = 0 \<and> Height r = 0"

text \<open>\<^verbatim>\<open>FMath::Clamp(X, Min, Max)\<close>, used at \<^verbatim>\<open>float\<close> and at \<^verbatim>\<open>int32\<close>.\<close>

definition Clamp :: "'a::linorder \<Rightarrow> 'a \<Rightarrow> 'a \<Rightarrow> 'a" where
  "Clamp x lo hi = (if x < lo then lo else if x < hi then x else hi)"

text \<open>
  Single precision (IEEE 754 binary32). A real number is rounded to the nearest multiple
  of the unit in the last place of its binade, 24 significant bits, ties to the even
  multiple; below \<open>2^-126\<close> the unit stays \<open>2^-149\<close> (subnormal numbers). Magnitudes of
  \<open>2^128\<close> and more, which round to an infinity, are outside the embedding.
\<close>

definition pow2 :: "int \<Rightarrow> real" where
  "pow2 e = (if 0 \<le> e then 2 ^ nat e else 1 / 2 ^ nat (- e))"

text \<open>The exponent \<open>e\<close> with \<open>2^e \<le> x < 2^(e+1)\<close>, searched upwards from \<open>-126\<close> to \<open>127\<close>.\<close>

fun float32_exponent_from :: "nat \<Rightarrow> int \<Rightarrow> real \<Rightarrow> int" where
  "float32_exponent_from 0 e x = e"
| "float32_exponent_from (Suc n) e x =
     (if x < pow2 (e + 1) then e else float32_exponent_from n (e + 1) x)"

definition float32_exponent :: "real \<Rightarrow> int" where
  "float32_exponent x = float32_exponent_from 253 (- 126) \<bar>x\<bar>"

definition RoundHalfEven :: "real \<Rightarrow> int" where
  "RoundHalfEven x =
     (let n = \<lfloor>x\<rfloor>; f = x - real_of_int n
      in if f < 1 / 2 then n else if 1 / 2 < f then n + 1 else if even n then n else n + 1)"

definition float32 :: "real \<Rightarrow> real" where
  "float32 x =
     (let ulp = pow2 (float32_exponent x - 23)
      in real_of_int (RoundHalfEven (x / ulp)) * ulp)"

text \<open>
  \<^verbatim>\<open>FMath::RoundToInt(F)\<close> is \<^verbatim>\<open>FloorToInt(F + 0.5f)\<close>; the sum is a \<^verbatim>\<open>float\<close>.
\<close>

definition RoundToInt :: "real \<Rightarrow> int" where
  "RoundToInt F = \<lfloor>float32 (F + 0.5)\<rfloor>"

text \<open>
  \<^verbatim>\<open>FMath::DivideAndRoundUp(Dividend, Divisor)\<close> is \<^verbatim>\<open>(Dividend + Divisor - 1) / Divisor\<close>
  with the truncating division of C++; \<^verbatim>\<open>FIntPoint::DivideAndRoundUp\<close> applies it to
  both coordinates.
\<close>

definition DivideAndRoundUp :: "int \<Rightarrow> int \<Rightarrow> int" where
  "DivideAndRoundUp Dividend Divisor = (Dividend + Divisor - 1) sdiv Divisor"

definition DivideAndRoundUp_pt :: "FIntPoint \<Rightarrow> int \<Rightarrow> FIntPoint" where
  "DivideAndRoundUp_pt p Divisor =
     \<lparr>X = DivideAndRoundUp (X p) Divisor, Y = DivideAndRoundUp (Y p) Divisor\<rparr>"


subsection \<open>The configuration (UBloomFXComponent)\<close>

datatype EBloomPostProcessPass = Tonemap | MotionBlur | FXAA | VisualizeDepthOfField

datatype EBloomBlendMode = Screen | Overlay | SoftLight | HardLight | Lighten | Multiply

datatype EBloomMode = Standard | DirectionalGlare | Kawase | SoftFocus

text \<open>The value of \<^verbatim>\<open>(float)ActiveComponent->BloomBlendMode\<close>: the enumerator's position.\<close>

fun BlendMode_to_float :: "EBloomBlendMode \<Rightarrow> real" where
  "BlendMode_to_float Screen = 0"
| "BlendMode_to_float Overlay = 1"
| "BlendMode_to_float SoftLight = 2"
| "BlendMode_to_float HardLight = 3"
| "BlendMode_to_float Lighten = 4"
| "BlendMode_to_float Multiply = 5"

fun BloomMode_to_int :: "EBloomMode \<Rightarrow> int" where
  "BloomMode_to_int Standard = 0"
| "BloomMode_to_int DirectionalGlare = 1"
| "BloomMode_to_int Kawase = 2"
| "BloomMode_to_int SoftFocus = 3"

record FLinearColor =
  R :: real
  G :: real
  B :: real
  A :: real

text \<open>
  The fields of \<^verbatim>\<open>UBloomFXComponent\<close> in declaration order; \<open>IsActive\<close> is the
  activation state inherited from \<^verbatim>\<open>UActorComponent\<close>.
\<close>

record UBloomFXComponent =
  IsActive :: bool
  BloomMode :: EBloomMode
  BloomIntensity :: real
  BloomThreshold :: real
  BloomSize :: real
  bUseSceneColor :: bool
  BloomTint :: FLinearColor
  BloomBlendMode :: EBloomBlendMode
  BloomSaturation :: real
  bProtectHighlights :: bool
  HighlightProtection :: real
  DownsampleScale :: real
  BlurPasses :: int
  BlurSamples :: int
  bHighQualityUpsampling :: bool
  GlareStreakCount :: int
  GlareStreakLength :: int
  GlareRotationOffset :: real
  GlareFalloff :: real
  KawaseMipCount :: int
  KawaseFilterRadius :: real
  bKawaseSoftThreshold :: bool
  KawaseThresholdKnee :: real
  SoftFocusOverlayMultiplier :: real
  SoftFocusBlendStrength :: real
  SoftFocusSoftLightMultiplier :: real
  SoftFocusFinalBlend :: real
  PostProcessPass :: EBloomPostProcessPass
  bUseAdaptiveBrightnessScaling :: bool
  GameModeBloomScale :: real
  bEnableDebugLogging :: bool
  bShowBloomOnly :: bool
  bShowGammaCompensation :: bool
  bAutoReinitializeRect :: bool
  ReinitializeInterval :: real
  bReinitializeRect :: bool

subsection \<open>Registration (UClassicBloomSubsystem)\<close>

text \<open>
  A \<^verbatim>\<open>UBloomFXComponent*\<close> is the handle of an object, or null. The subsystem keeps
  \<^verbatim>\<open>TArray<TWeakObjectPtr<UBloomFXComponent>>\<close>: a list of handles, in insertion order.
  \<^verbatim>\<open>TArray::AddUnique\<close> appends an element only when no equal element is present;
  \<^verbatim>\<open>TArray::Remove\<close> deletes every element equal to its argument.
\<close>

type_synonym ObjectHandle = nat

record UClassicBloomSubsystem =
  BloomComponents :: "ObjectHandle list"

definition AddUnique :: "'a list \<Rightarrow> 'a \<Rightarrow> 'a list" where
  "AddUnique xs x = (if x \<in> set xs then xs else xs @ [x])"

definition Remove :: "'a list \<Rightarrow> 'a \<Rightarrow> 'a list" where
  "Remove xs x = filter (\<lambda>y. y \<noteq> x) xs"

definition RegisterBloomComponent ::
  "UClassicBloomSubsystem \<Rightarrow> ObjectHandle option \<Rightarrow> UClassicBloomSubsystem" where
  "RegisterBloomComponent S Component =
     (case Component of
        Some c \<Rightarrow> S\<lparr>BloomComponents := AddUnique (BloomComponents S) c\<rparr>
      | None \<Rightarrow> S)"

definition UnregisterBloomComponent ::
  "UClassicBloomSubsystem \<Rightarrow> ObjectHandle option \<Rightarrow> UClassicBloomSubsystem" where
  "UnregisterBloomComponent S Component =
     (case Component of
        Some c \<Rightarrow> S\<lparr>BloomComponents := Remove (BloomComponents S) c\<rparr>
      | None \<Rightarrow> S)"

text \<open>
  The calls the subsystem receives over its life, applied in order to the subsystem as
  it is created (no component registered).
\<close>

datatype RegistrationCall = Register "ObjectHandle option" | Unregister "ObjectHandle option"

fun apply_call :: "UClassicBloomSubsystem \<Rightarrow> RegistrationCall \<Rightarrow> UClassicBloomSubsystem" where
  "apply_call S (Register c) = RegisterBloomComponent S c"
| "apply_call S (Unregister c) = UnregisterBloomComponent S c"

definition InitialSubsystem :: UClassicBloomSubsystem where
  "InitialSubsystem = \<lparr>BloomComponents = []\<rparr>"

definition after_calls :: "RegistrationCall list \<Rightarrow> UClassicBloomSubsystem" where
  "after_calls calls = foldl apply_call InitialSubsystem calls"

subsection \<open>The render graph (FRDGBuilder)\<close>

datatype EPixelFormat = PF_FloatR11G11B10 | PF_Other nat

datatype FClearValueBinding = Black | ClearValue_Other nat

datatype ETextureCreateFlags =
  TexCreate_RenderTargetable | TexCreate_ShaderResource | TexCreate_Other nat

record FRDGTextureDesc =
  Extent :: FIntPoint
  Format :: EPixelFormat
  ClearValue :: FClearValueBinding
  Flags :: "ETextureCreateFlags set"

definition Create2D ::
  "FIntPoint \<Rightarrow> EPixelFormat \<Rightarrow> FClearValueBinding \<Rightarrow> ETextureCreateFlags set \<Rightarrow> FRDGTextureDesc" where
  "Create2D InExtent InFormat InClearValue InFlags =
     \<lparr>Extent = InExtent, Format = InFormat, ClearValue = InClearValue, Flags = InFlags\<rparr>"

text \<open>
  A texture of the graph. \<open>Handle\<close> is the identity of the object an
  \<^verbatim>\<open>FRDGTextureRef\<close> points to; the null reference is \<^term>\<open>None\<close>.
\<close>

record FRDGTexture =
  Handle :: nat
  Desc :: FRDGTextureDesc
  Name :: string

type_synonym FRDGTextureRef = "FRDGTexture option"

datatype ERenderTargetLoadAction = ENoAction | ELoad | EClear

record FScreenPassTexture =
  Texture :: FRDGTextureRef
  ViewRect :: FIntRect

record FScreenPassRenderTarget = FScreenPassTexture +
  LoadAction :: ERenderTargetLoadAction

text \<open>\<^verbatim>\<open>FScreenPassTexture::IsValid\<close>: a texture is bound and the rectangle is not empty.\<close>

definition IsValid :: "'a FScreenPassTexture_scheme \<Rightarrow> bool" where
  "IsValid t \<longleftrightarrow> Texture t \<noteq> None \<and> \<not> IsEmpty (ViewRect t)"

text \<open>
  \<^verbatim>\<open>FScreenTransform\<close> belongs to the engine. A transform is kept as the expression that
  builds it: a change of basis for a viewport (extent and rectangle), or the product
  \<^verbatim>\<open>A * B\<close> of two transforms.
\<close>

datatype ETextureBasis = TexelPosition | ViewportUV | TextureUV

datatype FScreenPassTextureViewport = FScreenPassTextureViewport FIntPoint FIntRect

datatype FScreenTransform =
  ChangeTextureBasisFromTo FScreenPassTextureViewport ETextureBasis ETextureBasis
| Compose FScreenTransform FScreenTransform

datatype ESamplerFilter = SF_Bilinear

datatype ESamplerAddressMode = AM_Clamp

datatype EShader =
  FClassicBloomBrightPassPS
| FClassicBloomBlurPS
| FClassicBloomCompositePS
| FClassicBloomGlareStreakPS
| FClassicBloomGlareAccumulatePS
| FClassicBloomKawaseDownsamplePS
| FClassicBloomKawaseUpsamplePS

text \<open>
  The global shader map holds the programs that are available;
  \<^verbatim>\<open>TShaderMapRef<T>(GlobalShaderMap).IsValid()\<close> asks whether \<^verbatim>\<open>T\<close> is among them.
\<close>

type_synonym FGlobalShaderMap = "EShader set"

definition TShaderMapRef_IsValid :: "FGlobalShaderMap \<Rightarrow> EShader \<Rightarrow> bool" where
  "TShaderMapRef_IsValid GlobalShaderMap T \<longleftrightarrow> T \<in> GlobalShaderMap"

text \<open>
  The parameter structs of the shaders (\<^verbatim>\<open>FParameters\<close>) are declared in a header that
  is not part of the sources at hand; a parameter block is the list of the assignments
  \<^verbatim>\<open>PassParameters->Field = Value\<close> in the order the source makes them.
\<close>

datatype FParameterValue =
  UniformBuffer nat
| TextureParam FRDGTextureRef
| Sampler ESamplerFilter ESamplerAddressMode ESamplerAddressMode ESamplerAddressMode
| FloatParam real
| IntParam int
| Vector2f real real
| CosSinOfDegrees real
| Vector4f real real real real
| Transform FScreenTransform
| RenderTarget FRDGTextureRef ERenderTargetLoadAction

type_synonym FParameters = "(string \<times> FParameterValue) list"

record FPass =
  EventName :: string
  Shader :: EShader
  Parameters :: FParameters
  PassViewport :: FIntRect

record FRDGBuilder =
  Textures :: "FRDGTexture list"
  Passes :: "FPass list"

definition CreateTexture :: "FRDGBuilder \<Rightarrow> FRDGTextureDesc \<Rightarrow> string \<Rightarrow> FRDGTexture \<times> FRDGBuilder" where
  "CreateTexture GraphBuilder InDesc InName =
     (let T = \<lparr>Handle = length (Textures GraphBuilder), Desc = InDesc, Name = InName\<rparr>
      in (T, GraphBuilder\<lparr>Textures := Textures GraphBuilder @ [T]\<rparr>))"

text \<open>\<^verbatim>\<open>FPixelShaderUtils::AddFullscreenPass\<close> records one full-screen draw.\<close>

definition AddFullscreenPass ::
  "FRDGBuilder \<Rightarrow> string \<Rightarrow> EShader \<Rightarrow> FParameters \<Rightarrow> FIntRect \<Rightarrow> FRDGBuilder" where
  "AddFullscreenPass GraphBuilder PassName PixelShader PassParameters Viewport =
     GraphBuilder\<lparr>Passes := Passes GraphBuilder @
       [\<lparr>EventName = PassName, Shader = PixelShader, Parameters = PassParameters,
         PassViewport = Viewport\<rparr>]\<rparr>"

definition BilinearClampSampler :: FParameterValue where
  "BilinearClampSampler = Sampler SF_Bilinear AM_Clamp AM_Clamp AM_Clamp"

text \<open>\<^verbatim>\<open>FVector4f(W, H, 1.0f / W, 1.0f / H)\<close> for integer sizes \<^verbatim>\<open>W\<close>, \<^verbatim>\<open>H\<close>.\<close>

definition SizeAndInvSize :: "int \<Rightarrow> int \<Rightarrow> FParameterValue" where
  "SizeAndInvSize W H = Vector4f (real_of_int W) (real_of_int H) (1 / real_of_int W) (1 / real_of_int H)"

text \<open>
  The transform every sampling pass builds: texel position of the destination viewport
  to viewport UV, then viewport UV to texture UV of the source viewport.
\<close>

definition SvPositionToTextureUV ::
  "FScreenPassTextureViewport \<Rightarrow> FScreenPassTextureViewport \<Rightarrow> FScreenTransform" where
  "SvPositionToTextureUV Dst Src =
     Compose (ChangeTextureBasisFromTo Dst TexelPosition ViewportUV)
             (ChangeTextureBasisFromTo Src ViewportUV TextureUV)"

text \<open>\<^verbatim>\<open>TArray::operator[]\<close> checks its index; a failed check aborts.\<close>

definition TArray_get :: "'a list \<Rightarrow> int \<Rightarrow> 'a option" where
  "TArray_get xs i = (if 0 \<le> i \<and> i < int (length xs) then Some (xs ! nat i) else None)"

text \<open>\<^verbatim>\<open>TArray::Last()\<close> reads index \<^verbatim>\<open>Num() - 1\<close>.\<close>

definition TArray_Last :: "'a list \<Rightarrow> 'a option" where
  "TArray_Last xs = TArray_get xs (int (length xs) - 1)"

text \<open>The decimal text \<^verbatim>\<open>%d\<close> prints.\<close>

fun decimal :: "nat \<Rightarrow> string" where
  "decimal n =
     (if n < 10 then [''0123456789'' ! n]
      else decimal (n div 10) @ [''0123456789'' ! (n mod 10)])"

definition Printf_d :: "int \<Rightarrow> string" where
  "Printf_d i = (if i < 0 then CHR ''-'' # decimal (nat (- i)) else decimal (nat i))"

subsection \<open>Loops\<close>

text \<open>
  \<^verbatim>\<open>for (int32 i = i0; i < n; i += step) body\<close>, where the body may abort. With a step
  that is not positive the loop does not end, which is the value \<^term>\<open>None\<close> as well.
\<close>

function for_up :: "int \<Rightarrow> int \<Rightarrow> int \<Rightarrow> (int \<Rightarrow> 's \<Rightarrow> 's option) \<Rightarrow> 's \<Rightarrow> 's option" where
  "for_up i n step body s =
     (if i < n then
        (if step \<le> 0 then None
         else (case body i s of None \<Rightarrow> None | Some s' \<Rightarrow> for_up (i + step) n step body s'))
      else Some s)"
  by pat_completeness auto
termination
  by (relation "measure (\<lambda>(i, n, step, body, s). nat (n - i))") auto

text \<open>\<^verbatim>\<open>for (int32 i = i0; i >= 0; --i) body\<close>.\<close>

function for_down :: "int \<Rightarrow> (int \<Rightarrow> 's \<Rightarrow> 's option) \<Rightarrow> 's \<Rightarrow> 's option" where
  "for_down i body s =
     (if 0 \<le> i then
        (case body i s of None \<Rightarrow> None | Some s' \<Rightarrow> for_down (i - 1) body s')
      else Some s)"
  by pat_completeness auto
termination
  by (relation "measure (\<lambda>(i, body, s). nat (i + 1))") auto

declare for_up.simps [simp del] for_down.simps [simp del]

subsection \<open>The view, the inputs and the log of a frame\<close>

datatype EWorldType =
  WorldType_None | Game | Editor | PIE | EditorPreview | GamePreview | GameRPC | Inactive

record UWorld =
  WorldType :: EWorldType
  IsGameWorld :: bool

record FSceneInterface =
  GetWorld :: "UWorld option"

record FEngineShowFlags =
  Rendering :: bool
  PostProcessing :: bool
  Wireframe :: bool

record FSceneViewFamily =
  Scene :: "FSceneInterface option"
  EngineShowFlags :: FEngineShowFlags

record FViewInfo =
  bIsReflectionCapture :: bool
  bIsSceneCapture :: bool
  bIsViewInfo :: bool
  bIsGameView :: bool
  ShaderMap :: "FGlobalShaderMap option"
  Family :: FSceneViewFamily
  ViewUniformBuffer :: nat

text \<open>
  \<open>SceneColorInput\<close> is the value of
  \<^verbatim>\<open>FScreenPassTexture::CopyFromSlice(GraphBuilder, Inputs.GetInput(SceneColor))\<close>.
\<close>

record FPostProcessMaterialInputs =
  SceneColorInput :: FScreenPassTexture
  OverrideOutput :: FScreenPassRenderTarget

text \<open>
  What the function reads besides its arguments: the subsystem behind the weak pointer
  (if it is still alive), the live components behind the weak pointers it holds (a stale
  pointer maps to \<^term>\<open>None\<close>), the clock, and the static \<^verbatim>\<open>LastLogTime\<close>.
\<close>

record FRenderThreadContext =
  WeakSubsystem :: "UClassicBloomSubsystem option"
  Objects :: "ObjectHandle \<Rightarrow> UBloomFXComponent option"
  CurrentTime :: real
  LastLogTime :: real

datatype ELogVerbosity = Log | Warning

datatype FTransformCoefficient = Scale_X | Scale_Y | Bias_X | Bias_Y

datatype FLogArgument =
  ArgInt int
| ArgFloat real
| ArgText string
| ArgCoefficient FScreenTransform FTransformCoefficient

type_synonym FLogLine = "ELogVerbosity \<times> string \<times> FLogArgument list"

definition UE_LOG :: "ELogVerbosity \<Rightarrow> string \<Rightarrow> FLogArgument list \<Rightarrow> FLogLine" where
  "UE_LOG Verbosity Fmt Args = (Verbosity, Fmt, Args)"

definition ArgBool :: "bool \<Rightarrow> FLogArgument" where
  "ArgBool b = ArgInt (if b then 1 else 0)"

text \<open>What the call leaves behind: the value returned, the graph, the log, the static.\<close>

record FFrameResult =
  ReturnValue :: FScreenPassTexture
  Graph :: FRDGBuilder
  LogOutput :: "FLogLine list"
  NewLastLogTime :: real

subsection \<open>Selecting the active component\<close>

text \<open>
  The loop over \<^verbatim>\<open>Components\<close> stops at the first weak pointer that is valid and whose
  component is active.
\<close>

fun FindActiveComponent ::
  "(ObjectHandle \<Rightarrow> UBloomFXComponent option) \<Rightarrow> ObjectHandle list \<Rightarrow> UBloomFXComponent option" where
  "FindActiveComponent Objs [] = None"
| "FindActiveComponent Objs (CompPtr # Components) =
     (case Objs CompPtr of
        Some Comp \<Rightarrow> if IsActive Comp then Some Comp else FindActiveComponent Objs Components
      | None \<Rightarrow> FindActiveComponent Objs Components)"

subsection \<open>The debug log at the start of the frame\<close>

fun PassName_of :: "EBloomPostProcessPass \<Rightarrow> string" where
  "PassName_of Tonemap = ''Tonemap''"
| "PassName_of MotionBlur = ''MotionBlur''"
| "PassName_of FXAA = ''FXAA''"
| "PassName_of VisualizeDepthOfField = ''VisualizeDOF''"

fun WorldTypeName_of :: "EWorldType \<Rightarrow> string" where
  "WorldTypeName_of WorldType_None = ''None''"
| "WorldTypeName_of Game = ''Game''"
| "WorldTypeName_of Editor = ''Editor''"
| "WorldTypeName_of PIE = ''PIE''"
| "WorldTypeName_of EditorPreview = ''EditorPreview''"
| "WorldTypeName_of GamePreview = ''GamePreview''"
| "WorldTypeName_of GameRPC = ''Unknown''"
| "WorldTypeName_of Inactive = ''Inactive''"

definition World_of :: "FViewInfo \<Rightarrow> UWorld option" where
  "World_of View = (case Scene (Family View) of None \<Rightarrow> None | Some S \<Rightarrow> GetWorld S)"

definition DebugLogFrame ::
  "FViewInfo \<Rightarrow> FIntPoint \<Rightarrow> FIntRect \<Rightarrow> UBloomFXComponent \<Rightarrow> FLogLine list" where
  "DebugLogFrame View SceneColorExtent ViewRect' ActiveComponent =
     (let PassName = PassName_of (PostProcessPass ActiveComponent);
          WorldTypeName = (case World_of View of None \<Rightarrow> ''Unknown''
                           | Some World \<Rightarrow> WorldTypeName_of (WorldType World));
          bIsGameWorld = (case World_of View of None \<Rightarrow> False | Some World \<Rightarrow> IsGameWorld World);
          bIsPIE = (case World_of View of None \<Rightarrow> False | Some World \<Rightarrow> WorldType World = PIE)
      in [UE_LOG Warning ''========== CUSTOM BLOOM DEBUG =========='' [],
          UE_LOG Warning ''WORLD INFO:'' [],
          UE_LOG Warning ''  WorldType: %s | IsGameWorld: %d | IsPIE: %d''
            [ArgText WorldTypeName, ArgBool bIsGameWorld, ArgBool bIsPIE],
          UE_LOG Warning ''  PostProcessPass: %s'' [ArgText PassName],
          UE_LOG Warning ''VIEW INFO:'' [],
          UE_LOG Warning ''  ViewRect: [%d,%d] -> [%d,%d] (Size: %dx%d)''
            [ArgInt (X (Min_pt ViewRect')), ArgInt (Y (Min_pt ViewRect')),
             ArgInt (X (Max_pt ViewRect')), ArgInt (Y (Max_pt ViewRect')),
             ArgInt (Width ViewRect'), ArgInt (Height ViewRect')],
          UE_LOG Warning ''  Extent: %dx%d'' [ArgInt (X SceneColorExtent), ArgInt (Y SceneColorExtent)],
          UE_LOG Warning ''  bIsGameView: %d | bIsSceneCapture: %d | bIsReflectionCapture: %d''
            [ArgBool (bIsGameView View), ArgBool (bIsSceneCapture View),
             ArgBool (bIsReflectionCapture View)],
          UE_LOG Warning ''BLOOM SETTINGS:'' [],
          UE_LOG Warning ''  BloomIntensity: %.3f | BloomThreshold: %.3f | BloomSize: %.3f''
            [ArgFloat (BloomIntensity ActiveComponent), ArgFloat (BloomThreshold ActiveComponent),
             ArgFloat (BloomSize ActiveComponent)],
          UE_LOG Warning ''  bUseSceneColor: %d | BloomTint: (%.2f, %.2f, %.2f)''
            [ArgBool (bUseSceneColor ActiveComponent),
             ArgFloat (R (BloomTint ActiveComponent)), ArgFloat (G (BloomTint ActiveComponent)),
             ArgFloat (B (BloomTint ActiveComponent))],
          UE_LOG Warning ''BLOOM MODE:'' [],
          UE_LOG Warning ''  BloomMode: %d (0=Standard, 1=DirectionalGlare, 2=Kawase, 3=SoftFocus)''
            [ArgInt (BloomMode_to_int (BloomMode ActiveComponent))],
          UE_LOG Warning ''QUALITY:'' [],
          UE_LOG Warning ''  DownsampleScale: %.2f | BlurPasses: %d | BlurSamples: %d''
            [ArgFloat (DownsampleScale ActiveComponent), ArgInt (BlurPasses ActiveComponent),
             ArgInt (BlurSamples ActiveComponent)],
          UE_LOG Warning ''========================================'' []])"

subsection \<open>Step 1: the bright pass\<close>

text \<open>
  The working resolution (source lines 314 to 323). \<^verbatim>\<open>2.0f / DownsampleScale\<close> is a division
  of two \<^verbatim>\<open>float\<close> values: the quotient rounded to single precision.
\<close>

definition ComputeDivisor :: "UBloomFXComponent \<Rightarrow> int" where
  "ComputeDivisor ActiveComponent =
     (let DownsampleScale' = Clamp (DownsampleScale ActiveComponent) 0.25 2.0
      in max 1 (RoundToInt (float32 (2.0 / DownsampleScale'))))"

definition ComputeDownsampledExtent :: "FIntRect \<Rightarrow> int \<Rightarrow> FIntPoint" where
  "ComputeDownsampledExtent ViewRect' Divisor =
     DivideAndRoundUp_pt \<lparr>X = Width ViewRect', Y = Height ViewRect'\<rparr> Divisor"

definition ComputeDownsampledRect :: "FIntPoint \<Rightarrow> FIntRect" where
  "ComputeDownsampledRect DownsampledExtent = \<lparr>Min_pt = ZeroValue, Max_pt = DownsampledExtent\<rparr>"

definition BrightPassDesc_of :: "FIntPoint \<Rightarrow> FRDGTextureDesc" where
  "BrightPassDesc_of DownsampledExtent =
     Create2D DownsampledExtent PF_FloatR11G11B10 Black
       {TexCreate_ShaderResource, TexCreate_RenderTargetable}"

text \<open>
  The block that follows the availability check of the bright-pass program (source
  lines 351 to 399): the effective threshold, the parameters, the pass.
\<close>

definition BrightPass ::
  "FRDGBuilder \<Rightarrow> FViewInfo \<Rightarrow> FRDGTexture \<Rightarrow> FIntRect \<Rightarrow> UBloomFXComponent \<Rightarrow> bool \<Rightarrow>
   FIntPoint \<Rightarrow> FIntRect \<Rightarrow> FRDGTexture \<Rightarrow> FRDGBuilder \<times> FLogLine list" where
  "BrightPass GraphBuilder View SceneColorTexture ViewRect' ActiveComponent bShouldLog
     DownsampledExtent DownsampledRect BrightPassTexture =
     (let bIsSoftFocusMode = (BloomMode ActiveComponent = SoftFocus);
          EffectiveThreshold =
            (if bIsSoftFocusMode then 0.01 else BloomThreshold ActiveComponent);
          LogLines =
            (if bShouldLog then
               [UE_LOG Warning ''THRESHOLD CALCULATION:'' [],
                UE_LOG Warning ''  BloomThreshold: %.3f | Effective: %.3f''
                  [ArgFloat (BloomThreshold ActiveComponent), ArgFloat EffectiveThreshold]]
             else []);
          OutputViewport = FScreenPassTextureViewport DownsampledExtent DownsampledRect;
          InputViewport = FScreenPassTextureViewport
            \<lparr>X = X (Extent (Desc SceneColorTexture)), Y = Y (Extent (Desc SceneColorTexture))\<rparr>
            ViewRect';
          PassParameters =
            [(''View'', UniformBuffer (ViewUniformBuffer View)),
             (''SceneColorTexture'', TextureParam (Some SceneColorTexture)),
             (''SceneColorSampler'', BilinearClampSampler),
             (''InputViewportSizeAndInvSize'', SizeAndInvSize (Width ViewRect') (Height ViewRect')),
             (''OutputViewportSizeAndInvSize'',
                SizeAndInvSize (Width DownsampledRect) (Height DownsampledRect)),
             (''SvPositionToInputTextureUV'',
                Transform (SvPositionToTextureUV OutputViewport InputViewport)),
             (''BloomThreshold'', FloatParam EffectiveThreshold),
             (''BloomIntensity'', FloatParam 1.0),
             (''RenderTargets[0]'', RenderTarget (Some BrightPassTexture) EClear)]
      in (AddFullscreenPass GraphBuilder ''BrightPass'' FClassicBloomBrightPassPS PassParameters
            DownsampledRect,
          LogLines))"

subsection \<open>Steps 2 and 3: the blur strategies\<close>

text \<open>
  The parameters of one pass of the separable blur; the four places that fill them
  (glare, lines 550 to 557 and 565 to 572; standard, lines 812 to 819 and 834 to 841)
  make the same assignments in the same order.
\<close>

definition BlurParameters ::
  "FViewInfo \<Rightarrow> FRDGTextureRef \<Rightarrow> FIntPoint \<Rightarrow> real \<times> real \<Rightarrow> real \<Rightarrow> FRDGTexture \<Rightarrow> FParameters" where
  "BlurParameters View SourceTexture DownsampledExtent BlurDirection BlurRadius Target =
     [(''View'', UniformBuffer (ViewUniformBuffer View)),
      (''SourceTexture'', TextureParam SourceTexture),
      (''SourceSampler'', BilinearClampSampler),
      (''BufferSizeAndInvSize'', SizeAndInvSize (X DownsampledExtent) (Y DownsampledExtent)),
      (''BlurDirection'', Vector2f (fst BlurDirection) (snd BlurDirection)),
      (''BlurRadius'', FloatParam BlurRadius),
      (''RenderTargets[0]'', RenderTarget (Some Target) EClear)]"

paragraph \<open>Standard (source lines 801 to 857)\<close>

definition StandardBlurIteration ::
  "FViewInfo \<Rightarrow> UBloomFXComponent \<Rightarrow> FIntPoint \<Rightarrow> FIntRect \<Rightarrow> FRDGTexture \<Rightarrow> FRDGTexture \<Rightarrow>
   int \<Rightarrow> FRDGTextureRef \<times> FRDGBuilder \<Rightarrow> (FRDGTextureRef \<times> FRDGBuilder) option" where
  "StandardBlurIteration View ActiveComponent DownsampledExtent DownsampledRect
     BlurTempTexture BlurredBloomTexture PassIndex s =
     (case s of (BlurSource, GraphBuilder) \<Rightarrow>
        let gb1 = AddFullscreenPass GraphBuilder ''BlurHorizontal'' FClassicBloomBlurPS
                    (BlurParameters View BlurSource DownsampledExtent (1.0, 0.0)
                       (BloomSize ActiveComponent * 0.1) BlurTempTexture)
                    DownsampledRect;
            gb2 = AddFullscreenPass gb1 ''BlurVertical'' FClassicBloomBlurPS
                    (BlurParameters View (Some BlurTempTexture) DownsampledExtent (0.0, 1.0)
                       (BloomSize ActiveComponent * 0.1) BlurredBloomTexture)
                    DownsampledRect
        in Some (Some BlurredBloomTexture, gb2))"

definition StandardBlur ::
  "FRDGBuilder \<Rightarrow> FViewInfo \<Rightarrow> UBloomFXComponent \<Rightarrow> FIntPoint \<Rightarrow> FIntRect \<Rightarrow> FRDGTextureDesc \<Rightarrow>
   FRDGTexture \<Rightarrow> (FRDGTexture \<times> FRDGBuilder) option" where
  "StandardBlur GraphBuilder View ActiveComponent DownsampledExtent DownsampledRect
     BrightPassDesc BrightPassTexture =
     (let NumBlurPasses = Clamp (BlurPasses ActiveComponent) 1 4;
          BlurSource = Some BrightPassTexture;
          (BlurTempTexture, gb1) = CreateTexture GraphBuilder BrightPassDesc ''ClassicBloom.BlurTemp'';
          (BlurredBloomTexture, gb2) = CreateTexture gb1 BrightPassDesc ''ClassicBloom.Blurred''
      in case for_up 0 NumBlurPasses 1
                (StandardBlurIteration View ActiveComponent DownsampledExtent DownsampledRect
                   BlurTempTexture BlurredBloomTexture)
                (BlurSource, gb2) of
           None \<Rightarrow> None
         | Some (BlurSource', gb3) \<Rightarrow> Some (BlurredBloomTexture, gb3))"

paragraph \<open>Directional glare (source lines 410 to 584)\<close>

definition GlareStreakIteration ::
  "FViewInfo \<Rightarrow> FIntPoint \<Rightarrow> FIntRect \<Rightarrow> FRDGTextureDesc \<Rightarrow> FRDGTexture \<Rightarrow> real \<Rightarrow> real \<Rightarrow>
   real \<Rightarrow> real \<Rightarrow> int \<Rightarrow> FRDGTexture list \<times> FRDGBuilder \<Rightarrow> (FRDGTexture list \<times> FRDGBuilder) option" where
  "GlareStreakIteration View DownsampledExtent DownsampledRect BrightPassDesc BrightPassTexture
     AngleStep RotationOffset ScaledStreakLength Falloff i s =
     (case s of (StreakTextures, GraphBuilder) \<Rightarrow>
        let Angle = (AngleStep * real_of_int i) + RotationOffset;
            (StreakTexture, gb1) = CreateTexture GraphBuilder BrightPassDesc
                                     (''ClassicBloom.Streak'' @ Printf_d i);
            StreakParams =
              [(''View'', UniformBuffer (ViewUniformBuffer View)),
               (''SourceTexture'', TextureParam (Some BrightPassTexture)),
               (''SourceSampler'', BilinearClampSampler),
               (''BufferSizeAndInvSize'', SizeAndInvSize (X DownsampledExtent) (Y DownsampledExtent)),
               (''StreakDirection'', CosSinOfDegrees Angle),
               (''StreakLength'', FloatParam ScaledStreakLength),
               (''StreakFalloff'', FloatParam Falloff),
               (''RenderTargets[0]'', RenderTarget (Some StreakTexture) EClear)]
        in Some (StreakTextures @ [StreakTexture],
                 AddFullscreenPass gb1 (''GlareStreak'' @ Printf_d i) FClassicBloomGlareStreakPS
                   StreakParams DownsampledRect))"

definition AccumulateParameters ::
  "FViewInfo \<Rightarrow> FRDGTexture \<Rightarrow> FRDGTexture \<Rightarrow> FRDGTexture \<Rightarrow> FRDGTexture \<Rightarrow> FIntRect \<Rightarrow> int \<Rightarrow>
   FRDGTexture \<Rightarrow> FParameters" where
  "AccumulateParameters View T0 T1 T2 T3 DownsampledRect NumStreaks' Target =
     [(''View'', UniformBuffer (ViewUniformBuffer View)),
      (''StreakTexture0'', TextureParam (Some T0)),
      (''StreakTexture1'', TextureParam (Some T1)),
      (''StreakTexture2'', TextureParam (Some T2)),
      (''StreakTexture3'', TextureParam (Some T3)),
      (''StreakSampler'', BilinearClampSampler),
      (''GlareViewportSizeAndInvSize'',
         SizeAndInvSize (Width DownsampledRect) (Height DownsampledRect)),
      (''NumStreaks'', IntParam NumStreaks'),
      (''RenderTargets[0]'', RenderTarget (Some Target) EClear)]"

text \<open>One turn of the loop over \<^verbatim>\<open>BatchStart\<close> (source lines 514 to 538).\<close>

definition GlareAccumulateBatch ::
  "FViewInfo \<Rightarrow> FIntRect \<Rightarrow> FRDGTextureDesc \<Rightarrow> FRDGTexture list \<Rightarrow> int \<Rightarrow>
   int \<Rightarrow> FRDGTexture \<times> FRDGBuilder \<Rightarrow> (FRDGTexture \<times> FRDGBuilder) option" where
  "GlareAccumulateBatch View DownsampledRect BrightPassDesc StreakTextures NumStreaks BatchStart s =
     (case s of (PrevAccum, GraphBuilder) \<Rightarrow>
        let (NextAccum, gb1) = CreateTexture GraphBuilder BrightPassDesc
                                 (''ClassicBloom.GlareAccum'' @ Printf_d BatchStart);
            StreaksInBatch = min 3 (NumStreaks - BatchStart)
        in do {
          T1 \<leftarrow> TArray_get StreakTextures BatchStart;
          T2 \<leftarrow> (if StreaksInBatch \<ge> 2 then TArray_get StreakTextures (BatchStart + 1)
                 else TArray_get StreakTextures BatchStart);
          T3 \<leftarrow> (if StreaksInBatch \<ge> 3 then TArray_get StreakTextures (BatchStart + 2)
                 else TArray_get StreakTextures BatchStart);
          Some (NextAccum,
                AddFullscreenPass gb1 (''GlareAccumulate'' @ Printf_d BatchStart)
                  FClassicBloomGlareAccumulatePS
                  (AccumulateParameters View PrevAccum T1 T2 T3 DownsampledRect
                     (1 + StreaksInBatch) NextAccum)
                  DownsampledRect)
        })"

text \<open>The accumulation of the streaks (source lines 483 to 542).\<close>

definition GlareAccumulate ::
  "FRDGBuilder \<Rightarrow> FViewInfo \<Rightarrow> FIntRect \<Rightarrow> FRDGTextureDesc \<Rightarrow> FRDGTexture list \<Rightarrow> int \<Rightarrow>
   (FRDGTexture \<times> FRDGBuilder) option" where
  "GlareAccumulate GraphBuilder View DownsampledRect BrightPassDesc StreakTextures NumStreaks =
     (let (AccumTexture, gb1) = CreateTexture GraphBuilder BrightPassDesc ''ClassicBloom.GlareAccum'';
          StreaksToProcess = min NumStreaks 4
      in do {
        T0 \<leftarrow> TArray_get StreakTextures 0;
        T1 \<leftarrow> (if StreaksToProcess \<ge> 2 then TArray_get StreakTextures 1
               else TArray_get StreakTextures 0);
        T2 \<leftarrow> (if StreaksToProcess \<ge> 3 then TArray_get StreakTextures 2
               else TArray_get StreakTextures 0);
        T3 \<leftarrow> (if StreaksToProcess \<ge> 4 then TArray_get StreakTextures 3
               else TArray_get StreakTextures 0);
        let gb2 = AddFullscreenPass gb1 ''GlareAccumulate'' FClassicBloomGlareAccumulatePS
                    (AccumulateParameters View T0 T1 T2 T3 DownsampledRect StreaksToProcess
                       AccumTexture)
                    DownsampledRect
        in if NumStreaks > 4 then
             for_up 4 NumStreaks 3
               (GlareAccumulateBatch View DownsampledRect BrightPassDesc StreakTextures NumStreaks)
               (AccumTexture, gb2)
           else Some (AccumTexture, gb2)
      })"

definition DirectionalGlareBloom ::
  "FRDGBuilder \<Rightarrow> FViewInfo \<Rightarrow> FGlobalShaderMap \<Rightarrow> UBloomFXComponent \<Rightarrow> bool \<Rightarrow> int \<Rightarrow>
   FIntPoint \<Rightarrow> FIntRect \<Rightarrow> FRDGTextureDesc \<Rightarrow> FRDGTexture \<Rightarrow>
   (FRDGTextureRef \<times> FRDGBuilder \<times> FLogLine list) option" where
  "DirectionalGlareBloom GraphBuilder View GlobalShaderMap ActiveComponent bShouldLog Divisor
     DownsampledExtent DownsampledRect BrightPassDesc BrightPassTexture =
     (let NumStreaks = Clamp (GlareStreakCount ActiveComponent) 2 16;
          StreakLength = Clamp (real_of_int (GlareStreakLength ActiveComponent)) 5.0 200.0;
          RotationOffset = GlareRotationOffset ActiveComponent;
          Falloff = Clamp (GlareFalloff ActiveComponent) 0.5 10.0;
          ScaledStreakLength = StreakLength / real_of_int Divisor;
          AngleStep = 360.0 / real_of_int NumStreaks;
          Log1 =
            (if bShouldLog then
               [UE_LOG Warning ''DIRECTIONAL GLARE SETTINGS:'' [],
                UE_LOG Warning ''  NumStreaks: %d | StreakLength: %.1f (scaled: %.1f)''
                  [ArgInt NumStreaks, ArgFloat StreakLength, ArgFloat ScaledStreakLength],
                UE_LOG Warning ''  RotationOffset: %.1f | Falloff: %.2f | AngleStep: %.1f''
                  [ArgFloat RotationOffset, ArgFloat Falloff, ArgFloat AngleStep]]
             else [])
      in if \<not> TShaderMapRef_IsValid GlobalShaderMap FClassicBloomGlareStreakPS then
           Some (None, GraphBuilder,
                 Log1 @ (if bShouldLog then
                           [UE_LOG Warning
                              ''ClassicBloom: Glare streak shader not available, falling back to standard''
                              []]
                         else []))
         else
           (case for_up 0 NumStreaks 1
                   (GlareStreakIteration View DownsampledExtent DownsampledRect BrightPassDesc
                      BrightPassTexture AngleStep RotationOffset ScaledStreakLength Falloff)
                   ([], GraphBuilder) of
              None \<Rightarrow> None
            | Some (StreakTextures, gb1) \<Rightarrow>
                if TShaderMapRef_IsValid GlobalShaderMap FClassicBloomGlareAccumulatePS then
                  (case GlareAccumulate gb1 View DownsampledRect BrightPassDesc StreakTextures
                          NumStreaks of
                     None \<Rightarrow> None
                   | Some (AccumTexture, gb2) \<Rightarrow>
                       let (GlareBlurTemp, gb3) =
                             CreateTexture gb2 BrightPassDesc ''ClassicBloom.GlareBlurTemp'';
                           (BlurredBloomTexture, gb4) =
                             CreateTexture gb3 BrightPassDesc ''ClassicBloom.GlareBlurred'';
                           gb5 = AddFullscreenPass gb4 ''GlareBlurH'' FClassicBloomBlurPS
                                   (BlurParameters View (Some AccumTexture) DownsampledExtent
                                      (1.0, 0.0) (BloomSize ActiveComponent * 0.05) GlareBlurTemp)
                                   DownsampledRect;
                           gb6 = AddFullscreenPass gb5 ''GlareBlurV'' FClassicBloomBlurPS
                                   (BlurParameters View (Some GlareBlurTemp) DownsampledExtent
                                      (0.0, 1.0) (BloomSize ActiveComponent * 0.05)
                                      BlurredBloomTexture)
                                   DownsampledRect
                       in Some (Some BlurredBloomTexture, gb6, Log1))
                else Some (None, gb1, Log1)))"

paragraph \<open>Kawase (source lines 589 to 798)\<close>

record FKawaseMipChain =
  CurrentExtent :: FIntPoint
  CurrentRect :: FIntRect
  MipTextures :: "FRDGTexture list"
  MipExtents :: "FIntPoint list"
  MipRects :: "FIntRect list"

text \<open>One turn of the loop that sizes and creates the mips (source lines 631 to 653).\<close>

definition KawaseCreateMip ::
  "int \<Rightarrow> FKawaseMipChain \<times> FRDGBuilder \<Rightarrow> (FKawaseMipChain \<times> FRDGBuilder) option" where
  "KawaseCreateMip Mip s =
     (case s of (C, GraphBuilder) \<Rightarrow>
        let CurrentExtent1 = DivideAndRoundUp_pt (CurrentExtent C) 2;
            CurrentRect1 = \<lparr>Min_pt = ZeroValue,
                            Max_pt = DivideAndRoundUp_pt
                              \<lparr>X = Width (CurrentRect C), Y = Height (CurrentRect C)\<rparr> 2\<rparr>;
            CurrentExtent2 = CurrentExtent1\<lparr>X := max (X CurrentExtent1) 1\<rparr>;
            CurrentExtent3 = CurrentExtent2\<lparr>Y := max (Y CurrentExtent2) 1\<rparr>;
            CurrentRect2 = CurrentRect1\<lparr>Max_pt := (Max_pt CurrentRect1)
                             \<lparr>X := max (X (Max_pt CurrentRect1)) 1\<rparr>\<rparr>;
            CurrentRect3 = CurrentRect2\<lparr>Max_pt := (Max_pt CurrentRect2)
                             \<lparr>Y := max (Y (Max_pt CurrentRect2)) 1\<rparr>\<rparr>;
            MipDesc = Create2D CurrentExtent3 PF_FloatR11G11B10 Black
                        {TexCreate_ShaderResource, TexCreate_RenderTargetable};
            (MipTexture, gb1) = CreateTexture GraphBuilder MipDesc
                                  (''ClassicBloom.KawaseMip'' @ Printf_d Mip)
        in Some (\<lparr>CurrentExtent = CurrentExtent3, CurrentRect = CurrentRect3,
                  MipTextures = MipTextures C @ [MipTexture],
                  MipExtents = MipExtents C @ [CurrentExtent3],
                  MipRects = MipRects C @ [CurrentRect3]\<rparr>, gb1))"

text \<open>One turn of the downsample loop (source lines 667 to 700).\<close>

definition KawaseDownsample ::
  "FViewInfo \<Rightarrow> UBloomFXComponent \<Rightarrow> real \<Rightarrow> FKawaseMipChain \<Rightarrow> int \<Rightarrow>
   (FRDGTextureRef \<times> FIntPoint \<times> FIntRect) \<times> FRDGBuilder \<Rightarrow>
   ((FRDGTextureRef \<times> FIntPoint \<times> FIntRect) \<times> FRDGBuilder) option" where
  "KawaseDownsample View ActiveComponent ThresholdKnee C Mip s =
     (case s of ((DownsampleSource, SourceExtent, SourceRect), GraphBuilder) \<Rightarrow>
        do {
          MipExtent \<leftarrow> TArray_get (MipExtents C) Mip;
          MipRect \<leftarrow> TArray_get (MipRects C) Mip;
          MipTexture \<leftarrow> TArray_get (MipTextures C) Mip;
          let OutputViewport = FScreenPassTextureViewport MipExtent MipRect;
              SourceViewport = FScreenPassTextureViewport SourceExtent SourceRect;
              DownParams =
                [(''View'', UniformBuffer (ViewUniformBuffer View)),
                 (''SourceTexture'', TextureParam DownsampleSource),
                 (''SourceSampler'', BilinearClampSampler),
                 (''SourceSizeAndInvSize'', SizeAndInvSize (X SourceExtent) (Y SourceExtent)),
                 (''OutputSizeAndInvSize'', SizeAndInvSize (X MipExtent) (Y MipExtent)),
                 (''SvPositionToSourceUV'',
                    Transform (SvPositionToTextureUV OutputViewport SourceViewport)),
                 (''BloomThreshold'', FloatParam (BloomThreshold ActiveComponent)),
                 (''ThresholdKnee'', FloatParam ThresholdKnee),
                 (''MipLevel'', IntParam Mip),
                 (''bUseKarisAverage'', IntParam (if Mip = 0 then 1 else 0)),
                 (''RenderTargets[0]'', RenderTarget (Some MipTexture) EClear)]
          in Some ((Some MipTexture, MipExtent, MipRect),
                   AddFullscreenPass GraphBuilder (''KawaseDownsample_Mip'' @ Printf_d Mip)
                     FClassicBloomKawaseDownsamplePS DownParams MipRect)
        })"

text \<open>One turn of the loop that creates the upsample targets (source lines 716 to 726).\<close>

definition KawaseCreateUpsampleTexture ::
  "FKawaseMipChain \<Rightarrow> int \<Rightarrow> FRDGTexture list \<times> FRDGBuilder \<Rightarrow>
   (FRDGTexture list \<times> FRDGBuilder) option" where
  "KawaseCreateUpsampleTexture C Mip s =
     (case s of (UpsampleTextures, GraphBuilder) \<Rightarrow>
        do {
          MipExtent \<leftarrow> TArray_get (MipExtents C) Mip;
          let UpsampleDesc = Create2D MipExtent PF_FloatR11G11B10 Black
                               {TexCreate_ShaderResource, TexCreate_RenderTargetable};
              (UpsampleTexture, gb1) = CreateTexture GraphBuilder UpsampleDesc
                                         (''ClassicBloom.KawaseUpsample'' @ Printf_d Mip)
          in Some (UpsampleTextures @ [UpsampleTexture], gb1)
        })"

definition UpsampleParameters ::
  "FViewInfo \<Rightarrow> FRDGTexture \<Rightarrow> FRDGTexture \<Rightarrow> FIntPoint \<Rightarrow> real \<Rightarrow> FRDGTexture \<Rightarrow> FParameters" where
  "UpsampleParameters View SourceTexture PreviousMipTexture OutputExtent FilterRadius Target =
     [(''View'', UniformBuffer (ViewUniformBuffer View)),
      (''SourceTexture'', TextureParam (Some SourceTexture)),
      (''PreviousMipTexture'', TextureParam (Some PreviousMipTexture)),
      (''SourceSampler'', BilinearClampSampler),
      (''OutputSizeAndInvSize'', SizeAndInvSize (X OutputExtent) (Y OutputExtent)),
      (''FilterRadius'', FloatParam FilterRadius),
      (''RenderTargets[0]'', RenderTarget (Some Target) EClear)]"

text \<open>One turn of the upsample loop (source lines 735 to 756).\<close>

definition KawaseUpsample ::
  "FViewInfo \<Rightarrow> real \<Rightarrow> FKawaseMipChain \<Rightarrow> FRDGTexture list \<Rightarrow> int \<Rightarrow>
   (FRDGTexture \<times> FIntPoint \<times> int) \<times> FRDGBuilder \<Rightarrow>
   ((FRDGTexture \<times> FIntPoint \<times> int) \<times> FRDGBuilder) option" where
  "KawaseUpsample View FilterRadius C UpsampleTextures Mip s =
     (case s of ((UpsampleSource, UpsampleSourceExtent, UpsampleIdx), GraphBuilder) \<Rightarrow>
        do {
          PreviousMipTexture \<leftarrow> TArray_get (MipTextures C) Mip;
          MipExtent \<leftarrow> TArray_get (MipExtents C) Mip;
          Target \<leftarrow> TArray_get UpsampleTextures UpsampleIdx;
          MipRect \<leftarrow> TArray_get (MipRects C) Mip;
          Some ((Target, MipExtent, UpsampleIdx + 1),
                AddFullscreenPass GraphBuilder (''KawaseUpsample_Mip'' @ Printf_d Mip)
                  FClassicBloomKawaseUpsamplePS
                  (UpsampleParameters View UpsampleSource PreviousMipTexture MipExtent
                     FilterRadius Target)
                  MipRect)
        })"

definition KawaseBloom ::
  "FRDGBuilder \<Rightarrow> FViewInfo \<Rightarrow> FGlobalShaderMap \<Rightarrow> FRDGTexture \<Rightarrow> FIntRect \<Rightarrow>
   UBloomFXComponent \<Rightarrow> bool \<Rightarrow> FIntPoint \<Rightarrow> FIntRect \<Rightarrow> FRDGTextureDesc \<Rightarrow> FRDGTexture \<Rightarrow>
   (FRDGTextureRef \<times> FRDGBuilder \<times> FLogLine list) option" where
  "KawaseBloom GraphBuilder View GlobalShaderMap SceneColorTexture ViewRect' ActiveComponent
     bShouldLog DownsampledExtent DownsampledRect BrightPassDesc BrightPassTexture =
     (if \<not> TShaderMapRef_IsValid GlobalShaderMap FClassicBloomKawaseDownsamplePS \<or>
         \<not> TShaderMapRef_IsValid GlobalShaderMap FClassicBloomKawaseUpsamplePS then
        Some (None, GraphBuilder,
              (if bShouldLog then
                 [UE_LOG Warning
                    ''ClassicBloom: Kawase shaders not available, falling back to standard'' []]
               else []))
      else
        let MipCount = Clamp (KawaseMipCount ActiveComponent) 3 8;
            FilterRadius = Clamp (KawaseFilterRadius ActiveComponent) 0.0001 0.01;
            bSoftThreshold = bKawaseSoftThreshold ActiveComponent;
            ThresholdKnee = (if bSoftThreshold
                             then Clamp (KawaseThresholdKnee ActiveComponent) 0.0 1.0 else 0.0);
            Log1 =
              (if bShouldLog then
                 [UE_LOG Warning ''KAWASE BLOOM SETTINGS:'' [],
                  UE_LOG Warning ''  MipCount: %d | FilterRadius: %.5f''
                    [ArgInt MipCount, ArgFloat FilterRadius],
                  UE_LOG Warning ''  SoftThreshold: %d | ThresholdKnee: %.2f''
                    [ArgBool bSoftThreshold, ArgFloat ThresholdKnee],
                  UE_LOG Warning ''  BloomThreshold: %.2f | BloomIntensity: %.2f''
                    [ArgFloat (BloomThreshold ActiveComponent),
                     ArgFloat (BloomIntensity ActiveComponent)]]
               else [])
        in do {
          (C, gb1) \<leftarrow> for_up 0 MipCount 1 KawaseCreateMip
                        (\<lparr>CurrentExtent = DownsampledExtent, CurrentRect = DownsampledRect,
                          MipTextures = [], MipExtents = [], MipRects = []\<rparr>, GraphBuilder);
          (Src, gb2) \<leftarrow> for_up 0 MipCount 1
                          (KawaseDownsample View ActiveComponent ThresholdKnee C)
                          ((Some SceneColorTexture, Extent (Desc SceneColorTexture), ViewRect'),
                           gb1);
          (UpsampleTextures, gb3) \<leftarrow> for_down (MipCount - 2) (KawaseCreateUpsampleTexture C)
                                       ([], gb2);
          UpsampleSource \<leftarrow> TArray_get (MipTextures C) (MipCount - 1);
          UpsampleSourceExtent \<leftarrow> TArray_get (MipExtents C) (MipCount - 1);
          (Up, gb4) \<leftarrow> for_down (MipCount - 2)
                         (KawaseUpsample View FilterRadius C UpsampleTextures)
                         ((UpsampleSource, UpsampleSourceExtent, 0), gb3);
          (BlurredBloomTexture, gb6) \<leftarrow>
            (if int (length UpsampleTextures) > 0 then
               let (KawaseBlurred, gb5) =
                     CreateTexture gb4 BrightPassDesc ''ClassicBloom.KawaseBlurred''
               in do {
                 LastUpsample \<leftarrow> TArray_Last UpsampleTextures;
                 Mip0 \<leftarrow> TArray_get (MipTextures C) 0;
                 Some (KawaseBlurred,
                       AddFullscreenPass gb5 ''KawaseUpsample_Final'' FClassicBloomKawaseUpsamplePS
                         (UpsampleParameters View LastUpsample Mip0 DownsampledExtent FilterRadius
                            KawaseBlurred)
                         DownsampledRect)
               }
             else if int (length (MipTextures C)) > 0 then
               do { Mip0 \<leftarrow> TArray_get (MipTextures C) 0; Some (Mip0, gb4) }
             else Some (BrightPassTexture, gb4));
          Some (Some BlurredBloomTexture, gb6,
                Log1 @
                (if bShouldLog then
                   [UE_LOG Warning ''KAWASE BLOOM COMPLETED:'' [],
                    UE_LOG Warning ''  Generated %d mips, %d upsample passes''
                      [ArgInt MipCount, ArgInt (int (length UpsampleTextures))]]
                 else []))
        })"

paragraph \<open>The choice of the strategy (source lines 402 to 410, 589, 801)\<close>

definition BlurStage ::
  "FRDGBuilder \<Rightarrow> FViewInfo \<Rightarrow> FGlobalShaderMap \<Rightarrow> FRDGTexture \<Rightarrow> FIntRect \<Rightarrow>
   UBloomFXComponent \<Rightarrow> bool \<Rightarrow> int \<Rightarrow> FIntPoint \<Rightarrow> FIntRect \<Rightarrow> FRDGTextureDesc \<Rightarrow> FRDGTexture \<Rightarrow>
   (FRDGTexture \<times> FRDGBuilder \<times> FLogLine list) option" where
  "BlurStage GraphBuilder View GlobalShaderMap SceneColorTexture ViewRect' ActiveComponent
     bShouldLog Divisor DownsampledExtent DownsampledRect BrightPassDesc BrightPassTexture =
     (let bUseDirectionalGlare = (BloomMode ActiveComponent = DirectionalGlare);
          bUseKawaseBloom = (BloomMode ActiveComponent = Kawase)
      in do {
        (Blurred1, gb1, Log1) \<leftarrow>
          (if bUseDirectionalGlare then
             DirectionalGlareBloom GraphBuilder View GlobalShaderMap ActiveComponent bShouldLog Divisor
               DownsampledExtent DownsampledRect BrightPassDesc BrightPassTexture
           else Some (None, GraphBuilder, []));
        (Blurred2, gb2, Log2) \<leftarrow>
          (if bUseKawaseBloom \<and> Blurred1 = None then
             KawaseBloom gb1 View GlobalShaderMap SceneColorTexture ViewRect' ActiveComponent
               bShouldLog DownsampledExtent DownsampledRect BrightPassDesc BrightPassTexture
           else Some (Blurred1, gb1, []));
        (case Blurred2 of
           None \<Rightarrow>
             do {
               (Blurred3, gb3) \<leftarrow> StandardBlur gb2 View ActiveComponent DownsampledExtent
                                    DownsampledRect BrightPassDesc BrightPassTexture;
               Some (Blurred3, gb3, Log1 @ Log2)
             }
         | Some BlurredBloomTexture \<Rightarrow> Some (BlurredBloomTexture, gb2, Log1 @ Log2))
      })"

subsection \<open>Step 4: the composite (source lines 859 to 996)\<close>

definition Composite ::
  "FRDGBuilder \<Rightarrow> FViewInfo \<Rightarrow> FGlobalShaderMap \<Rightarrow> FScreenPassTexture \<Rightarrow> FRDGTexture \<Rightarrow>
   FScreenPassRenderTarget \<Rightarrow> UBloomFXComponent \<Rightarrow> bool \<Rightarrow> FIntPoint \<Rightarrow> FIntRect \<Rightarrow> FRDGTexture \<Rightarrow>
   (FScreenPassTexture \<times> FRDGBuilder \<times> FLogLine list) option" where
  "Composite GraphBuilder View GlobalShaderMap SceneColor SceneColorTexture OverrideOutput'
     ActiveComponent bShouldLog DownsampledExtent DownsampledRect BlurredBloomTexture =
     (let bUseSoftFocus = (BloomMode ActiveComponent = SoftFocus);
          (Output, gb1) =
            (if \<not> IsValid OverrideOutput' then
               let OutputDesc = (Desc SceneColorTexture)
                     \<lparr>ClearValue := Black,
                      Flags := Flags (Desc SceneColorTexture) \<union>
                               {TexCreate_RenderTargetable, TexCreate_ShaderResource}\<rparr>;
                   (OutputTexture, gb) = CreateTexture GraphBuilder OutputDesc ''ClassicBloom.Output''
               in (\<lparr>Texture = Some OutputTexture, ViewRect = ViewRect SceneColor,
                    LoadAction = ENoAction\<rparr>, gb)
             else (OverrideOutput', GraphBuilder))
      in do {
        OutputTexture \<leftarrow> Texture Output;
        let OutputViewport = FScreenPassTextureViewport
              \<lparr>X = X (Extent (Desc OutputTexture)), Y = Y (Extent (Desc OutputTexture))\<rparr>
              (ViewRect Output);
            SceneColorViewport = FScreenPassTextureViewport
              \<lparr>X = X (Extent (Desc SceneColorTexture)), Y = Y (Extent (Desc SceneColorTexture))\<rparr>
              (ViewRect SceneColor);
            BloomViewport = FScreenPassTextureViewport DownsampledExtent DownsampledRect;
            SvPositionToSceneColorUV = SvPositionToTextureUV OutputViewport SceneColorViewport;
            SvPositionToBloomUV = SvPositionToTextureUV OutputViewport BloomViewport;
            BloomIntensity' = (if bUseSoftFocus then 0.0 else BloomIntensity ActiveComponent);
            Log1 =
              (if bShouldLog then
                 [UE_LOG Warning ''FINAL SHADER PARAMETERS:'' [],
                  UE_LOG Warning ''  BloomMode: %d (SoftFocus: %d) | BloomIntensity: %.3f''
                    [ArgInt (BloomMode_to_int (BloomMode ActiveComponent)), ArgBool bUseSoftFocus,
                     ArgFloat BloomIntensity'],
                  UE_LOG Warning ''  SoftFocusIntensity: %.3f''
                    [ArgFloat (if bUseSoftFocus then BloomIntensity ActiveComponent else 0.0)],
                  UE_LOG Warning ''  bUseAdaptiveScaling: %d''
                    [ArgBool (bUseAdaptiveBrightnessScaling ActiveComponent)],
                  UE_LOG Warning ''VIEWPORT MAPPING:'' [],
                  UE_LOG Warning ''  Output: Extent[%d,%d] ViewRect[%d,%d]-[%d,%d]''
                    [ArgInt (X (Extent (Desc OutputTexture))), ArgInt (Y (Extent (Desc OutputTexture))),
                     ArgInt (X (Min_pt (ViewRect Output))), ArgInt (Y (Min_pt (ViewRect Output))),
                     ArgInt (X (Max_pt (ViewRect Output))), ArgInt (Y (Max_pt (ViewRect Output)))],
                  UE_LOG Warning ''  SceneColor: Extent[%d,%d] ViewRect[%d,%d]-[%d,%d]''
                    [ArgInt (X (Extent (Desc SceneColorTexture))),
                     ArgInt (Y (Extent (Desc SceneColorTexture))),
                     ArgInt (X (Min_pt (ViewRect SceneColor))), ArgInt (Y (Min_pt (ViewRect SceneColor))),
                     ArgInt (X (Max_pt (ViewRect SceneColor))), ArgInt (Y (Max_pt (ViewRect SceneColor)))],
                  UE_LOG Warning ''  Bloom: Extent[%d,%d] Rect[%d,%d]-[%d,%d]''
                    [ArgInt (X DownsampledExtent), ArgInt (Y DownsampledExtent),
                     ArgInt (X (Min_pt DownsampledRect)), ArgInt (Y (Min_pt DownsampledRect)),
                     ArgInt (X (Max_pt DownsampledRect)), ArgInt (Y (Max_pt DownsampledRect))],
                  UE_LOG Warning ''  SvPosToSceneColorUV: Scale[%.4f,%.4f] Bias[%.4f,%.4f]''
                    [ArgCoefficient SvPositionToSceneColorUV Scale_X,
                     ArgCoefficient SvPositionToSceneColorUV Scale_Y,
                     ArgCoefficient SvPositionToSceneColorUV Bias_X,
                     ArgCoefficient SvPositionToSceneColorUV Bias_Y],
                  UE_LOG Warning ''  SvPosToBloomUV: Scale[%.4f,%.4f] Bias[%.4f,%.4f]''
                    [ArgCoefficient SvPositionToBloomUV Scale_X,
                     ArgCoefficient SvPositionToBloomUV Scale_Y,
                     ArgCoefficient SvPositionToBloomUV Bias_X,
                     ArgCoefficient SvPositionToBloomUV Bias_Y]]
               else []);
            TintWithFlag = (BloomTint ActiveComponent)
                             \<lparr>A := (if bUseSceneColor ActiveComponent then 1.0 else 0.0)\<rparr>;
            bIsGameWorld = (case World_of View of None \<Rightarrow> False | Some World \<Rightarrow> IsGameWorld World);
            PassParameters =
              [(''View'', UniformBuffer (ViewUniformBuffer View)),
               (''SceneColorTexture'', TextureParam (Some SceneColorTexture)),
               (''SceneColorSampler'', BilinearClampSampler),
               (''BloomTexture'', TextureParam (Some BlurredBloomTexture)),
               (''BloomSampler'', BilinearClampSampler),
               (''OutputViewportSizeAndInvSize'',
                  SizeAndInvSize (Width (ViewRect Output)) (Height (ViewRect Output))),
               (''SvPositionToSceneColorUV'', Transform SvPositionToSceneColorUV),
               (''SvPositionToBloomUV'', Transform SvPositionToBloomUV),
               (''BloomIntensity'', FloatParam BloomIntensity'),
               (''BloomTint'', Vector4f (R TintWithFlag) (G TintWithFlag) (B TintWithFlag)
                                 (A TintWithFlag)),
               (''BloomBlendMode'', FloatParam (BlendMode_to_float (BloomBlendMode ActiveComponent))),
               (''BloomSaturation'', FloatParam (BloomSaturation ActiveComponent)),
               (''bProtectHighlights'',
                  FloatParam (if bProtectHighlights ActiveComponent then 1.0 else 0.0)),
               (''HighlightProtection'', FloatParam (HighlightProtection ActiveComponent)),
               (''SoftFocusIntensity'',
                  FloatParam (if bUseSoftFocus then BloomIntensity ActiveComponent else 0.0)),
               (''SoftFocusParams'',
                  Vector4f (SoftFocusOverlayMultiplier ActiveComponent)
                    (SoftFocusBlendStrength ActiveComponent)
                    (SoftFocusSoftLightMultiplier ActiveComponent)
                    (SoftFocusFinalBlend ActiveComponent)),
               (''bUseAdaptiveScaling'',
                  FloatParam (if bUseAdaptiveBrightnessScaling ActiveComponent then 1.0 else 0.0)),
               (''bShowBloomOnly'', FloatParam (if bShowBloomOnly ActiveComponent then 1.0 else 0.0)),
               (''bShowGammaCompensation'',
                  FloatParam (if bShowGammaCompensation ActiveComponent then 1.0 else 0.0)),
               (''bIsGameWorld'', FloatParam (if bIsGameWorld then 1.0 else 0.0)),
               (''GameModeBloomScale'', FloatParam (GameModeBloomScale ActiveComponent)),
               (''RenderTargets[0]'', RenderTarget (Texture Output) (LoadAction Output))]
        in if \<not> TShaderMapRef_IsValid GlobalShaderMap FClassicBloomCompositePS then
             Some (SceneColor, gb1,
                   Log1 @ (if bShouldLog then
                             [UE_LOG Warning ''ClassicBloom: Composite shader not available'' []]
                           else []))
           else
             Some (FScreenPassTexture.truncate Output,
                   AddFullscreenPass gb1 ''CompositeBloom'' FClassicBloomCompositePS PassParameters
                     (ViewRect Output),
                   Log1 @
                   (if bShouldLog then
                      [UE_LOG Log
                         ''ClassicBloom: Successfully rendered bloom (Downsampled: %dx%d, Output ViewRect: [%d,%d]-[%d,%d])''
                         [ArgInt (Width DownsampledRect), ArgInt (Height DownsampledRect),
                          ArgInt (X (Min_pt (ViewRect Output))), ArgInt (Y (Min_pt (ViewRect Output))),
                          ArgInt (X (Max_pt (ViewRect Output))), ArgInt (Y (Max_pt (ViewRect Output)))]]
                    else []))
      })"

subsection \<open>The callback of the post-processing pass\<close>

text \<open>
  The part of \<^verbatim>\<open>PostProcessPass_RenderThread\<close> inside the event scope
  \<^verbatim>\<open>"ClassicBloom"\<close> (source lines 235 to 996): it runs once an active component with a
  positive intensity has been found.
\<close>

definition ClassicBloomScope ::
  "FRenderThreadContext \<Rightarrow> FRDGBuilder \<Rightarrow> FViewInfo \<Rightarrow> FPostProcessMaterialInputs \<Rightarrow>
   FGlobalShaderMap \<Rightarrow> UBloomFXComponent \<Rightarrow> FFrameResult option" where
  "ClassicBloomScope Ctx GraphBuilder View Inputs GlobalShaderMap ActiveComponent =
     (let SceneColor = SceneColorInput Inputs
      in do {
        SceneColorTexture \<leftarrow> Texture SceneColor;
        let SceneColorExtent = Extent (Desc SceneColorTexture);
            ViewRect' = ViewRect SceneColor;
            bDebugLog = bEnableDebugLogging ActiveComponent;
            bShouldLog = (bDebugLog \<and> CurrentTime Ctx - LastLogTime Ctx > 1.0);
            LastLogTime' = (if bShouldLog then CurrentTime Ctx else LastLogTime Ctx);
            Log0 = (if bShouldLog
                    then DebugLogFrame View SceneColorExtent ViewRect' ActiveComponent else [])
        in if Width ViewRect' \<le> 0 \<or> Height ViewRect' \<le> 0 then
             Some \<lparr>ReturnValue = SceneColor, Graph = GraphBuilder, LogOutput = Log0,
                   NewLastLogTime = LastLogTime'\<rparr>
           else
             let Divisor = ComputeDivisor ActiveComponent;
                 DownsampledExtent = ComputeDownsampledExtent ViewRect' Divisor;
                 DownsampledRect = ComputeDownsampledRect DownsampledExtent
             in if Width DownsampledRect \<le> 0 \<or> Height DownsampledRect \<le> 0 then
                  Some \<lparr>ReturnValue = SceneColor, Graph = GraphBuilder, LogOutput = Log0,
                        NewLastLogTime = LastLogTime'\<rparr>
                else
                  let BrightPassDesc = BrightPassDesc_of DownsampledExtent;
                      (BrightPassTexture, gb1) =
                        CreateTexture GraphBuilder BrightPassDesc ''ClassicBloom.BrightPass''
                  in if \<not> TShaderMapRef_IsValid GlobalShaderMap FClassicBloomBrightPassPS then
                       Some \<lparr>ReturnValue = SceneColor, Graph = gb1, LogOutput = Log0,
                             NewLastLogTime = LastLogTime'\<rparr>
                     else
                       let (gb2, Log1) = BrightPass gb1 View SceneColorTexture ViewRect'
                                           ActiveComponent bShouldLog DownsampledExtent
                                           DownsampledRect BrightPassTexture
                       in do {
                         (BlurredBloomTexture, gb3, Log2) \<leftarrow>
                           BlurStage gb2 View GlobalShaderMap SceneColorTexture ViewRect'
                             ActiveComponent bShouldLog Divisor DownsampledExtent DownsampledRect
                             BrightPassDesc BrightPassTexture;
                         (Result, gb4, Log3) \<leftarrow>
                           Composite gb3 View GlobalShaderMap SceneColor SceneColorTexture
                             (OverrideOutput Inputs) ActiveComponent bShouldLog DownsampledExtent
                             DownsampledRect BlurredBloomTexture;
                         Some \<lparr>ReturnValue = Result, Graph = gb4,
                               LogOutput = Log0 @ Log1 @ Log2 @ Log3,
                               NewLastLogTime = LastLogTime'\<rparr>
                       }
      })"

text \<open>
  \<^verbatim>\<open>FClassicBloomSceneViewExtension::PostProcessPass_RenderThread\<close>: the gates of source
  lines 172 to 233, then the scope above.
\<close>

definition Unchanged :: "FRenderThreadContext \<Rightarrow> FRDGBuilder \<Rightarrow> FScreenPassTexture \<Rightarrow> FFrameResult" where
  "Unchanged Ctx GraphBuilder SceneColor =
     \<lparr>ReturnValue = SceneColor, Graph = GraphBuilder, LogOutput = [],
      NewLastLogTime = LastLogTime Ctx\<rparr>"

definition PostProcessPass_RenderThread ::
  "FRenderThreadContext \<Rightarrow> FRDGBuilder \<Rightarrow> FViewInfo \<Rightarrow> FPostProcessMaterialInputs \<Rightarrow>
   FFrameResult option" where
  "PostProcessPass_RenderThread Ctx GraphBuilder View Inputs =
     (let SceneColor = SceneColorInput Inputs
      in if \<not> IsValid SceneColor then Some (Unchanged Ctx GraphBuilder SceneColor)
         else if bIsReflectionCapture View \<or> bIsSceneCapture View \<or> \<not> bIsViewInfo View then
           Some (Unchanged Ctx GraphBuilder SceneColor)
         else if \<not> Rendering (EngineShowFlags (Family View)) \<or>
                 \<not> PostProcessing (EngineShowFlags (Family View)) \<or>
                 Wireframe (EngineShowFlags (Family View)) then
           Some (Unchanged Ctx GraphBuilder SceneColor)
         else
           (case ShaderMap View of
              None \<Rightarrow> Some (Unchanged Ctx GraphBuilder SceneColor)
            | Some GlobalShaderMap \<Rightarrow>
                (case WeakSubsystem Ctx of
                   None \<Rightarrow> Some (Unchanged Ctx GraphBuilder SceneColor)
                 | Some Subsystem \<Rightarrow>
                     (case FindActiveComponent (Objects Ctx) (BloomComponents Subsystem) of
                        None \<Rightarrow> Some (Unchanged Ctx GraphBuilder SceneColor)
                      | Some ActiveComponent \<Rightarrow>
                          if BloomIntensity ActiveComponent \<le> 0.0 then
                            Some (Unchanged Ctx GraphBuilder SceneColor)
                          else
                            ClassicBloomScope Ctx GraphBuilder View Inputs GlobalShaderMap
                              ActiveComponent))))"

subsection \<open>Notions used in the statements\<close>

text \<open>A weak pointer of the subsystem counts when it is valid and its component is active.\<close>

definition ValidAndActive :: "(ObjectHandle \<Rightarrow> UBloomFXComponent option) \<Rightarrow> ObjectHandle \<Rightarrow> bool" where
  "ValidAndActive Objs CompPtr = (case Objs CompPtr of None \<Rightarrow> False | Some Comp \<Rightarrow> IsActive Comp)"

text \<open>The passes and the textures a run adds to the graph it is given.\<close>

definition NewPasses :: "FRDGBuilder \<Rightarrow> FRDGBuilder \<Rightarrow> FPass list" where
  "NewPasses Before After = drop (length (Passes Before)) (Passes After)"

definition NewTextures :: "FRDGBuilder \<Rightarrow> FRDGBuilder \<Rightarrow> FRDGTexture list" where
  "NewTextures Before After = drop (length (Textures Before)) (Textures After)"

text \<open>What a run adds to the graph, and the parameters of a pass.\<close>

definition ExtendsGraph :: "FRDGBuilder \<Rightarrow> FRDGBuilder \<Rightarrow> EShader set \<Rightarrow> bool" where
  "ExtendsGraph Before After Sh \<longleftrightarrow>
     (\<exists>ts. Textures After = Textures Before @ ts) \<and>
     (\<exists>ps. Passes After = Passes Before @ ps \<and> (\<forall>p \<in> set ps. Shader p \<in> Sh))"

definition Param :: "FPass \<Rightarrow> string \<Rightarrow> FParameterValue option" where
  "Param p k = map_of (Parameters p) k"

definition TargetTexture :: "FPass \<Rightarrow> FRDGTextureRef" where
  "TargetTexture p = (case Param p ''RenderTargets[0]'' of Some (RenderTarget t a) \<Rightarrow> t | _ \<Rightarrow> None)"

datatype AccumulateInput = Streak nat | PreviousAccumulation

definition FirstBatch :: "nat \<Rightarrow> AccumulateInput list" where
  "FirstBatch K = map (\<lambda>j. Streak (if j < min K 4 then j else 0)) [0, 1, 2, 3]"

definition NextBatch :: "nat \<Rightarrow> nat \<Rightarrow> AccumulateInput list" where
  "NextBatch K b =
     PreviousAccumulation # map (\<lambda>j. Streak (if b + j < K then b + j else b)) [0, 1, 2]"

definition AccumulationBatches :: "nat \<Rightarrow> AccumulateInput list list" where
  "AccumulationBatches K =
     FirstBatch K # map (\<lambda>n. NextBatch K (4 + 3 * n)) [0..<(K - 2) div 3]"

definition StreakInputs :: "FPass \<Rightarrow> FParameterValue option list" where
  "StreakInputs p =
     map (Param p) [''StreakTexture0'', ''StreakTexture1'', ''StreakTexture2'', ''StreakTexture3'']"

fun BoundInput :: "FRDGTextureRef list \<Rightarrow> FRDGTextureRef \<Rightarrow> AccumulateInput \<Rightarrow> FParameterValue option" where
  "BoundInput Streaks Prev (Streak i) = Some (TextureParam (Streaks ! i))"
| "BoundInput Streaks Prev PreviousAccumulation = Some (TextureParam Prev)"

definition BatchAt :: "nat \<Rightarrow> nat \<Rightarrow> AccumulateInput list" where
  "BatchAt K n = (if n = 0 then FirstBatch K else NextBatch K (4 + 3 * (n - 1)))"

definition AccumInvariant ::
  "FRDGBuilder \<Rightarrow> FRDGTexture list \<Rightarrow> int \<Rightarrow> int \<Rightarrow> FRDGTexture \<times> FRDGBuilder \<Rightarrow> bool" where
  "AccumInvariant gb S K j s \<longleftrightarrow>
     (\<exists>m ps ts. j = 4 + 3 * int m \<and> Passes (snd s) = Passes gb @ ps \<and>
        Textures (snd s) = Textures gb @ ts \<and> length ps = m + 1 \<and>
        TargetTexture (last ps) = Some (fst s) \<and>
        (\<forall>p \<in> set ps. Shader p = FClassicBloomGlareAccumulatePS) \<and>
        (\<forall>n < length ps. StreakInputs (ps ! n) =
           map (BoundInput (map Some S) (if n = 0 then None else TargetTexture (ps ! (n - 1))))
             (BatchAt (nat K) n)))"

text \<open>The Kawase pyramid: sizes, passes, loop invariants.\<close>

definition HalfExtent :: "FIntPoint \<Rightarrow> FIntPoint" where
  "HalfExtent p = \<lparr>X = max 1 \<lceil>real_of_int (X p) / 2\<rceil>, Y = max 1 \<lceil>real_of_int (Y p) / 2\<rceil>\<rparr>"

fun MipExtentAt :: "FIntPoint \<Rightarrow> nat \<Rightarrow> FIntPoint" where
  "MipExtentAt E 0 = HalfExtent E"
| "MipExtentAt E (Suc k) = HalfExtent (MipExtentAt E k)"

definition RectOfExtent :: "FIntPoint \<Rightarrow> FIntRect" where
  "RectOfExtent E = \<lparr>Min_pt = \<lparr>X = 0, Y = 0\<rparr>, Max_pt = E\<rparr>"

definition MipInvariant ::
  "FRDGBuilder \<Rightarrow> FIntPoint \<Rightarrow> int \<Rightarrow> FKawaseMipChain \<times> FRDGBuilder \<Rightarrow> bool" where
  "MipInvariant gb Ext j s \<longleftrightarrow>
     length (MipTextures (fst s)) = nat j \<and>
     MipExtents (fst s) = map (MipExtentAt Ext) [0..<nat j] \<and>
     MipRects (fst s) = map RectOfExtent (MipExtents (fst s)) \<and>
     map (\<lambda>T. Extent (Desc T)) (MipTextures (fst s)) = MipExtents (fst s) \<and>
     Textures (snd s) = Textures gb @ MipTextures (fst s) \<and> Passes (snd s) = Passes gb \<and>
     CurrentExtent (fst s) = (if j = 0 then Ext else MipExtentAt Ext (nat j - 1)) \<and>
     Width (CurrentRect (fst s)) = X (CurrentExtent (fst s)) \<and>
     Height (CurrentRect (fst s)) = Y (CurrentExtent (fst s))"

definition IsDownsamplePass :: "FKawaseMipChain \<Rightarrow> FRDGTexture \<Rightarrow> nat \<Rightarrow> FPass \<Rightarrow> bool" where
  "IsDownsamplePass C SceneTex k p \<longleftrightarrow>
     Shader p = FClassicBloomKawaseDownsamplePS \<and>
     Param p ''SourceTexture'' =
       Some (TextureParam (Some (if k = 0 then SceneTex else MipTextures C ! (k - 1)))) \<and>
     Param p ''bUseKarisAverage'' = Some (IntParam (if k = 0 then 1 else 0)) \<and>
     TargetTexture p = Some (MipTextures C ! k) \<and>
     PassViewport p = MipRects C ! k"

definition IsUpsamplePass ::
  "FKawaseMipChain \<Rightarrow> FRDGTexture list \<Rightarrow> nat \<Rightarrow> nat \<Rightarrow> FPass \<Rightarrow> bool" where
  "IsUpsamplePass C U M i p \<longleftrightarrow>
     Shader p = FClassicBloomKawaseUpsamplePS \<and>
     Param p ''SourceTexture'' =
       Some (TextureParam (Some (if i = 0 then MipTextures C ! (M - 1) else U ! (i - 1)))) \<and>
     Param p ''PreviousMipTexture'' = Some (TextureParam (Some (MipTextures C ! (M - 2 - i)))) \<and>
     TargetTexture p = Some (U ! i) \<and>
     PassViewport p = MipRects C ! (M - 2 - i)"

definition DownInvariant ::
  "FRDGBuilder \<Rightarrow> FKawaseMipChain \<Rightarrow> FRDGTexture \<Rightarrow> int \<Rightarrow>
   (FRDGTextureRef \<times> FIntPoint \<times> FIntRect) \<times> FRDGBuilder \<Rightarrow> bool" where
  "DownInvariant gb C SceneTex j s \<longleftrightarrow>
     (\<exists>ps. Passes (snd s) = Passes gb @ ps \<and> Textures (snd s) = Textures gb \<and>
        length ps = nat j \<and>
        fst (fst s) = Some (if j = 0 then SceneTex else MipTextures C ! (nat j - 1)) \<and>
        (\<forall>k < length ps. IsDownsamplePass C SceneTex k (ps ! k)))"

definition UpTexInvariant ::
  "FRDGBuilder \<Rightarrow> FKawaseMipChain \<Rightarrow> int \<Rightarrow> int \<Rightarrow> FRDGTexture list \<times> FRDGBuilder \<Rightarrow> bool" where
  "UpTexInvariant gb C M j s \<longleftrightarrow>
     length (fst s) = nat (M - 2 - j) \<and> Textures (snd s) = Textures gb @ fst s \<and>
     Passes (snd s) = Passes gb \<and>
     (\<forall>i < length (fst s). Extent (Desc (fst s ! i)) = MipExtents C ! (nat M - 2 - i))"

definition UpInvariant ::
  "FRDGBuilder \<Rightarrow> FKawaseMipChain \<Rightarrow> FRDGTexture list \<Rightarrow> int \<Rightarrow> int \<Rightarrow>
   (FRDGTexture \<times> FIntPoint \<times> int) \<times> FRDGBuilder \<Rightarrow> bool" where
  "UpInvariant gb C U M j s \<longleftrightarrow>
     snd (snd (fst s)) = M - 2 - j \<and>
     (\<exists>ps. Passes (snd s) = Passes gb @ ps \<and> Textures (snd s) = Textures gb \<and>
        length ps = nat (M - 2 - j) \<and>
        fst (fst s) = (if M - 2 - j = 0 then MipTextures C ! (nat M - 1)
                       else U ! (nat (M - 2 - j) - 1)) \<and>
        (\<forall>i < length ps. IsUpsamplePass C U (nat M) i (ps ! i)))"

text \<open>
  A frame that passes every gate of the callback: \<^verbatim>\<open>sm\<close> is the shader map of the view,
  \<^verbatim>\<open>c\<close> the first valid and active component, its intensity is positive and the scene
  colour rectangle has a positive width and height.
\<close>

definition FrameRuns ::
  "FRenderThreadContext \<Rightarrow> FViewInfo \<Rightarrow> FPostProcessMaterialInputs \<Rightarrow> FGlobalShaderMap \<Rightarrow>
   UBloomFXComponent \<Rightarrow> bool" where
  "FrameRuns Ctx View Inputs sm c \<longleftrightarrow>
     IsValid (SceneColorInput Inputs) \<and>
     \<not> bIsReflectionCapture View \<and> \<not> bIsSceneCapture View \<and> bIsViewInfo View \<and>
     Rendering (EngineShowFlags (Family View)) \<and>
     PostProcessing (EngineShowFlags (Family View)) \<and>
     \<not> Wireframe (EngineShowFlags (Family View)) \<and>
     ShaderMap View = Some sm \<and>
     (case WeakSubsystem Ctx of
        None \<Rightarrow> False
      | Some S \<Rightarrow> FindActiveComponent (Objects Ctx) (BloomComponents S) = Some c) \<and>
     0 < BloomIntensity c \<and>
     0 < Width (ViewRect (SceneColorInput Inputs)) \<and>
     0 < Height (ViewRect (SceneColorInput Inputs))"

text \<open>The coordinate transforms among the parameters of a pass, in the order of assignment.\<close>

fun TransformsOf :: "FParameters \<Rightarrow> (string \<times> FScreenTransform) list" where
  "TransformsOf [] = []"
| "TransformsOf ((k, Transform t) # ps) = (k, t) # TransformsOf ps"
| "TransformsOf (_ # ps) = TransformsOf ps"

text \<open>What a frame leaves in the graph: the names of its passes, the transforms of its composite passes.\<close>

definition RecordedPasses :: "FFrameResult option \<Rightarrow> string list" where
  "RecordedPasses r = (case r of None \<Rightarrow> [] | Some r \<Rightarrow> map EventName (Passes (Graph r)))"

definition CompositeTransforms :: "FFrameResult option \<Rightarrow> (string \<times> FScreenTransform) list list" where
  "CompositeTransforms r =
     (case r of
        None \<Rightarrow> []
      | Some r \<Rightarrow> map (\<lambda>p. TransformsOf (Parameters p))
                    (filter (\<lambda>p. Shader p = FClassicBloomCompositePS) (Passes (Graph r))))"

subsection \<open>A concrete frame\<close>

text \<open>
  The component with the defaults of \<^verbatim>\<open>BloomFXComponent.h\<close>, a 1920 by 1080 scene colour,
  a game view, no override output, every program available.
\<close>

definition DefaultComponent :: UBloomFXComponent where
  "DefaultComponent =
     \<lparr>IsActive = True, BloomMode = Standard, BloomIntensity = 2.0, BloomThreshold = 0.8,
      BloomSize = 4.0, bUseSceneColor = True, BloomTint = \<lparr>R = 1, G = 1, B = 1, A = 1\<rparr>,
      BloomBlendMode = Screen, BloomSaturation = 1.0, bProtectHighlights = False,
      HighlightProtection = 0.5, DownsampleScale = 1.0, BlurPasses = 1, BlurSamples = 5,
      bHighQualityUpsampling = False, GlareStreakCount = 6, GlareStreakLength = 40,
      GlareRotationOffset = 0.0, GlareFalloff = 3.0, KawaseMipCount = 5,
      KawaseFilterRadius = 0.002, bKawaseSoftThreshold = True, KawaseThresholdKnee = 0.5,
      SoftFocusOverlayMultiplier = 0.5, SoftFocusBlendStrength = 0.33,
      SoftFocusSoftLightMultiplier = 0.4, SoftFocusFinalBlend = 0.25,
      PostProcessPass = Tonemap, bUseAdaptiveBrightnessScaling = False,
      GameModeBloomScale = 1.0, bEnableDebugLogging = False, bShowBloomOnly = False,
      bShowGammaCompensation = False, bAutoReinitializeRect = False,
      ReinitializeInterval = 1.0, bReinitializeRect = False\<rparr>"

definition ExampleSceneColorTexture :: FRDGTexture where
  "ExampleSceneColorTexture =
     \<lparr>Handle = 0,
      Desc = Create2D \<lparr>X = 1920, Y = 1080\<rparr> PF_FloatR11G11B10 Black {TexCreate_ShaderResource},
      Name = ''SceneColor''\<rparr>"

definition ExampleGraph :: FRDGBuilder where
  "ExampleGraph = \<lparr>Textures = [ExampleSceneColorTexture], Passes = []\<rparr>"

definition AllShaders :: FGlobalShaderMap where
  "AllShaders =
     {FClassicBloomBrightPassPS, FClassicBloomBlurPS, FClassicBloomCompositePS,
      FClassicBloomGlareStreakPS, FClassicBloomGlareAccumulatePS,
      FClassicBloomKawaseDownsamplePS, FClassicBloomKawaseUpsamplePS}"

definition ExampleView :: "FGlobalShaderMap \<Rightarrow> FViewInfo" where
  "ExampleView GlobalShaderMap =
     \<lparr>bIsReflectionCapture = False, bIsSceneCapture = False, bIsViewInfo = True,
      bIsGameView = True, ShaderMap = Some GlobalShaderMap,
      Family = \<lparr>Scene = Some \<lparr>GetWorld = Some \<lparr>WorldType = Game, IsGameWorld = True\<rparr>\<rparr>,
                EngineShowFlags = \<lparr>Rendering = True, PostProcessing = True, Wireframe = False\<rparr>\<rparr>,
      ViewUniformBuffer = 0\<rparr>"

definition ExampleRect :: "int \<Rightarrow> int \<Rightarrow> FIntRect" where
  "ExampleRect W H = \<lparr>Min_pt = \<lparr>X = 0, Y = 0\<rparr>, Max_pt = \<lparr>X = W, Y = H\<rparr>\<rparr>"

definition ExampleInputs :: "FIntRect \<Rightarrow> FPostProcessMaterialInputs" where
  "ExampleInputs Rect =
     \<lparr>SceneColorInput = \<lparr>Texture = Some ExampleSceneColorTexture, ViewRect = Rect\<rparr>,
      OverrideOutput = \<lparr>Texture = None, ViewRect = \<lparr>Min_pt = ZeroValue, Max_pt = ZeroValue\<rparr>,
                        LoadAction = ENoAction\<rparr>\<rparr>"

text \<open>One registered component, behind handle 7; handle 3 is stale.\<close>

definition ExampleContext :: "UBloomFXComponent \<Rightarrow> FRenderThreadContext" where
  "ExampleContext Comp =
     \<lparr>WeakSubsystem = Some \<lparr>BloomComponents = [3, 7]\<rparr>,
      Objects = (\<lambda>h. if h = 7 then Some Comp else None),
      CurrentTime = 10.0, LastLogTime = 0.0\<rparr>"

text \<open>The graph of that frame once the bright-pass texture exists, at half resolution.\<close>

definition ExampleBrightPass :: "FRDGTexture \<times> FRDGBuilder" where
  "ExampleBrightPass =
     CreateTexture ExampleGraph (BrightPassDesc_of \<lparr>X = 960, Y = 540\<rparr>) ''ClassicBloom.BrightPass''"

section \<open>Properties\<close>

subsection \<open>Arithmetic of the working resolution\<close>

lemma sdiv_nonneg: "0 \<le> a \<Longrightarrow> 0 < b \<Longrightarrow> a sdiv b = a div (b::int)"
  by (simp add: signed_divide_int_def sgn_if)

lemma DivideAndRoundUp_pos:
  assumes "0 < a" "0 < b"
  shows "DivideAndRoundUp a b = \<lceil>real_of_int a / real_of_int b\<rceil>"
proof -
  have "(a + b - 1) div b = - ((- a) div b)"
  proof (cases "a mod b = 0")
    case True
    have "a + b - 1 = b * (a div b) + (b - 1)" using mult_div_mod_eq [of b a] True by simp
    then have "(a + b - 1) div b = a div b"
      by (rule int_div_pos_eq [where r = "b - 1"]) (use assms in auto)
    with True assms show ?thesis by (simp add: zdiv_zminus1_eq_if)
  next
    case False
    then have m: "0 < a mod b" using assms by (simp add: order_less_le)
    have mb: "a mod b < b" using assms by simp
    have e: "a + b - 1 = b * (a div b + 1) + (a mod b - 1)"
      using mult_div_mod_eq [of b a] by (simp add: algebra_simps)
    have "(a + b - 1) div b = a div b + 1"
    proof (rule int_div_pos_eq [where r = "a mod b - 1"])
      show "a + b - 1 = b * (a div b + 1) + (a mod b - 1)" by (fact e)
      show "0 \<le> a mod b - 1" using m by linarith
      show "a mod b - 1 < b" using mb by linarith
    qed
    with False assms show ?thesis by (simp add: zdiv_zminus1_eq_if)
  qed
  then show ?thesis using assms
    by (simp add: DivideAndRoundUp_def sdiv_nonneg ceiling_divide_eq_div)
qed

lemma DivideAndRoundUp_ge1: "0 < a \<Longrightarrow> 0 < b \<Longrightarrow> 1 \<le> DivideAndRoundUp a b"
  using pos_imp_zdiv_pos_iff [of b "a + b - 1"]
  by (simp add: DivideAndRoundUp_def sdiv_nonneg)

lemma DivideAndRoundUp_nonpos:
  assumes "a \<le> 0" "0 < b" shows "DivideAndRoundUp a b \<le> 0"
proof (cases "0 \<le> a + b - 1")
  case True
  then have "(a + b - 1) div b = 0" using assms by (intro div_pos_pos_trivial) auto
  with True assms show ?thesis by (simp add: DivideAndRoundUp_def sdiv_nonneg)
next
  case False
  have "0 \<le> \<bar>a + b - 1\<bar> div b" using assms by (simp add: pos_imp_zdiv_nonneg_iff)
  with False assms show ?thesis
    by (simp add: DivideAndRoundUp_def signed_divide_int_def sgn_if)
qed

lemma Clamp_bounds: "lo \<le> hi \<Longrightarrow> lo \<le> Clamp x lo hi \<and> Clamp x lo hi \<le> hi"
  by (auto simp: Clamp_def)

subsection \<open>Single precision between 1 and 8\<close>

lemma pow2_powr: "pow2 e = 2 powr real_of_int e"
  by (simp add: pow2_def powr_int)

lemma pow2_pos: "0 < pow2 e" by (simp add: pow2_powr)

lemma pow2_add: "pow2 (a + b) = pow2 a * pow2 b"
  by (simp add: pow2_powr powr_add)

lemma pow2_le_iff: "pow2 a \<le> pow2 b \<longleftrightarrow> a \<le> b"
  by (simp add: pow2_powr)

lemma pow2_less_iff: "pow2 a < pow2 b \<longleftrightarrow> a < b"
  by (simp add: pow2_powr)

lemma pow2_numeral: "pow2 0 = 1" "pow2 1 = 2" "pow2 3 = 8" "pow2 4 = 16" "pow2 23 = 8388608"
  "pow2 24 = 16777216" "pow2 (- 1) = 1 / 2" "pow2 (- 21) = 1 / 2097152"
  "pow2 (- 20) = 1 / 1048576"
  by (simp_all add: pow2_def)

lemma float32_exponent_from_spec:
  "pow2 e \<le> x \<Longrightarrow> x < pow2 (e + 1 + int n) \<Longrightarrow>
   pow2 (float32_exponent_from n e x) \<le> x \<and> x < pow2 (float32_exponent_from n e x + 1)"
proof (induction n arbitrary: e)
  case 0
  then show ?case by simp
next
  case (Suc n)
  show ?case
  proof (cases "x < pow2 (e + 1)")
    case True
    with Suc.prems show ?thesis by simp
  next
    case False
    then have "pow2 (e + 1) \<le> x" by simp
    moreover have "x < pow2 (e + 1 + 1 + int n)" using Suc.prems(2) by (simp add: add.commute add.left_commute)
    ultimately show ?thesis using Suc.IH [of "e + 1"] False by simp
  qed
qed

lemma float32_exponent_spec:
  assumes "1 \<le> x" "x < 16"
  shows "pow2 (float32_exponent x) \<le> x" "x < pow2 (float32_exponent x + 1)"
proof -
  have a: "pow2 (- 126) \<le> \<bar>x\<bar>"
  proof -
    have "pow2 (- 126) \<le> pow2 0" unfolding pow2_le_iff by simp
    then show ?thesis using assms by (simp add: pow2_numeral)
  qed
  have b: "\<bar>x\<bar> < pow2 (- 126 + 1 + int 253)"
  proof -
    have "pow2 4 \<le> pow2 (- 126 + 1 + int 253)" unfolding pow2_le_iff by simp
    then show ?thesis using assms by (simp add: pow2_numeral)
  qed
  from float32_exponent_from_spec [OF a b] assms
  show "pow2 (float32_exponent x) \<le> x" "x < pow2 (float32_exponent x + 1)"
    by (simp_all add: float32_exponent_def)
qed

lemma RoundHalfEven_bounds:
  "real_of_int n \<le> x \<Longrightarrow> n \<le> RoundHalfEven x"
  "x \<le> real_of_int n \<Longrightarrow> RoundHalfEven x \<le> n"
  "\<bar>real_of_int (RoundHalfEven x) - x\<bar> \<le> 1 / 2"
proof -
  show "real_of_int n \<le> x \<Longrightarrow> n \<le> RoundHalfEven x"
  proof -
    assume "real_of_int n \<le> x"
    then have "n \<le> \<lfloor>x\<rfloor>" by (simp add: le_floor_iff)
    then show ?thesis by (auto simp: RoundHalfEven_def Let_def)
  qed
  show "x \<le> real_of_int n \<Longrightarrow> RoundHalfEven x \<le> n"
  proof -
    assume a: "x \<le> real_of_int n"
    then have f: "\<lfloor>x\<rfloor> \<le> n" by (simp add: floor_le_iff)
    show ?thesis
    proof (cases "x = real_of_int \<lfloor>x\<rfloor>")
      case True
      then show ?thesis using f by (simp add: RoundHalfEven_def Let_def)
    next
      case False
      then have "real_of_int \<lfloor>x\<rfloor> < x" by linarith
      then have "real_of_int \<lfloor>x\<rfloor> < real_of_int n" using a by linarith
      then have "\<lfloor>x\<rfloor> + 1 \<le> n" by linarith
      then show ?thesis using f by (auto simp: RoundHalfEven_def Let_def)
    qed
  qed
  show "\<bar>real_of_int (RoundHalfEven x) - x\<bar> \<le> 1 / 2"
    by (auto simp: RoundHalfEven_def Let_def)
qed


lemma float32_binade:
  assumes "1 \<le> x" "x < 16"
  shows "pow2 (float32_exponent x) \<le> float32 x" "float32 x \<le> pow2 (float32_exponent x + 1)"
    "\<bar>float32 x - x\<bar> \<le> pow2 (float32_exponent x - 24)"
proof -
  define e where "e = float32_exponent x"
  define u where "u = pow2 (e - 23)"
  have u: "0 < u" by (simp add: u_def pow2_pos)
  have e: "pow2 e \<le> x" "x < pow2 (e + 1)"
    using float32_exponent_spec [OF assms] by (simp_all add: e_def)
  have p: "pow2 e = 8388608 * u" "pow2 (e + 1) = 16777216 * u" "pow2 (e - 24) = u / 2"
    using pow2_add [of "e - 23" 23] pow2_add [of "e - 23" 24] pow2_add [of "e - 23" "- 1"]
    by (simp_all add: u_def pow2_numeral ac_simps)
  have f: "float32 x = real_of_int (RoundHalfEven (x / u)) * u"
    by (simp add: float32_def Let_def e_def u_def)
  have "real_of_int 8388608 \<le> x / u" using e(1) u by (simp add: p le_divide_eq)
  then have "8388608 \<le> RoundHalfEven (x / u)" by (rule RoundHalfEven_bounds(1))
  then have "8388608 \<le> real_of_int (RoundHalfEven (x / u))" by linarith
  then have "8388608 * u \<le> real_of_int (RoundHalfEven (x / u)) * u"
    using u by (simp only: mult_le_cancel_right_pos)
  then show "pow2 (float32_exponent x) \<le> float32 x" by (simp add: f p(1) [symmetric] e_def)
  have "x / u \<le> real_of_int 16777216" using e(2) u by (simp add: p divide_le_eq)
  then have "RoundHalfEven (x / u) \<le> 16777216" by (rule RoundHalfEven_bounds(2))
  then have "real_of_int (RoundHalfEven (x / u)) \<le> 16777216" by linarith
  then have "real_of_int (RoundHalfEven (x / u)) * u \<le> 16777216 * u"
    using u by (simp only: mult_le_cancel_right_pos)
  then show "float32 x \<le> pow2 (float32_exponent x + 1)" by (simp add: f p(2) [symmetric] e_def)
  have "\<bar>real_of_int (RoundHalfEven (x / u)) - x / u\<bar> \<le> 1 / 2" by (rule RoundHalfEven_bounds(3))
  then have "\<bar>real_of_int (RoundHalfEven (x / u)) - x / u\<bar> * u \<le> 1 / 2 * u"
    using u by (simp only: mult_le_cancel_right_pos)
  moreover have "(real_of_int (RoundHalfEven (x / u)) - x / u) * u =
      real_of_int (RoundHalfEven (x / u)) * u - x"
    using u by (simp add: left_diff_distrib)
  then have "\<bar>real_of_int (RoundHalfEven (x / u)) - x / u\<bar> * u =
      \<bar>real_of_int (RoundHalfEven (x / u)) * u - x\<bar>"
    using u abs_mult [of "real_of_int (RoundHalfEven (x / u)) - x / u" u] by simp
  ultimately show "\<bar>float32 x - x\<bar> \<le> pow2 (float32_exponent x - 24)"
    by (simp add: f p(3) [folded e_def] e_def [symmetric])
qed

lemma float32_le_grid:
  assumes "1 \<le> x" "x < 16" "x \<le> z"
    and "\<exists>m. z = real_of_int m * pow2 (float32_exponent x - 23)"
  shows "float32 x \<le> z"
proof -
  define u where "u = pow2 (float32_exponent x - 23)"
  have u: "0 < u" by (simp add: u_def pow2_pos)
  from assms(4) obtain m where z: "z = real_of_int m * u" by (auto simp: u_def)
  have "x / u \<le> real_of_int m" using assms(3) u by (simp add: z divide_le_eq)
  then have "RoundHalfEven (x / u) \<le> m" by (rule RoundHalfEven_bounds(2))
  then have "real_of_int (RoundHalfEven (x / u)) \<le> real_of_int m" by linarith
  then have "real_of_int (RoundHalfEven (x / u)) * u \<le> real_of_int m * u"
    using u by (simp only: mult_le_cancel_right_pos)
  then show ?thesis by (simp add: float32_def Let_def u_def [symmetric] z)
qed

lemma float32_quotient:
  assumes "1 \<le> x" "x \<le> 8"
  shows "1 \<le> float32 x" "float32 x \<le> 8" "\<bar>float32 x - x\<bar> \<le> 1 / 2097152"
proof -
  have x: "1 \<le> x" "x < 16" using assms by simp_all
  define e where "e = float32_exponent x"
  have s: "pow2 e \<le> x" "x < pow2 (e + 1)"
    using float32_exponent_spec [OF x] by (simp_all add: e_def)
  have "pow2 0 < pow2 (e + 1)" using s(2) assms(1) by (simp add: pow2_numeral)
  then have e0: "0 \<le> e" unfolding pow2_less_iff by simp
  have "pow2 e \<le> pow2 3" using s(1) assms(2) by (simp add: pow2_numeral)
  then have e3: "e \<le> 3" unfolding pow2_le_iff .
  have "pow2 0 \<le> pow2 e" unfolding pow2_le_iff by (rule e0)
  then show "1 \<le> float32 x" using float32_binade(1) [OF x] by (simp add: pow2_numeral e_def)
  show "float32 x \<le> 8"
  proof (cases "e = 3")
    case True
    then have "x = 8" using s(1) assms(2) by (simp add: pow2_numeral)
    have "\<exists>m. (8::real) = real_of_int m * pow2 (float32_exponent x - 23)"
      using True by (intro exI [of _ 8388608]) (simp add: e_def [symmetric] pow2_numeral)
    from float32_le_grid [OF x assms(2) this] show ?thesis .
  next
    case False
    then have "e + 1 \<le> 3" using e3 by simp
    then have "pow2 (e + 1) \<le> pow2 3" unfolding pow2_le_iff .
    then show ?thesis using float32_binade(2) [OF x] by (simp add: pow2_numeral e_def)
  qed
  have "pow2 (e - 24) \<le> pow2 (- 21)" unfolding pow2_le_iff using e3 by simp
  then show "\<bar>float32 x - x\<bar> \<le> 1 / 2097152"
    using float32_binade(3) [OF x] by (simp add: e_def pow2_numeral)
qed

lemma RoundToInt_bounds:
  assumes "1 \<le> F" "F \<le> 8"
  shows "1 \<le> RoundToInt F" "RoundToInt F \<le> 8"
proof -
  have x: "1 \<le> F + 0.5" "F + 0.5 < 16" using assms by simp_all
  define e where "e = float32_exponent (F + 0.5)"
  have s: "pow2 e \<le> F + 0.5" "F + 0.5 < pow2 (e + 1)"
    using float32_exponent_spec [OF x] by (simp_all add: e_def)
  have "pow2 0 < pow2 (e + 1)" using s(2) assms(1) by (simp add: pow2_numeral)
  then have e0: "0 \<le> e" unfolding pow2_less_iff by simp
  have "pow2 e < pow2 4" using s(1) assms(2) by (simp add: pow2_numeral)
  then have e3: "e \<le> 3" unfolding pow2_less_iff by simp
  have "pow2 0 \<le> pow2 e" unfolding pow2_le_iff by (rule e0)
  then have "1 \<le> float32 (F + 0.5)"
    using float32_binade(1) [OF x] by (simp add: pow2_numeral e_def)
  then show "1 \<le> RoundToInt F" by (simp add: RoundToInt_def le_floor_iff)
  have g: "\<exists>m. (17 / 2::real) = real_of_int m * pow2 (float32_exponent (F + 0.5) - 23)"
  proof -
    have "pow2 (22 - e) * pow2 (e - 23) = 1 / 2"
      using pow2_add [of "22 - e" "e - 23"] by (simp add: pow2_numeral)
    moreover have "pow2 (22 - e) = real_of_int (2 ^ nat (22 - e))" using e3 by (simp add: pow2_def)
    ultimately have "real_of_int (2 ^ nat (22 - e)) * pow2 (e - 23) = 1 / 2" by simp
    then have "17 * (real_of_int (2 ^ nat (22 - e)) * pow2 (e - 23)) = 17 * (1 / 2)" by (simp only:)
    then have "real_of_int (17 * 2 ^ nat (22 - e)) * pow2 (e - 23) = 17 / 2" by (simp add: ac_simps)
    then show ?thesis unfolding e_def by (intro exI [of _ "17 * 2 ^ nat (22 - float32_exponent (F + 0.5))"]) simp
  qed
  have "F + 0.5 \<le> 17 / 2" using assms(2) by simp
  from float32_le_grid [OF x this g] have "float32 (F + 0.5) \<le> 17 / 2" .
  then have "float32 (F + 0.5) < 9" by simp
  then show "RoundToInt F \<le> 8" by (simp add: RoundToInt_def floor_le_iff)
qed

lemma ComputeDivisor_quotient:
  "1 \<le> 2 / Clamp (DownsampleScale c) 0.25 (2::real)" "2 / Clamp (DownsampleScale c) 0.25 (2::real) \<le> 8"
proof -
  define s where "s = Clamp (DownsampleScale c) 0.25 (2::real)"
  have s: "0.25 \<le> s" "s \<le> 2"
    using Clamp_bounds [of "0.25::real" 2 "DownsampleScale c"] by (simp_all add: s_def)
  then have "0 < s" by simp
  then have "1 \<le> 2 / s" "2 / s \<le> 8"
    using s by (simp_all add: le_divide_eq divide_le_eq)
  then show "1 \<le> 2 / Clamp (DownsampleScale c) 0.25 (2::real)"
    "2 / Clamp (DownsampleScale c) 0.25 (2::real) \<le> 8"
    unfolding s_def .
qed

lemma ComputeDivisor_eq:
  "ComputeDivisor c = max 1 (RoundToInt (float32 (2 / Clamp (DownsampleScale c) 0.25 2)))"
  by (simp add: ComputeDivisor_def)

lemma ComputeDivisor_bounds: "1 \<le> ComputeDivisor c \<and> ComputeDivisor c \<le> 8"
proof -
  let ?F = "float32 (2 / Clamp (DownsampleScale c) 0.25 2)"
  have "1 \<le> ?F" "?F \<le> 8"
    using float32_quotient(1,2) [OF ComputeDivisor_quotient [of c]] by simp_all
  then have "1 \<le> RoundToInt ?F" "RoundToInt ?F \<le> 8" by (rule RoundToInt_bounds)+
  then show ?thesis unfolding ComputeDivisor_eq by simp
qed

lemma DownsampledRect_degenerate:
  assumes "Width (ComputeDownsampledRect (ComputeDownsampledExtent Rect (ComputeDivisor c))) \<le> 0 \<or>
           Height (ComputeDownsampledRect (ComputeDownsampledExtent Rect (ComputeDivisor c))) \<le> 0"
  shows "Width Rect \<le> 0 \<or> Height Rect \<le> 0"
proof (rule ccontr)
  assume "\<not> (Width Rect \<le> 0 \<or> Height Rect \<le> 0)"
  then have "0 < Width Rect" "0 < Height Rect" by auto
  moreover have "0 < ComputeDivisor c" using ComputeDivisor_bounds [of c] by linarith
  ultimately have "1 \<le> DivideAndRoundUp (Width Rect) (ComputeDivisor c)"
    "1 \<le> DivideAndRoundUp (Height Rect) (ComputeDivisor c)"
    by (simp_all add: DivideAndRoundUp_ge1)
  with assms show False
    by (simp add: ComputeDownsampledRect_def ComputeDownsampledExtent_def DivideAndRoundUp_pt_def
        Width_def Height_def ZeroValue_def)
qed

subsection \<open>The gates\<close>

lemma FindActiveComponent_None:
  "FindActiveComponent Objs hs = None \<longleftrightarrow> (\<forall>h \<in> set hs. \<not> ValidAndActive Objs h)"
  by (induction hs) (auto simp: ValidAndActive_def split: option.splits)

lemma FindActiveComponent_first:
  "(\<forall>p \<in> set pre. \<not> ValidAndActive Objs p) \<Longrightarrow> Objs h = Some c \<Longrightarrow> IsActive c \<Longrightarrow>
   FindActiveComponent Objs (pre @ h # post) = Some c"
  by (induction pre) (auto simp: ValidAndActive_def split: option.splits)

lemma IsValid_Texture: "IsValid T \<Longrightarrow> \<exists>t. Texture T = Some t"
  by (auto simp: IsValid_def)

text \<open>
  Every call either leaves through one of the gates, with the scene colour and the graph
  untouched, or enters the scope with the first valid and active component.
\<close>

lemma PostProcessPass_cases:
  obtains
    (gate) "PostProcessPass_RenderThread Ctx gb View Inputs =
              Some (Unchanged Ctx gb (SceneColorInput Inputs))"
      "\<not> IsValid (SceneColorInput Inputs) \<or> bIsReflectionCapture View \<or> bIsSceneCapture View \<or>
       \<not> bIsViewInfo View \<or> \<not> Rendering (EngineShowFlags (Family View)) \<or>
       \<not> PostProcessing (EngineShowFlags (Family View)) \<or>
       Wireframe (EngineShowFlags (Family View)) \<or> ShaderMap View = None \<or>
       WeakSubsystem Ctx = None \<or>
       (\<exists>S. WeakSubsystem Ctx = Some S \<and>
            FindActiveComponent (Objects Ctx) (BloomComponents S) = None) \<or>
       (\<exists>S c. WeakSubsystem Ctx = Some S \<and>
            FindActiveComponent (Objects Ctx) (BloomComponents S) = Some c \<and>
            BloomIntensity c \<le> 0)"
  | (scope) sm S c where
      "IsValid (SceneColorInput Inputs)"
      "\<not> bIsReflectionCapture View" "\<not> bIsSceneCapture View" "bIsViewInfo View"
      "Rendering (EngineShowFlags (Family View))"
      "PostProcessing (EngineShowFlags (Family View))"
      "\<not> Wireframe (EngineShowFlags (Family View))"
      "ShaderMap View = Some sm" "WeakSubsystem Ctx = Some S"
      "FindActiveComponent (Objects Ctx) (BloomComponents S) = Some c"
      "0 < BloomIntensity c"
      "PostProcessPass_RenderThread Ctx gb View Inputs =
         ClassicBloomScope Ctx gb View Inputs sm c"
proof (cases "\<not> IsValid (SceneColorInput Inputs) \<or> bIsReflectionCapture View \<or>
    bIsSceneCapture View \<or> \<not> bIsViewInfo View \<or> \<not> Rendering (EngineShowFlags (Family View)) \<or>
    \<not> PostProcessing (EngineShowFlags (Family View)) \<or>
    Wireframe (EngineShowFlags (Family View)) \<or> ShaderMap View = None \<or>
    WeakSubsystem Ctx = None")
  case True
  then have "PostProcessPass_RenderThread Ctx gb View Inputs =
      Some (Unchanged Ctx gb (SceneColorInput Inputs))"
    by (auto simp: PostProcessPass_RenderThread_def Let_def split: option.splits)
  with True show ?thesis by (intro gate) auto
next
  case False
  then obtain sm S where sm: "ShaderMap View = Some sm" and S: "WeakSubsystem Ctx = Some S"
    by auto
  show ?thesis
  proof (cases "FindActiveComponent (Objects Ctx) (BloomComponents S)")
    case None
    then have "PostProcessPass_RenderThread Ctx gb View Inputs =
        Some (Unchanged Ctx gb (SceneColorInput Inputs))"
      using False sm S by (simp add: PostProcessPass_RenderThread_def Let_def)
    with None S show ?thesis by (intro gate) auto
  next
    case (Some c)
    show ?thesis
    proof (cases "BloomIntensity c \<le> 0")
      case True
      then have "PostProcessPass_RenderThread Ctx gb View Inputs =
          Some (Unchanged Ctx gb (SceneColorInput Inputs))"
        using False sm S Some by (simp add: PostProcessPass_RenderThread_def Let_def)
      with True Some S show ?thesis by (intro gate) auto
    next
      case pos: False
      then have "PostProcessPass_RenderThread Ctx gb View Inputs =
          ClassicBloomScope Ctx gb View Inputs sm c"
        using False sm S Some by (simp add: PostProcessPass_RenderThread_def Let_def)
      with pos False sm S Some show ?thesis by (intro scope [of sm S c]) auto
    qed
  qed
qed

lemma scope_degenerate:
  assumes "Texture (SceneColorInput Inputs) = Some t"
    and "Width (ViewRect (SceneColorInput Inputs)) \<le> 0 \<or>
         Height (ViewRect (SceneColorInput Inputs)) \<le> 0"
  shows "\<exists>r. ClassicBloomScope Ctx gb View Inputs sm c = Some r \<and>
             ReturnValue r = SceneColorInput Inputs \<and> Graph r = gb"
  using assms by (simp add: ClassicBloomScope_def Let_def)

lemma degenerate_unchanged:
  assumes "Width (ViewRect (SceneColorInput Inputs)) \<le> 0 \<or>
           Height (ViewRect (SceneColorInput Inputs)) \<le> 0"
  shows "\<exists>r. PostProcessPass_RenderThread Ctx gb View Inputs = Some r \<and>
             ReturnValue r = SceneColorInput Inputs \<and> Graph r = gb"
proof (cases rule: PostProcessPass_cases [of Ctx gb View Inputs])
  case gate
  then show ?thesis by (simp add: Unchanged_def)
next
  case (scope sm S c)
  then obtain t where "Texture (SceneColorInput Inputs) = Some t"
    using IsValid_Texture by blast
  with scope assms show ?thesis using scope_degenerate by simp
qed

text \<open>
  C4. Before anything is added to the graph, the call returns the scene colour it was
  given, and the graph as it was, whenever the view is a reflection capture, a scene
  capture or not a view info; rendering or post-processing is off or wireframe is on; the
  scene colour is invalid or its rectangle has no width or no height; no weak pointer of
  the subsystem is valid with an active component; or the first valid and active
  component has an intensity of zero or less.
\<close>

theorem activation_gate:
  assumes "bIsReflectionCapture View \<or> bIsSceneCapture View \<or> \<not> bIsViewInfo View \<or>
           \<not> Rendering (EngineShowFlags (Family View)) \<or>
           \<not> PostProcessing (EngineShowFlags (Family View)) \<or>
           Wireframe (EngineShowFlags (Family View)) \<or>
           \<not> IsValid (SceneColorInput Inputs) \<or>
           Width (ViewRect (SceneColorInput Inputs)) \<le> 0 \<or>
           Height (ViewRect (SceneColorInput Inputs)) \<le> 0 \<or>
           (\<exists>S. WeakSubsystem Ctx = Some S \<and>
                (\<forall>h \<in> set (BloomComponents S). \<not> ValidAndActive (Objects Ctx) h)) \<or>
           (\<exists>S pre h post c. WeakSubsystem Ctx = Some S \<and> BloomComponents S = pre @ h # post \<and>
                (\<forall>p \<in> set pre. \<not> ValidAndActive (Objects Ctx) p) \<and>
                Objects Ctx h = Some c \<and> IsActive c \<and> BloomIntensity c \<le> 0)"
  shows "\<exists>r. PostProcessPass_RenderThread Ctx gb View Inputs = Some r \<and>
             ReturnValue r = SceneColorInput Inputs \<and> Graph r = gb"
proof (cases rule: PostProcessPass_cases [of Ctx gb View Inputs])
  case gate
  then show ?thesis by (simp add: Unchanged_def)
next
  case (scope sm S c)
  from scope(10) have nn: "\<not> (\<forall>h \<in> set (BloomComponents S). \<not> ValidAndActive (Objects Ctx) h)"
    using FindActiveComponent_None [of "Objects Ctx" "BloomComponents S"] by simp
  from assms scope nn consider
      (rect) "Width (ViewRect (SceneColorInput Inputs)) \<le> 0 \<or>
              Height (ViewRect (SceneColorInput Inputs)) \<le> 0"
    | (zero) pre h post c' where "BloomComponents S = pre @ h # post"
        "\<forall>p \<in> set pre. \<not> ValidAndActive (Objects Ctx) p" "Objects Ctx h = Some c'" "IsActive c'"
        "BloomIntensity c' \<le> 0"
    by auto
  then show ?thesis
  proof cases
    case rect
    then show ?thesis by (rule degenerate_unchanged)
  next
    case zero
    then have "FindActiveComponent (Objects Ctx) (BloomComponents S) = Some c'"
      using FindActiveComponent_first by simp
    with scope(10) have "c' = c" by simp
    with zero scope(11) show ?thesis by simp
  qed
qed

theorem activation_gate_witness:
  "BloomIntensity (DefaultComponent\<lparr>BloomIntensity := 0\<rparr>) \<le> 0 \<and>
   bIsReflectionCapture ((ExampleView AllShaders)\<lparr>bIsReflectionCapture := True\<rparr>) \<and>
   (\<exists>r. PostProcessPass_RenderThread (ExampleContext (DefaultComponent\<lparr>BloomIntensity := 0\<rparr>))
           ExampleGraph (ExampleView AllShaders) (ExampleInputs (ExampleRect 1920 1080)) = Some r \<and>
        ReturnValue r = SceneColorInput (ExampleInputs (ExampleRect 1920 1080)) \<and>
        Graph r = ExampleGraph) \<and>
   (\<exists>r. PostProcessPass_RenderThread (ExampleContext DefaultComponent)
           ExampleGraph ((ExampleView AllShaders)\<lparr>bIsReflectionCapture := True\<rparr>)
           (ExampleInputs (ExampleRect 1920 1080)) = Some r \<and>
        ReturnValue r = SceneColorInput (ExampleInputs (ExampleRect 1920 1080)) \<and>
        Graph r = ExampleGraph)"
proof -
  let ?c = "DefaultComponent\<lparr>BloomIntensity := 0\<rparr>"
  have "WeakSubsystem (ExampleContext ?c) = Some \<lparr>BloomComponents = [3, 7]\<rparr> \<and>
        BloomComponents \<lparr>BloomComponents = [3, 7]\<rparr> = [3] @ 7 # [] \<and>
        (\<forall>p \<in> set [3]. \<not> ValidAndActive (Objects (ExampleContext ?c)) p) \<and>
        Objects (ExampleContext ?c) 7 = Some ?c \<and> IsActive ?c \<and> BloomIntensity ?c \<le> 0"
    by (simp add: ExampleContext_def ValidAndActive_def DefaultComponent_def)
  then have h: "\<exists>S pre h post c. WeakSubsystem (ExampleContext ?c) = Some S \<and>
        BloomComponents S = pre @ h # post \<and>
        (\<forall>p \<in> set pre. \<not> ValidAndActive (Objects (ExampleContext ?c)) p) \<and>
        Objects (ExampleContext ?c) h = Some c \<and> IsActive c \<and> BloomIntensity c \<le> 0"
    by blast
  have r: "bIsReflectionCapture ((ExampleView AllShaders)\<lparr>bIsReflectionCapture := True\<rparr>)"
    by simp
  show ?thesis
    using activation_gate [of "ExampleView AllShaders" "ExampleInputs (ExampleRect 1920 1080)"
        "ExampleContext ?c" ExampleGraph] h
      activation_gate [of "(ExampleView AllShaders)\<lparr>bIsReflectionCapture := True\<rparr>"
        "ExampleInputs (ExampleRect 1920 1080)" "ExampleContext DefaultComponent" ExampleGraph] r
    by simp
qed

subsection \<open>Registration\<close>

lemma distinct_apply_call:
  "distinct (BloomComponents S) \<Longrightarrow> distinct (BloomComponents (apply_call S call))"
  by (cases call)
     (auto simp: RegisterBloomComponent_def UnregisterBloomComponent_def AddUnique_def Remove_def
           split: option.splits)

lemma distinct_foldl_calls:
  "distinct (BloomComponents S) \<Longrightarrow> distinct (BloomComponents (foldl apply_call S calls))"
  by (induction calls arbitrary: S) (auto simp: distinct_apply_call)

text \<open>
  C8. Registering a component that is already in the array leaves the subsystem as it
  is, so registering twice is registering once; whatever calls the subsystem receives,
  its array never holds a handle twice; unregistering a component that is not in the
  array leaves the subsystem as it is; registering or unregistering the null pointer
  does nothing.
\<close>

theorem registration_idempotent:
  "(c \<in> set (BloomComponents S) \<longrightarrow> RegisterBloomComponent S (Some c) = S) \<and>
   RegisterBloomComponent (RegisterBloomComponent S (Some c)) (Some c) =
     RegisterBloomComponent S (Some c) \<and>
   distinct (BloomComponents (after_calls calls)) \<and>
   (c \<notin> set (BloomComponents S) \<longrightarrow> UnregisterBloomComponent S (Some c) = S) \<and>
   RegisterBloomComponent S None = S \<and>
   UnregisterBloomComponent S None = S"
proof -
  have "distinct (BloomComponents (after_calls calls))"
    unfolding after_calls_def by (rule distinct_foldl_calls) (simp add: InitialSubsystem_def)
  moreover have "c \<notin> set (BloomComponents S) \<Longrightarrow> filter (\<lambda>y. y \<noteq> c) (BloomComponents S) = BloomComponents S"
    by (induction "BloomComponents S") (auto simp: filter_id_conv)
  ultimately show ?thesis
    by (auto simp: RegisterBloomComponent_def UnregisterBloomComponent_def AddUnique_def Remove_def)
qed

theorem registration_idempotent_witness:
  "(2::nat) \<in> set (BloomComponents \<lparr>BloomComponents = [1, 2]\<rparr>) \<and>
   RegisterBloomComponent \<lparr>BloomComponents = [1, 2]\<rparr> (Some 2) = \<lparr>BloomComponents = [1, 2]\<rparr> \<and>
   (5::nat) \<notin> set (BloomComponents \<lparr>BloomComponents = [1, 2]\<rparr>) \<and>
   UnregisterBloomComponent \<lparr>BloomComponents = [1, 2]\<rparr> (Some 5) = \<lparr>BloomComponents = [1, 2]\<rparr> \<and>
   BloomComponents (after_calls [Register (Some 4), Register (Some 4), Unregister (Some 9)]) = [4]"
  using registration_idempotent [of 2 "\<lparr>BloomComponents = [1, 2]\<rparr>" "[]"]
    registration_idempotent [of 5 "\<lparr>BloomComponents = [1, 2]\<rparr>" "[]"]
  by (simp add: after_calls_def InitialSubsystem_def RegisterBloomComponent_def
      UnregisterBloomComponent_def AddUnique_def Remove_def)

subsection \<open>Rules for the loops\<close>

text \<open>
  Total correctness with an invariant: if the invariant holds at the start and every
  turn of the body succeeds and re-establishes it, the loop returns and the invariant
  holds at the exit.
\<close>

lemma for_up_rule:
  assumes "0 < step" and "I i s"
    and "\<And>j t. i \<le> j \<Longrightarrow> j < n \<Longrightarrow> I j t \<Longrightarrow> \<exists>t'. body j t = Some t' \<and> I (j + step) t'"
  shows "\<exists>t j. for_up i n step body s = Some t \<and> I j t \<and> n \<le> j \<and> i \<le> j \<and>
               (i < n \<longrightarrow> j < n + step) \<and> (n \<le> i \<longrightarrow> j = i)"
  using assms
proof (induction i n step body s rule: for_up.induct)
  case (1 i n step body s)
  show ?case
  proof (cases "i < n")
    case False
    with "1.prems" show ?thesis by (auto simp: for_up.simps)
  next
    case True
    from "1.prems"(3) [of i s] True "1.prems"(2)
    obtain s' where s': "body i s = Some s'" "I (i + step) s'" by auto
    have "\<exists>t j. for_up (i + step) n step body s' = Some t \<and> I j t \<and> n \<le> j \<and> i + step \<le> j \<and>
               (i + step < n \<longrightarrow> j < n + step) \<and> (n \<le> i + step \<longrightarrow> j = i + step)"
    proof (rule "1.IH" [OF True _ s'(1)])
      show "\<not> step \<le> 0" using "1.prems"(1) by simp
      show "0 < step" by fact
      show "I (i + step) s'" by fact
      show "\<And>j t. i + step \<le> j \<Longrightarrow> j < n \<Longrightarrow> I j t \<Longrightarrow> \<exists>t'. body j t = Some t' \<and> I (j + step) t'"
        using "1.prems"(3) "1.prems"(1) by auto
    qed
    then obtain t j where "for_up (i + step) n step body s' = Some t" "I j t" "n \<le> j" "i + step \<le> j"
      "i + step < n \<longrightarrow> j < n + step" "n \<le> i + step \<longrightarrow> j = i + step" by blast
    moreover have "for_up i n step body s = for_up (i + step) n step body s'"
      using True "1.prems"(1) s'(1) by (subst for_up.simps) simp
    ultimately show ?thesis using True "1.prems"(1)
      by (intro exI [of _ t] exI [of _ j]) auto
  qed
qed

lemma for_up1_rule:
  assumes "i \<le> n" and "I i s"
    and "\<And>j t. i \<le> j \<Longrightarrow> j < n \<Longrightarrow> I j t \<Longrightarrow> \<exists>t'. body j t = Some t' \<and> I (j + 1) t'"
  shows "\<exists>t. for_up i n 1 body s = Some t \<and> I n t"
proof -
  from for_up_rule [of 1 I i s n body, OF _ assms(2) assms(3)]
  obtain t j where "for_up i n 1 body s = Some t" "I j t" "n \<le> j" "i \<le> j"
    "i < n \<longrightarrow> j < n + 1" "n \<le> i \<longrightarrow> j = i" by auto
  moreover from this assms(1) have "j = n" by (cases "i < n") auto
  ultimately show ?thesis by auto
qed

lemma for_down_rule:
  assumes "- 1 \<le> i" and "I i s"
    and "\<And>j t. 0 \<le> j \<Longrightarrow> j \<le> i \<Longrightarrow> I j t \<Longrightarrow> \<exists>t'. body j t = Some t' \<and> I (j - 1) t'"
  shows "\<exists>t. for_down i body s = Some t \<and> I (- 1) t"
  using assms
proof (induction i body s rule: for_down.induct)
  case (1 i body s)
  show ?case
  proof (cases "0 \<le> i")
    case False
    with "1.prems" have "i = - 1" by simp
    with "1.prems" show ?thesis by (auto simp: for_down.simps)
  next
    case True
    from "1.prems"(3) [of i s] True "1.prems"(2)
    obtain s' where s': "body i s = Some s'" "I (i - 1) s'" by auto
    have "\<exists>t. for_down (i - 1) body s' = Some t \<and> I (- 1) t"
    proof (rule "1.IH" [OF True s'(1)])
      show "- 1 \<le> i - 1" using True by simp
      show "I (i - 1) s'" by fact
      show "\<And>j t. 0 \<le> j \<Longrightarrow> j \<le> i - 1 \<Longrightarrow> I j t \<Longrightarrow> \<exists>t'. body j t = Some t' \<and> I (j - 1) t'"
        using "1.prems"(3) by auto
    qed
    moreover have "for_down i body s = for_down (i - 1) body s'"
      using True s'(1) by (subst for_down.simps) simp
    ultimately show ?thesis by simp
  qed
qed

subsection \<open>The stages: standard blur and directional glare\<close>

lemma ExtendsGraph_refl: "ExtendsGraph gb gb Sh"
  by (simp add: ExtendsGraph_def)

lemma ExtendsGraph_trans:
  "ExtendsGraph a b Sh \<Longrightarrow> ExtendsGraph b c Sh' \<Longrightarrow> ExtendsGraph a c (Sh \<union> Sh')"
  by (fastforce simp: ExtendsGraph_def)

lemma ExtendsGraph_mono: "ExtendsGraph a b Sh \<Longrightarrow> Sh \<subseteq> Sh' \<Longrightarrow> ExtendsGraph a b Sh'"
  by (fastforce simp: ExtendsGraph_def)

lemma ExtendsGraph_trans_same:
  "ExtendsGraph a b Sh \<Longrightarrow> ExtendsGraph b c Sh \<Longrightarrow> ExtendsGraph a c Sh"
  using ExtendsGraph_trans [of a b Sh c Sh] by simp

lemma CreateTexture_eq:
  "CreateTexture gb d n =
     (\<lparr>Handle = length (Textures gb), Desc = d, Name = n\<rparr>,
      gb\<lparr>Textures := Textures gb @ [\<lparr>Handle = length (Textures gb), Desc = d, Name = n\<rparr>]\<rparr>)"
  by (simp add: CreateTexture_def Let_def)

lemma ExtendsGraph_CreateTexture: "ExtendsGraph gb (snd (CreateTexture gb d n)) Sh"
  by (simp add: CreateTexture_eq ExtendsGraph_def)

lemma ExtendsGraph_AddFullscreenPass:
  "sh \<in> Sh \<Longrightarrow> ExtendsGraph gb (AddFullscreenPass gb n sh ps r) Sh"
  by (simp add: AddFullscreenPass_def ExtendsGraph_def)

lemma Passes_AddFullscreenPass:
  "Passes (AddFullscreenPass gb n sh ps r) =
     Passes gb @ [\<lparr>EventName = n, Shader = sh, Parameters = ps, PassViewport = r\<rparr>]"
  "Textures (AddFullscreenPass gb n sh ps r) = Textures gb"
  by (simp_all add: AddFullscreenPass_def)

lemma TArray_get_Some: "0 \<le> i \<Longrightarrow> i < int (length xs) \<Longrightarrow> TArray_get xs i = Some (xs ! nat i)"
  by (simp add: TArray_get_def)

lemma Clamp_int_bounds: "lo \<le> hi \<Longrightarrow> lo \<le> Clamp (x::int) lo hi \<and> Clamp x lo hi \<le> hi"
  by (auto simp: Clamp_def)

paragraph \<open>Standard\<close>

lemma StandardBlurIteration_eq:
  "StandardBlurIteration View c Ext Rect Tmp Out k (src, gb) =
     Some (Some Out,
       gb\<lparr>Passes := Passes gb @
         [\<lparr>EventName = ''BlurHorizontal'', Shader = FClassicBloomBlurPS,
           Parameters = BlurParameters View src Ext (1, 0) (BloomSize c * 0.1) Tmp,
           PassViewport = Rect\<rparr>,
          \<lparr>EventName = ''BlurVertical'', Shader = FClassicBloomBlurPS,
           Parameters = BlurParameters View (Some Tmp) Ext (0, 1) (BloomSize c * 0.1) Out,
           PassViewport = Rect\<rparr>]\<rparr>)"
  by (simp add: StandardBlurIteration_def AddFullscreenPass_def Let_def)

lemma StandardBlur_total:
  "\<exists>Out gb'. StandardBlur gb View c Ext Rect Desc' Bright = Some (Out, gb') \<and>
     ExtendsGraph gb gb' {FClassicBloomBlurPS} \<and>
     length (Passes gb') = length (Passes gb) + 2 * nat (Clamp (BlurPasses c) 1 4)"
proof -
  define N where "N = Clamp (BlurPasses c) 1 4"
  define Tmp where "Tmp = fst (CreateTexture gb Desc' ''ClassicBloom.BlurTemp'')"
  define gb1 where "gb1 = snd (CreateTexture gb Desc' ''ClassicBloom.BlurTemp'')"
  define Out where "Out = fst (CreateTexture gb1 Desc' ''ClassicBloom.Blurred'')"
  define gb2 where "gb2 = snd (CreateTexture gb1 Desc' ''ClassicBloom.Blurred'')"
  have N: "1 \<le> N" "N \<le> 4" using Clamp_int_bounds [of 1 4 "BlurPasses c"] by (simp_all add: N_def)
  have e2: "ExtendsGraph gb gb2 {FClassicBloomBlurPS}" "length (Passes gb2) = length (Passes gb)"
    by (simp_all add: gb2_def gb1_def CreateTexture_eq ExtendsGraph_def)
  let ?I = "\<lambda>j (s :: FRDGTextureRef \<times> FRDGBuilder).
      ExtendsGraph gb (snd s) {FClassicBloomBlurPS} \<and>
      length (Passes (snd s)) = length (Passes gb) + 2 * nat j"
  have "\<exists>t. for_up 0 N 1 (StandardBlurIteration View c Ext Rect Tmp Out) (Some Bright, gb2) = Some t \<and> ?I N t"
  proof (rule for_up1_rule [where I = ?I])
    show "0 \<le> N" using N by simp
    show "?I 0 (Some Bright, gb2)" using e2 by simp
    fix j t assume j: "0 \<le> j" "j < N" and I: "?I j t"
    obtain src g where t: "t = (src, g)" by (cases t)
    show "\<exists>t'. StandardBlurIteration View c Ext Rect Tmp Out j t = Some t' \<and> ?I (j + 1) t'"
      using I j unfolding t StandardBlurIteration_eq
      by (auto simp: ExtendsGraph_def nat_add_distrib)
  qed
  then obtain src g where
    "for_up 0 N 1 (StandardBlurIteration View c Ext Rect Tmp Out) (Some Bright, gb2) = Some (src, g)"
    "?I N (src, g)" by force
  then show ?thesis
    by (auto simp: StandardBlur_def Let_def N_def [symmetric] split_beta
        Tmp_def [symmetric] gb1_def [symmetric] Out_def [symmetric] gb2_def [symmetric])
qed

lemma StreakInputs_Accumulate:
  "StreakInputs \<lparr>EventName = n, Shader = sh,
      Parameters = AccumulateParameters View T0 T1 T2 T3 Rect k Target, PassViewport = r\<rparr> =
     [Some (TextureParam (Some T0)), Some (TextureParam (Some T1)),
      Some (TextureParam (Some T2)), Some (TextureParam (Some T3))]"
  by (simp add: StreakInputs_def Param_def AccumulateParameters_def)

lemma TargetTexture_Accumulate:
  "TargetTexture \<lparr>EventName = n, Shader = sh,
      Parameters = AccumulateParameters View T0 T1 T2 T3 Rect k Target, PassViewport = r\<rparr> =
     Some Target"
  by (simp add: TargetTexture_def Param_def AccumulateParameters_def)

lemma GlareStreakIteration_eq:
  "\<exists>t p. GlareStreakIteration View Ext Rect Desc' Bright AngleStep Rot Len Fall i (S, gb) =
       Some (S @ [t], gb\<lparr>Textures := Textures gb @ [t], Passes := Passes gb @ [p]\<rparr>) \<and>
     Shader p = FClassicBloomGlareStreakPS \<and> TargetTexture p = Some t \<and>
     Handle t = length (Textures gb)"
  apply (rule exI [of _ "last (fst (the (GlareStreakIteration View Ext Rect Desc' Bright AngleStep Rot Len Fall i (S, gb))))"])
  apply (rule exI [of _ "last (Passes (snd (the (GlareStreakIteration View Ext Rect Desc' Bright AngleStep Rot Len Fall i (S, gb)))))"])
  apply (simp add: GlareStreakIteration_def CreateTexture_eq AddFullscreenPass_def Let_def
      TargetTexture_def Param_def)
  done

lemma StreakLoop:
  assumes "0 \<le> K"
  shows "\<exists>S gb1 ps.
     for_up 0 K 1 (GlareStreakIteration View Ext Rect Desc' Bright AngleStep Rot Len Fall) ([], gb) =
       Some (S, gb1) \<and>
     length S = nat K \<and> Passes gb1 = Passes gb @ ps \<and> Textures gb1 = Textures gb @ S \<and>
     map TargetTexture ps = map Some S \<and> (\<forall>p \<in> set ps. Shader p = FClassicBloomGlareStreakPS) \<and>
     map Handle S = [length (Textures gb) ..< length (Textures gb) + nat K]"
proof -
  let ?I = "\<lambda>j (s :: FRDGTexture list \<times> FRDGBuilder).
     \<exists>ps. length (fst s) = nat j \<and> Passes (snd s) = Passes gb @ ps \<and>
       Textures (snd s) = Textures gb @ fst s \<and>
       map TargetTexture ps = map Some (fst s) \<and> (\<forall>p \<in> set ps. Shader p = FClassicBloomGlareStreakPS) \<and>
       map Handle (fst s) = [length (Textures gb) ..< length (Textures gb) + nat j]"
  have "\<exists>t. for_up 0 K 1 (GlareStreakIteration View Ext Rect Desc' Bright AngleStep Rot Len Fall) ([], gb) = Some t \<and> ?I K t"
  proof (rule for_up1_rule [where I = ?I])
    show "0 \<le> K" by fact
    show "?I 0 ([], gb)" by simp
    fix j t assume j: "0 \<le> j" "j < K" and I: "?I j t"
    obtain S g where t: "t = (S, g)" by (cases t)
    from I obtain ps where I': "length S = nat j" "Passes g = Passes gb @ ps"
      "Textures g = Textures gb @ S" "map TargetTexture ps = map Some S"
      "\<forall>p \<in> set ps. Shader p = FClassicBloomGlareStreakPS"
      "map Handle S = [length (Textures gb) ..< length (Textures gb) + nat j]" unfolding t by auto
    from GlareStreakIteration_eq [of View Ext Rect Desc' Bright AngleStep Rot Len Fall j S g]
    obtain tx p where e: "GlareStreakIteration View Ext Rect Desc' Bright AngleStep Rot Len Fall j (S, g) =
       Some (S @ [tx], g\<lparr>Textures := Textures g @ [tx], Passes := Passes g @ [p]\<rparr>)"
      "Shader p = FClassicBloomGlareStreakPS" "TargetTexture p = Some tx"
      "Handle tx = length (Textures g)" by blast
    have "?I (j + 1) (S @ [tx], g\<lparr>Textures := Textures g @ [tx], Passes := Passes g @ [p]\<rparr>)"
      apply (rule exI [of _ "ps @ [p]"])
      using I' e(2,3,4) j by (simp add: nat_add_distrib)
    with e(1) show "\<exists>t'. GlareStreakIteration View Ext Rect Desc' Bright AngleStep Rot Len Fall j t = Some t' \<and> ?I (j + 1) t'"
      unfolding t by blast
  qed
  then show ?thesis by force
qed

lemma GlareAccumulateBatch_eq:
  assumes "0 \<le> j" "j < K" "length S = nat K"
  shows "\<exists>t p. GlareAccumulateBatch View Rect Desc' S K j (prev, g) =
       Some (t, g\<lparr>Textures := Textures g @ [t], Passes := Passes g @ [p]\<rparr>) \<and>
     Shader p = FClassicBloomGlareAccumulatePS \<and> TargetTexture p = Some t \<and>
     StreakInputs p = map (BoundInput (map Some S) (Some prev)) (NextBatch (nat K) (nat j))"
proof -
  have g0: "TArray_get S j = Some (S ! nat j)" using assms by (simp add: TArray_get_Some)
  have g1: "j + 1 < K \<Longrightarrow> TArray_get S (j + 1) = Some (S ! nat (j + 1))"
    using assms by (simp add: TArray_get_Some)
  have g2: "j + 2 < K \<Longrightarrow> TArray_get S (j + 2) = Some (S ! nat (j + 2))"
    using assms by (simp add: TArray_get_Some)
  have n1: "nat j + 1 < nat K \<longleftrightarrow> j + 1 < K" "nat j + 2 < nat K \<longleftrightarrow> j + 2 < K"
    "nat (j + 1) = nat j + 1" "nat (j + 2) = nat j + 2" "nat j < nat K"
    using assms by auto
  let ?r = "GlareAccumulateBatch View Rect Desc' S K j (prev, g)"
  show ?thesis
    apply (rule exI [of _ "fst (the ?r)"])
    apply (rule exI [of _ "last (Passes (snd (the ?r)))"])
    using assms n1
    apply (cases "j + 1 < K"; cases "j + 2 < K")
    apply (simp_all add: GlareAccumulateBatch_def CreateTexture_eq AddFullscreenPass_def Let_def
        g0 g1 g2 StreakInputs_Accumulate TargetTexture_Accumulate NextBatch_def)
    done
qed

lemma GlareAccumulate_first:
  assumes "2 \<le> K" "length S = nat K"
  shows "\<exists>t p. (let (AccumTexture, gb1) = CreateTexture gb Desc' ''ClassicBloom.GlareAccum'' in
       do {
        T0 \<leftarrow> TArray_get S 0;
        T1 \<leftarrow> (if min K 4 \<ge> 2 then TArray_get S 1 else TArray_get S 0);
        T2 \<leftarrow> (if min K 4 \<ge> 3 then TArray_get S 2 else TArray_get S 0);
        T3 \<leftarrow> (if min K 4 \<ge> 4 then TArray_get S 3 else TArray_get S 0);
        Some (AccumTexture, AddFullscreenPass gb1 ''GlareAccumulate'' FClassicBloomGlareAccumulatePS
                    (AccumulateParameters View T0 T1 T2 T3 Rect (min K 4) AccumTexture) Rect)
       }) = Some (t, gb\<lparr>Textures := Textures gb @ [t], Passes := Passes gb @ [p]\<rparr>) \<and>
     Shader p = FClassicBloomGlareAccumulatePS \<and> TargetTexture p = Some t \<and>
     StreakInputs p = map (BoundInput (map Some S) None) (FirstBatch (nat K))"
proof -
  have g: "TArray_get S 0 = Some (S ! 0)" "TArray_get S 1 = Some (S ! 1)"
    "3 \<le> K \<Longrightarrow> TArray_get S 2 = Some (S ! 2)" "4 \<le> K \<Longrightarrow> TArray_get S 3 = Some (S ! 3)"
    using assms by (simp_all add: TArray_get_def)
  have n: "2 \<le> nat K" "3 \<le> nat K \<longleftrightarrow> 3 \<le> K" "4 \<le> nat K \<longleftrightarrow> 4 \<le> K" using assms by auto
  let ?r = "(let (AccumTexture, gb1) = CreateTexture gb Desc' ''ClassicBloom.GlareAccum'' in
       do {
        T0 \<leftarrow> TArray_get S 0;
        T1 \<leftarrow> (if min K 4 \<ge> 2 then TArray_get S 1 else TArray_get S 0);
        T2 \<leftarrow> (if min K 4 \<ge> 3 then TArray_get S 2 else TArray_get S 0);
        T3 \<leftarrow> (if min K 4 \<ge> 4 then TArray_get S 3 else TArray_get S 0);
        Some (AccumTexture, AddFullscreenPass gb1 ''GlareAccumulate'' FClassicBloomGlareAccumulatePS
                    (AccumulateParameters View T0 T1 T2 T3 Rect (min K 4) AccumTexture) Rect)
       })"
  show ?thesis
    apply (rule exI [of _ "fst (the ?r)"])
    apply (rule exI [of _ "last (Passes (snd (the ?r)))"])
    using assms n
    apply (cases "3 \<le> K"; cases "4 \<le> K")
    apply (simp_all add: CreateTexture_eq AddFullscreenPass_def Let_def
        g StreakInputs_Accumulate TargetTexture_Accumulate FirstBatch_def)
    done
qed

lemma AccumulationBatches_nth:
  "n < length (AccumulationBatches K) \<Longrightarrow> AccumulationBatches K ! n = BatchAt K n"
  by (cases n) (simp_all add: AccumulationBatches_def BatchAt_def)

lemma length_AccumulationBatches: "length (AccumulationBatches K) = 1 + (K - 2) div 3"
  by (simp add: AccumulationBatches_def)

lemma AccumInvariant_step:
  assumes "4 \<le> j" "j < K" "length S = nat K" "AccumInvariant gb S K j t"
  shows "\<exists>t'. GlareAccumulateBatch View Rect Desc' S K j t = Some t' \<and> AccumInvariant gb S K (j + 3) t'"
proof -
  obtain prev g where t: "t = (prev, g)" by (cases t)
  from assms(4) obtain m ps ts where I: "j = 4 + 3 * int m" "Passes g = Passes gb @ ps"
    "Textures g = Textures gb @ ts" "length ps = m + 1" "TargetTexture (last ps) = Some prev"
    "\<forall>p \<in> set ps. Shader p = FClassicBloomGlareAccumulatePS"
    "\<forall>n < length ps. StreakInputs (ps ! n) =
           map (BoundInput (map Some S) (if n = 0 then None else TargetTexture (ps ! (n - 1))))
             (BatchAt (nat K) n)"
    unfolding AccumInvariant_def t by auto
  from GlareAccumulateBatch_eq [of j K S View Rect Desc' prev g] assms
  obtain tx p where e: "GlareAccumulateBatch View Rect Desc' S K j (prev, g) =
       Some (tx, g\<lparr>Textures := Textures g @ [tx], Passes := Passes g @ [p]\<rparr>)"
     "Shader p = FClassicBloomGlareAccumulatePS" "TargetTexture p = Some tx"
     "StreakInputs p = map (BoundInput (map Some S) (Some prev)) (NextBatch (nat K) (nat j))"
    by auto
  have ps: "ps \<noteq> []" using I(4) by auto
  have nj: "nat j = 4 + 3 * m" using I(1) by simp
  have last: "ps ! m = last ps" using I(4) ps by (simp add: last_conv_nth)
  have "AccumInvariant gb S K (j + 3) (tx, g\<lparr>Textures := Textures g @ [tx], Passes := Passes g @ [p]\<rparr>)"
    unfolding AccumInvariant_def
  proof (intro exI [of _ "Suc m"] exI [of _ "ps @ [p]"] exI [of _ "ts @ [tx]"] conjI)
    show "\<forall>n<length (ps @ [p]). StreakInputs ((ps @ [p]) ! n) =
        map (BoundInput (map Some S) (if n = 0 then None else TargetTexture ((ps @ [p]) ! (n - 1))))
          (BatchAt (nat K) n)"
    proof (intro allI impI)
      fix n assume "n < length (ps @ [p])"
      then consider "n < length ps" | "n = length ps" by fastforce
      then show "StreakInputs ((ps @ [p]) ! n) =
        map (BoundInput (map Some S) (if n = 0 then None else TargetTexture ((ps @ [p]) ! (n - 1))))
          (BatchAt (nat K) n)"
      proof cases
        case 1
        then have "n - 1 < length ps" by simp
        with 1 have "(ps @ [p]) ! n = ps ! n" "(ps @ [p]) ! (n - 1) = ps ! (n - 1)"
          by (simp_all add: nth_append)
        with 1 I(7) show ?thesis by simp
      next
        case 2
        then show ?thesis using e(4) I(4,5) last nj
          by (simp add: nth_append BatchAt_def)
      qed
    qed
  qed (use I e in simp_all)
  with e(1) show ?thesis unfolding t by blast
qed

lemma GlareAccumulate_bind:
  "GlareAccumulate gb View Rect Desc' S K =
     Option.bind
      (let (AccumTexture, gb1) = CreateTexture gb Desc' ''ClassicBloom.GlareAccum'' in
       do {
        T0 \<leftarrow> TArray_get S 0;
        T1 \<leftarrow> (if min K 4 \<ge> 2 then TArray_get S 1 else TArray_get S 0);
        T2 \<leftarrow> (if min K 4 \<ge> 3 then TArray_get S 2 else TArray_get S 0);
        T3 \<leftarrow> (if min K 4 \<ge> 4 then TArray_get S 3 else TArray_get S 0);
        Some (AccumTexture, AddFullscreenPass gb1 ''GlareAccumulate'' FClassicBloomGlareAccumulatePS
                    (AccumulateParameters View T0 T1 T2 T3 Rect (min K 4) AccumTexture) Rect)
       })
      (\<lambda>s. if K > 4 then for_up 4 K 3 (GlareAccumulateBatch View Rect Desc' S K) s else Some s)"
  by (simp add: GlareAccumulate_def Let_def split_beta)

lemma GlareAccumulate_spec:
  assumes "2 \<le> K" "length S = nat K"
  shows "\<exists>Accum gb2 ps ts. GlareAccumulate gb View Rect Desc' S K = Some (Accum, gb2) \<and>
     Passes gb2 = Passes gb @ ps \<and> Textures gb2 = Textures gb @ ts \<and>
     (\<forall>p \<in> set ps. Shader p = FClassicBloomGlareAccumulatePS) \<and>
     TargetTexture (last ps) = Some Accum \<and>
     length ps = length (AccumulationBatches (nat K)) \<and>
     (\<forall>n < length ps. StreakInputs (ps ! n) =
        map (BoundInput (map Some S) (if n = 0 then None else TargetTexture (ps ! (n - 1))))
          (AccumulationBatches (nat K) ! n))"
proof -
  from GlareAccumulate_first [OF assms, of gb Desc' View Rect]
  obtain t0 p0 where f: "(let (AccumTexture, gb1) = CreateTexture gb Desc' ''ClassicBloom.GlareAccum'' in
       do {
        T0 \<leftarrow> TArray_get S 0;
        T1 \<leftarrow> (if min K 4 \<ge> 2 then TArray_get S 1 else TArray_get S 0);
        T2 \<leftarrow> (if min K 4 \<ge> 3 then TArray_get S 2 else TArray_get S 0);
        T3 \<leftarrow> (if min K 4 \<ge> 4 then TArray_get S 3 else TArray_get S 0);
        Some (AccumTexture, AddFullscreenPass gb1 ''GlareAccumulate'' FClassicBloomGlareAccumulatePS
                    (AccumulateParameters View T0 T1 T2 T3 Rect (min K 4) AccumTexture) Rect)
       }) = Some (t0, gb\<lparr>Textures := Textures gb @ [t0], Passes := Passes gb @ [p0]\<rparr>)"
    and p0: "Shader p0 = FClassicBloomGlareAccumulatePS" "TargetTexture p0 = Some t0"
      "StreakInputs p0 = map (BoundInput (map Some S) None) (FirstBatch (nat K))"
    by blast
  let ?g0 = "gb\<lparr>Textures := Textures gb @ [t0], Passes := Passes gb @ [p0]\<rparr>"
  have I0: "AccumInvariant gb S K 4 (t0, ?g0)"
    unfolding AccumInvariant_def
    by (intro exI [of _ 0] exI [of _ "[p0]"] exI [of _ "[t0]"]) (simp add: p0 BatchAt_def)
  have fin: "\<exists>t. (if K > 4 then for_up 4 K 3 (GlareAccumulateBatch View Rect Desc' S K) (t0, ?g0)
                  else Some (t0, ?g0)) = Some t \<and>
       (\<exists>j. AccumInvariant gb S K j t \<and> K \<le> j \<and> j < K + 3)"
  proof (cases "K > 4")
    case False
    with I0 assms show ?thesis by auto
  next
    case True
    from for_up_rule [of 3 "AccumInvariant gb S K" 4 "(t0, ?g0)" K
        "GlareAccumulateBatch View Rect Desc' S K", OF _ I0]
      AccumInvariant_step [OF _ _ assms(2)]
    obtain t j where "for_up 4 K 3 (GlareAccumulateBatch View Rect Desc' S K) (t0, ?g0) = Some t"
      "AccumInvariant gb S K j t" "K \<le> j" "4 < K \<longrightarrow> j < K + 3"
      by (metis zero_less_numeral)
    with True show ?thesis by auto
  qed
  then obtain A g j where r: "GlareAccumulate gb View Rect Desc' S K = Some (A, g)"
    and I: "AccumInvariant gb S K j (A, g)" and j: "K \<le> j" "j < K + 3"
    unfolding GlareAccumulate_bind f by force
  from I obtain m ps ts where J: "j = 4 + 3 * int m" "Passes g = Passes gb @ ps"
    "Textures g = Textures gb @ ts" "length ps = m + 1" "TargetTexture (last ps) = Some A"
    "\<forall>p \<in> set ps. Shader p = FClassicBloomGlareAccumulatePS"
    "\<forall>n < length ps. StreakInputs (ps ! n) =
           map (BoundInput (map Some S) (if n = 0 then None else TargetTexture (ps ! (n - 1))))
             (BatchAt (nat K) n)"
    unfolding AccumInvariant_def by auto
  have m: "m = (nat K - 2) div 3" using J(1) j assms(1) by linarith
  have len: "length ps = length (AccumulationBatches (nat K))"
    using J(4) m by (simp add: length_AccumulationBatches)
  show ?thesis
    apply (intro exI [of _ A] exI [of _ g] exI [of _ ps] exI [of _ ts])
    using r J len by (simp add: AccumulationBatches_nth)
qed

lemma distinct_of_Handles: "map Handle S = [a ..< b] \<Longrightarrow> distinct S"
  using distinct_map [of Handle S] by simp

lemma DirectionalGlareBloom_available:
  assumes "FClassicBloomGlareStreakPS \<in> sm" "FClassicBloomGlareAccumulatePS \<in> sm"
  shows "\<exists>S gb1 sps aps A gb2 t gb' log' bh bv ts.
     length S = nat (Clamp (GlareStreakCount c) 2 16) \<and> distinct S \<and>
     Passes gb1 = Passes gb @ sps \<and> map TargetTexture sps = map Some S \<and>
     (\<forall>p \<in> set sps. Shader p = FClassicBloomGlareStreakPS) \<and>
     GlareAccumulate gb1 View Rect Desc' S (Clamp (GlareStreakCount c) 2 16) = Some (A, gb2) \<and>
     Passes gb2 = Passes gb1 @ aps \<and>
     (\<forall>p \<in> set aps. Shader p = FClassicBloomGlareAccumulatePS) \<and>
     length aps = length (AccumulationBatches (nat (Clamp (GlareStreakCount c) 2 16))) \<and>
     (\<forall>n < length aps. StreakInputs (aps ! n) =
        map (BoundInput (map Some S) (if n = 0 then None else TargetTexture (aps ! (n - 1))))
          (AccumulationBatches (nat (Clamp (GlareStreakCount c) 2 16)) ! n)) \<and>
     DirectionalGlareBloom gb View sm c bShouldLog Divisor Ext Rect Desc' Bright =
       Some (Some t, gb', log') \<and>
     Passes gb' = Passes gb2 @ [bh, bv] \<and>
     Shader bh = FClassicBloomBlurPS \<and> Shader bv = FClassicBloomBlurPS \<and>
     Textures gb' = Textures gb @ ts"
proof -
  define K where "K = Clamp (GlareStreakCount c) 2 16"
  have K: "2 \<le> K" "K \<le> 16" using Clamp_int_bounds [of 2 16 "GlareStreakCount c"] by (simp_all add: K_def)
  let ?body = "GlareStreakIteration View Ext Rect Desc' Bright (360 / real_of_int K)
      (GlareRotationOffset c)
      (Clamp (real_of_int (GlareStreakLength c)) 5 200 / real_of_int Divisor)
      (Clamp (GlareFalloff c) 0.5 10)"
  have K0: "0 \<le> K" using K by simp
  from StreakLoop [OF K0, where gb = gb and View = View and Ext = Ext and Rect = Rect
      and Desc' = Desc' and Bright = Bright and AngleStep = "360 / real_of_int K"
      and Rot = "GlareRotationOffset c"
      and Len = "Clamp (real_of_int (GlareStreakLength c)) 5 200 / real_of_int Divisor"
      and Fall = "Clamp (GlareFalloff c) 0.5 10"]
  obtain S gb1 sps where s: "for_up 0 K 1 ?body ([], gb) = Some (S, gb1)" "length S = nat K"
    "Passes gb1 = Passes gb @ sps" "Textures gb1 = Textures gb @ S"
    "map TargetTexture sps = map Some S" "\<forall>p \<in> set sps. Shader p = FClassicBloomGlareStreakPS"
    "map Handle S = [length (Textures gb) ..< length (Textures gb) + nat K]"
    by blast
  from GlareAccumulate_spec [OF K(1) s(2), of gb1 View Rect Desc']
  obtain A gb2 aps ats where a: "GlareAccumulate gb1 View Rect Desc' S K = Some (A, gb2)"
    "Passes gb2 = Passes gb1 @ aps" "Textures gb2 = Textures gb1 @ ats"
    and a': "\<forall>p \<in> set aps. Shader p = FClassicBloomGlareAccumulatePS"
    "length aps = length (AccumulationBatches (nat K))"
    "\<forall>n < length aps. StreakInputs (aps ! n) =
        map (BoundInput (map Some S) (if n = 0 then None else TargetTexture (aps ! (n - 1))))
          (AccumulationBatches (nat K) ! n)" by blast
  let ?r = "DirectionalGlareBloom gb View sm c bShouldLog Divisor Ext Rect Desc' Bright"
  have r: "\<exists>t gb' log' bh bv ts. ?r = Some (Some t, gb', log') \<and> Passes gb' = Passes gb2 @ [bh, bv] \<and>
     Shader bh = FClassicBloomBlurPS \<and> Shader bv = FClassicBloomBlurPS \<and>
     Textures gb' = Textures gb @ ts"
    apply (rule exI [of _ "the (fst (the ?r))"])
    apply (rule exI [of _ "fst (snd (the ?r))"])
    apply (rule exI [of _ "snd (snd (the ?r))"])
    apply (rule exI [of _ "last (butlast (Passes (fst (snd (the ?r)))))"])
    apply (rule exI [of _ "last (Passes (fst (snd (the ?r))))"])
    apply (rule exI [of _ "drop (length (Textures gb)) (Textures (fst (snd (the ?r))))"])
    using assms s(1) a s(4)
    apply (simp add: DirectionalGlareBloom_def Let_def K_def [symmetric]
        TShaderMapRef_IsValid_def CreateTexture_eq AddFullscreenPass_def butlast_append)
    done
  from s(7) have "distinct S" by (rule distinct_of_Handles)
  with s a a' r show ?thesis unfolding K_def by blast
qed

lemma DirectionalGlareBloom_no_streak:
  assumes "FClassicBloomGlareStreakPS \<notin> sm"
  shows "\<exists>log'. DirectionalGlareBloom gb View sm c bShouldLog Divisor Ext Rect Desc' Bright =
           Some (None, gb, log')"
  using assms by (simp add: DirectionalGlareBloom_def Let_def TShaderMapRef_IsValid_def)

lemma DirectionalGlareBloom_no_accumulate:
  assumes "FClassicBloomGlareStreakPS \<in> sm" "FClassicBloomGlareAccumulatePS \<notin> sm"
  shows "\<exists>gb1 log'. DirectionalGlareBloom gb View sm c bShouldLog Divisor Ext Rect Desc' Bright =
           Some (None, gb1, log') \<and> ExtendsGraph gb gb1 {FClassicBloomGlareStreakPS} \<and>
           length (Passes gb1) = length (Passes gb) + nat (Clamp (GlareStreakCount c) 2 16)"
proof -
  define K where "K = Clamp (GlareStreakCount c) 2 16"
  have K: "2 \<le> K" "K \<le> 16" using Clamp_int_bounds [of 2 16 "GlareStreakCount c"] by (simp_all add: K_def)
  let ?body = "GlareStreakIteration View Ext Rect Desc' Bright (360 / real_of_int K)
      (GlareRotationOffset c)
      (Clamp (real_of_int (GlareStreakLength c)) 5 200 / real_of_int Divisor)
      (Clamp (GlareFalloff c) 0.5 10)"
  have K0: "0 \<le> K" using K by simp
  from StreakLoop [OF K0, where gb = gb and View = View and Ext = Ext and Rect = Rect
      and Desc' = Desc' and Bright = Bright and AngleStep = "360 / real_of_int K"
      and Rot = "GlareRotationOffset c"
      and Len = "Clamp (real_of_int (GlareStreakLength c)) 5 200 / real_of_int Divisor"
      and Fall = "Clamp (GlareFalloff c) 0.5 10"]
  obtain S gb1 sps where s: "for_up 0 K 1 ?body ([], gb) = Some (S, gb1)" "length S = nat K"
    "Passes gb1 = Passes gb @ sps" "Textures gb1 = Textures gb @ S"
    "map TargetTexture sps = map Some S" "\<forall>p \<in> set sps. Shader p = FClassicBloomGlareStreakPS"
    by blast
  have "length (map TargetTexture sps) = length (map Some S)" using s(5) by simp
  then have "length sps = nat K" using s(2) by simp
  with s assms show ?thesis
    by (auto simp: DirectionalGlareBloom_def Let_def K_def [symmetric]
        TShaderMapRef_IsValid_def ExtendsGraph_def)
qed


lemma BlurStage_glare:
  assumes "BloomMode c = DirectionalGlare"
    and "DirectionalGlareBloom gb View sm c bShouldLog Divisor Ext Rect Desc' Bright =
           Some (Some t, gb', log')"
  shows "BlurStage gb View sm SceneTex VRect c bShouldLog Divisor Ext Rect Desc' Bright =
           Some (t, gb', log')"
  using assms by (simp add: BlurStage_def Let_def)





subsection \<open>The stages: Kawase\<close>

lemma half_clamped: "max (DivideAndRoundUp x 2) 1 = max 1 \<lceil>real_of_int x / 2\<rceil>"
proof (cases "0 < x")
  case True
  then show ?thesis using DivideAndRoundUp_pos [of x 2] by simp
next
  case False
  then have "DivideAndRoundUp x 2 \<le> 0" by (intro DivideAndRoundUp_nonpos) auto
  moreover have "\<lceil>real_of_int x / 2\<rceil> \<le> 0" using False by (simp add: ceiling_le_iff)
  ultimately show ?thesis by simp
qed

lemma RectOfExtent_simps [simp]:
  "Width (RectOfExtent E) = X E" "Height (RectOfExtent E) = Y E"
  "Min_pt (RectOfExtent E) = \<lparr>X = 0, Y = 0\<rparr>" "Max_pt (RectOfExtent E) = E"
  by (simp_all add: RectOfExtent_def Width_def Height_def)

lemma KawaseCreateMip_eq:
  assumes "Width (CurrentRect C) = X (CurrentExtent C)" "Height (CurrentRect C) = Y (CurrentExtent C)"
  shows "\<exists>T. KawaseCreateMip j (C, g) =
      Some (\<lparr>CurrentExtent = HalfExtent (CurrentExtent C),
             CurrentRect = RectOfExtent (HalfExtent (CurrentExtent C)),
             MipTextures = MipTextures C @ [T],
             MipExtents = MipExtents C @ [HalfExtent (CurrentExtent C)],
             MipRects = MipRects C @ [RectOfExtent (HalfExtent (CurrentExtent C))]\<rparr>,
            g\<lparr>Textures := Textures g @ [T]\<rparr>) \<and>
      Extent (Desc T) = HalfExtent (CurrentExtent C)"
  apply (rule exI [of _ "last (MipTextures (fst (the (KawaseCreateMip j (C, g)))))"])
  using assms
  apply (simp add: KawaseCreateMip_def Let_def CreateTexture_eq
        DivideAndRoundUp_pt_def half_clamped HalfExtent_def Create2D_def RectOfExtent_def
        ZeroValue_def)
  done

lemma KawaseCreateMip_step:
  assumes "0 \<le> j" "MipInvariant gb Ext j t"
  shows "\<exists>t'. KawaseCreateMip j t = Some t' \<and> MipInvariant gb Ext (j + 1) t'"
proof -
  obtain C g where t: "t = (C, g)" by (cases t)
  from assms(2) have I: "length (MipTextures C) = nat j"
     "MipExtents C = map (MipExtentAt Ext) [0..<nat j]"
     "MipRects C = map RectOfExtent (MipExtents C)"
     "map (\<lambda>T. Extent (Desc T)) (MipTextures C) = MipExtents C"
     "Textures g = Textures gb @ MipTextures C" "Passes g = Passes gb"
     "CurrentExtent C = (if j = 0 then Ext else MipExtentAt Ext (nat j - 1))"
     "Width (CurrentRect C) = X (CurrentExtent C)"
     "Height (CurrentRect C) = Y (CurrentExtent C)"
    unfolding MipInvariant_def t by simp_all
  have next_ext: "HalfExtent (CurrentExtent C) = MipExtentAt Ext (nat j)"
  proof (cases "j = 0")
    case True then show ?thesis using I(7) by simp
  next
    case False
    then obtain k where "nat j = Suc k" using assms(1) by (cases "nat j") auto
    then show ?thesis using I(7) False by simp
  qed
  have nj: "nat (j + 1) = Suc (nat j)" "j + 1 \<noteq> 0" using assms(1) by simp_all
  from KawaseCreateMip_eq [OF I(8,9), of j g] obtain T where
    e: "KawaseCreateMip j (C, g) =
      Some (\<lparr>CurrentExtent = HalfExtent (CurrentExtent C),
             CurrentRect = RectOfExtent (HalfExtent (CurrentExtent C)),
             MipTextures = MipTextures C @ [T],
             MipExtents = MipExtents C @ [HalfExtent (CurrentExtent C)],
             MipRects = MipRects C @ [RectOfExtent (HalfExtent (CurrentExtent C))]\<rparr>,
            g\<lparr>Textures := Textures g @ [T]\<rparr>)"
    and T: "Extent (Desc T) = HalfExtent (CurrentExtent C)" by blast
  show ?thesis
    unfolding t e using I(1-6) T nj
    by (simp add: MipInvariant_def next_ext)
qed

lemma KawaseMipLoop:
  assumes "0 \<le> M" "Width Rect = X Ext" "Height Rect = Y Ext"
  shows "\<exists>C gb1. for_up 0 M 1 KawaseCreateMip
           (\<lparr>CurrentExtent = Ext, CurrentRect = Rect, MipTextures = [], MipExtents = [],
             MipRects = []\<rparr>, gb) = Some (C, gb1) \<and> MipInvariant gb Ext M (C, gb1)"
proof -
  have "\<exists>t. for_up 0 M 1 KawaseCreateMip
           (\<lparr>CurrentExtent = Ext, CurrentRect = Rect, MipTextures = [], MipExtents = [],
             MipRects = []\<rparr>, gb) = Some t \<and> MipInvariant gb Ext M t"
  proof (rule for_up1_rule [where I = "MipInvariant gb Ext"])
    show "0 \<le> M" by fact
    show "MipInvariant gb Ext 0 (\<lparr>CurrentExtent = Ext, CurrentRect = Rect, MipTextures = [],
        MipExtents = [], MipRects = []\<rparr>, gb)"
      using assms by (simp add: MipInvariant_def)
    show "\<And>j t. 0 \<le> j \<Longrightarrow> j < M \<Longrightarrow> MipInvariant gb Ext j t \<Longrightarrow>
        \<exists>t'. KawaseCreateMip j t = Some t' \<and> MipInvariant gb Ext (j + 1) t'"
      using KawaseCreateMip_step by blast
  qed
  then show ?thesis by force
qed

lemma all_nth_snoc:
  assumes "\<forall>k < length ps. P k (ps ! k)" "P (length ps) p"
  shows "\<forall>k < length (ps @ [p]). P k ((ps @ [p]) ! k)"
proof (intro allI impI)
  fix k assume "k < length (ps @ [p])"
  then consider "k < length ps" | "k = length ps" by fastforce
  then show "P k ((ps @ [p]) ! k)" using assms by cases (simp_all add: nth_append)
qed

lemma KawaseDownsample_eq:
  assumes "0 \<le> j" "j < int (length (MipTextures C))"
    "length (MipExtents C) = length (MipTextures C)" "length (MipRects C) = length (MipTextures C)"
  shows "\<exists>p. KawaseDownsample View c Knee C j ((src, sext, srect), g) =
      Some ((Some (MipTextures C ! nat j), MipExtents C ! nat j, MipRects C ! nat j),
            g\<lparr>Passes := Passes g @ [p]\<rparr>) \<and>
      Shader p = FClassicBloomKawaseDownsamplePS \<and>
      Param p ''SourceTexture'' = Some (TextureParam src) \<and>
      Param p ''bUseKarisAverage'' = Some (IntParam (if j = 0 then 1 else 0)) \<and>
      TargetTexture p = Some (MipTextures C ! nat j) \<and>
      PassViewport p = MipRects C ! nat j"
  apply (rule exI [of _ "last (Passes (snd (the (KawaseDownsample View c Knee C j ((src, sext, srect), g)))))"])
  using assms
  apply (simp add: KawaseDownsample_def TArray_get_def AddFullscreenPass_def Let_def
      Param_def TargetTexture_def)
  done

lemma KawaseDownsample_step:
  assumes "0 \<le> j" "j < int (length (MipTextures C))"
    "length (MipExtents C) = length (MipTextures C)" "length (MipRects C) = length (MipTextures C)"
    "DownInvariant gb C SceneTex j t"
  shows "\<exists>t'. KawaseDownsample View c Knee C j t = Some t' \<and> DownInvariant gb C SceneTex (j + 1) t'"
proof -
  obtain src sext srect g where t: "t = ((src, sext, srect), g)" by (cases t) auto
  from assms(5) obtain ps where I: "Passes g = Passes gb @ ps" "Textures g = Textures gb"
    "length ps = nat j" "src = Some (if j = 0 then SceneTex else MipTextures C ! (nat j - 1))"
    "\<forall>k < length ps. IsDownsamplePass C SceneTex k (ps ! k)"
    unfolding DownInvariant_def t by auto
  from KawaseDownsample_eq [OF assms(1-4), of View c Knee src sext srect g]
  obtain p where e: "KawaseDownsample View c Knee C j ((src, sext, srect), g) =
      Some ((Some (MipTextures C ! nat j), MipExtents C ! nat j, MipRects C ! nat j),
            g\<lparr>Passes := Passes g @ [p]\<rparr>)"
    and p: "Shader p = FClassicBloomKawaseDownsamplePS"
      "Param p ''SourceTexture'' = Some (TextureParam src)"
      "Param p ''bUseKarisAverage'' = Some (IntParam (if j = 0 then 1 else 0))"
      "TargetTexture p = Some (MipTextures C ! nat j)"
      "PassViewport p = MipRects C ! nat j" by blast
  have "IsDownsamplePass C SceneTex (length ps) p"
    using p I(3,4) assms(1) by (auto simp: IsDownsamplePass_def)
  with I(5) have all: "\<forall>k < length (ps @ [p]). IsDownsamplePass C SceneTex k ((ps @ [p]) ! k)"
    by (rule all_nth_snoc)
  have "DownInvariant gb C SceneTex (j + 1)
      ((Some (MipTextures C ! nat j), MipExtents C ! nat j, MipRects C ! nat j),
            g\<lparr>Passes := Passes g @ [p]\<rparr>)"
    unfolding DownInvariant_def
    apply (rule exI [of _ "ps @ [p]"])
    using I(1-3) all assms(1) by (simp add: nat_add_distrib)
  with e show ?thesis unfolding t by blast
qed

lemma KawaseDownsampleLoop:
  assumes "0 \<le> M" "length (MipTextures C) = nat M"
    "length (MipExtents C) = nat M" "length (MipRects C) = nat M"
  shows "\<exists>s gb2 ps. for_up 0 M 1 (KawaseDownsample View c Knee C)
           ((Some SceneTex, sext, srect), gb) = Some (s, gb2) \<and>
         Passes gb2 = Passes gb @ ps \<and> Textures gb2 = Textures gb \<and> length ps = nat M \<and>
         (\<forall>k < length ps. IsDownsamplePass C SceneTex k (ps ! k))"
proof -
  have "\<exists>t. for_up 0 M 1 (KawaseDownsample View c Knee C)
           ((Some SceneTex, sext, srect), gb) = Some t \<and> DownInvariant gb C SceneTex M t"
  proof (rule for_up1_rule [where I = "DownInvariant gb C SceneTex"])
    show "0 \<le> M" by fact
    show "DownInvariant gb C SceneTex 0 ((Some SceneTex, sext, srect), gb)"
      by (simp add: DownInvariant_def)
    fix j t assume "0 \<le> j" "j < M" "DownInvariant gb C SceneTex j t"
    then show "\<exists>t'. KawaseDownsample View c Knee C j t = Some t' \<and> DownInvariant gb C SceneTex (j + 1) t'"
      using assms by (intro KawaseDownsample_step) auto
  qed
  then show ?thesis unfolding DownInvariant_def by force
qed

lemma KawaseCreateUpsampleTexture_eq:
  assumes "0 \<le> j" "j < int (length (MipExtents C))"
  shows "\<exists>T. KawaseCreateUpsampleTexture C j (U, g) =
      Some (U @ [T], g\<lparr>Textures := Textures g @ [T]\<rparr>) \<and>
      Extent (Desc T) = MipExtents C ! nat j"
  apply (rule exI [of _ "last (fst (the (KawaseCreateUpsampleTexture C j (U, g))))"])
  using assms
  apply (simp add: KawaseCreateUpsampleTexture_def TArray_get_def CreateTexture_eq Let_def
      Create2D_def)
  done

lemma KawaseCreateUpsampleTexture_step:
  assumes "0 \<le> j" "j \<le> M - 2" "length (MipExtents C) = nat M" "UpTexInvariant gb C M j t"
  shows "\<exists>t'. KawaseCreateUpsampleTexture C j t = Some t' \<and> UpTexInvariant gb C M (j - 1) t'"
proof -
  obtain U g where t: "t = (U, g)" by (cases t)
  from assms(4) have I: "length U = nat (M - 2 - j)" "Textures g = Textures gb @ U"
    "Passes g = Passes gb"
    "\<forall>i < length U. Extent (Desc (U ! i)) = MipExtents C ! (nat M - 2 - i)"
    unfolding UpTexInvariant_def t by simp_all
  have "j < int (length (MipExtents C))" using assms by simp
  from KawaseCreateUpsampleTexture_eq [OF assms(1) this, of U g]
  obtain T where e: "KawaseCreateUpsampleTexture C j (U, g) =
      Some (U @ [T], g\<lparr>Textures := Textures g @ [T]\<rparr>)"
    and T: "Extent (Desc T) = MipExtents C ! nat j" by blast
  have idx: "nat M - 2 - length U = nat j" using I(1) assms(1,2) by simp
  have "Extent (Desc T) = MipExtents C ! (nat M - 2 - length U)" using T idx by simp
  with I(4) have all: "\<forall>i < length (U @ [T]). Extent (Desc ((U @ [T]) ! i)) = MipExtents C ! (nat M - 2 - i)"
    by (rule all_nth_snoc [where P = "\<lambda>i T. Extent (Desc T) = MipExtents C ! (nat M - 2 - i)"])
  have len: "length (U @ [T]) = nat (M - 2 - (j - 1))" using I(1) assms(1,2) by simp
  have "UpTexInvariant gb C M (j - 1) (U @ [T], g\<lparr>Textures := Textures g @ [T]\<rparr>)"
    unfolding UpTexInvariant_def using all len I(2,3) by simp
  with e show ?thesis unfolding t by blast
qed

lemma KawaseUpsampleTextureLoop:
  assumes "2 \<le> M" "length (MipExtents C) = nat M"
  shows "\<exists>U gb3. for_down (M - 2) (KawaseCreateUpsampleTexture C) ([], gb) = Some (U, gb3) \<and>
         length U = nat M - 1 \<and> Textures gb3 = Textures gb @ U \<and> Passes gb3 = Passes gb \<and>
         (\<forall>i < length U. Extent (Desc (U ! i)) = MipExtents C ! (nat M - 2 - i))"
proof -
  have "\<exists>t. for_down (M - 2) (KawaseCreateUpsampleTexture C) ([], gb) = Some t \<and>
            UpTexInvariant gb C M (- 1) t"
  proof (rule for_down_rule [where I = "UpTexInvariant gb C M"])
    show "- 1 \<le> M - 2" using assms by simp
    show "UpTexInvariant gb C M (M - 2) ([], gb)" by (simp add: UpTexInvariant_def)
    fix j t assume "0 \<le> j" "j \<le> M - 2" "UpTexInvariant gb C M j t"
    then show "\<exists>t'. KawaseCreateUpsampleTexture C j t = Some t' \<and> UpTexInvariant gb C M (j - 1) t'"
      using assms(2) by (intro KawaseCreateUpsampleTexture_step) auto
  qed
  then obtain U g where r: "for_down (M - 2) (KawaseCreateUpsampleTexture C) ([], gb) = Some (U, g)"
    and I: "UpTexInvariant gb C M (- 1) (U, g)" by force
  have "nat (M - 2 - - 1) = nat M - 1" using assms(1) by simp
  with I r show ?thesis unfolding UpTexInvariant_def by auto
qed

lemma KawaseUpsample_eq:
  assumes "0 \<le> j" "j < int (length (MipTextures C))"
    "length (MipExtents C) = length (MipTextures C)" "length (MipRects C) = length (MipTextures C)"
    "0 \<le> idx" "idx < int (length U)"
  shows "\<exists>p. KawaseUpsample View FR C U j ((src, sext, idx), g) =
      Some ((U ! nat idx, MipExtents C ! nat j, idx + 1), g\<lparr>Passes := Passes g @ [p]\<rparr>) \<and>
      Shader p = FClassicBloomKawaseUpsamplePS \<and>
      Param p ''SourceTexture'' = Some (TextureParam (Some src)) \<and>
      Param p ''PreviousMipTexture'' = Some (TextureParam (Some (MipTextures C ! nat j))) \<and>
      TargetTexture p = Some (U ! nat idx) \<and>
      PassViewport p = MipRects C ! nat j"
  apply (rule exI [of _ "last (Passes (snd (the (KawaseUpsample View FR C U j ((src, sext, idx), g)))))"])
  using assms
  apply (simp add: KawaseUpsample_def TArray_get_def AddFullscreenPass_def Let_def
      Param_def TargetTexture_def UpsampleParameters_def)
  done

lemma KawaseUpsample_step:
  assumes "0 \<le> j" "j \<le> M - 2" "length (MipTextures C) = nat M"
    "length (MipExtents C) = nat M" "length (MipRects C) = nat M" "length U = nat M - 1"
    "UpInvariant gb C U M j t"
  shows "\<exists>t'. KawaseUpsample View FR C U j t = Some t' \<and> UpInvariant gb C U M (j - 1) t'"
proof -
  obtain src sext idx g where t: "t = ((src, sext, idx), g)" by (cases t) auto
  from assms(7) obtain ps where I: "idx = M - 2 - j" "Passes g = Passes gb @ ps"
    "Textures g = Textures gb" "length ps = nat (M - 2 - j)"
    "src = (if M - 2 - j = 0 then MipTextures C ! (nat M - 1) else U ! (nat (M - 2 - j) - 1))"
    "\<forall>i < length ps. IsUpsamplePass C U (nat M) i (ps ! i)"
    unfolding UpInvariant_def t by auto
  have b: "j < int (length (MipTextures C))" "length (MipExtents C) = length (MipTextures C)"
    "length (MipRects C) = length (MipTextures C)" "0 \<le> idx" "idx < int (length U)"
    using assms(1-6) I(1) by simp_all
  from KawaseUpsample_eq [OF assms(1) b, of View FR src sext g]
  obtain p where e: "KawaseUpsample View FR C U j ((src, sext, idx), g) =
      Some ((U ! nat idx, MipExtents C ! nat j, idx + 1), g\<lparr>Passes := Passes g @ [p]\<rparr>)"
    and p: "Shader p = FClassicBloomKawaseUpsamplePS"
      "Param p ''SourceTexture'' = Some (TextureParam (Some src))"
      "Param p ''PreviousMipTexture'' = Some (TextureParam (Some (MipTextures C ! nat j)))"
      "TargetTexture p = Some (U ! nat idx)"
      "PassViewport p = MipRects C ! nat j" by blast
  have n: "nat M - 2 - length ps = nat j" "nat idx = length ps"
    "length ps = 0 \<longleftrightarrow> M - 2 - j = 0"
    using I(1,4) assms(1,2) by auto
  have "IsUpsamplePass C U (nat M) (length ps) p"
    unfolding IsUpsamplePass_def n(1) using p n(2,3) I(4,5)
    by (cases "M - 2 - j = 0") simp_all
  with I(6) have all: "\<forall>i < length (ps @ [p]). IsUpsamplePass C U (nat M) i ((ps @ [p]) ! i)"
    by (rule all_nth_snoc)
  have m: "M - 2 - (j - 1) \<noteq> 0" "nat (M - 2 - (j - 1)) = Suc (length ps)"
    using I(4) assms(1,2) by auto
  have "UpInvariant gb C U M (j - 1)
      ((U ! nat idx, MipExtents C ! nat j, idx + 1), g\<lparr>Passes := Passes g @ [p]\<rparr>)"
    unfolding UpInvariant_def
    apply (rule conjI)
    using I(1) apply simp
    apply (rule exI [of _ "ps @ [p]"])
    using I(2,3) all m n(2) apply simp
    done
  with e show ?thesis unfolding t by blast
qed

lemma KawaseUpsampleLoop:
  assumes "2 \<le> M" "length (MipTextures C) = nat M"
    "length (MipExtents C) = nat M" "length (MipRects C) = nat M" "length U = nat M - 1"
  shows "\<exists>s gb4 ps. for_down (M - 2) (KawaseUpsample View FR C U)
           ((MipTextures C ! (nat M - 1), sext, 0), gb) = Some (s, gb4) \<and>
         Passes gb4 = Passes gb @ ps \<and> Textures gb4 = Textures gb \<and> length ps = nat M - 1 \<and>
         (\<forall>i < length ps. IsUpsamplePass C U (nat M) i (ps ! i))"
proof -
  have "\<exists>t. for_down (M - 2) (KawaseUpsample View FR C U)
           ((MipTextures C ! (nat M - 1), sext, 0), gb) = Some t \<and> UpInvariant gb C U M (- 1) t"
  proof (rule for_down_rule [where I = "UpInvariant gb C U M"])
    show "- 1 \<le> M - 2" using assms by simp
    show "UpInvariant gb C U M (M - 2) ((MipTextures C ! (nat M - 1), sext, 0), gb)"
      by (simp add: UpInvariant_def)
    fix j t assume "0 \<le> j" "j \<le> M - 2" "UpInvariant gb C U M j t"
    then show "\<exists>t'. KawaseUpsample View FR C U j t = Some t' \<and> UpInvariant gb C U M (j - 1) t'"
      using assms by (intro KawaseUpsample_step) auto
  qed
  then obtain s g where r: "for_down (M - 2) (KawaseUpsample View FR C U)
           ((MipTextures C ! (nat M - 1), sext, 0), gb) = Some (s, g)"
    and I: "UpInvariant gb C U M (- 1) (s, g)" by force
  have n: "nat (M - 2 - - 1) = nat M - 1" using assms(1) by simp
  from I obtain ps where "Passes g = Passes gb @ ps" "Textures g = Textures gb"
    "length ps = nat (M - 2 - - 1)" "\<forall>i < length ps. IsUpsamplePass C U (nat M) i (ps ! i)"
    unfolding UpInvariant_def by auto
  with r n show ?thesis by (intro exI [of _ s] exI [of _ g] exI [of _ ps]) simp
qed

lemma KawaseBloom_unavailable:
  assumes "FClassicBloomKawaseDownsamplePS \<notin> sm \<or> FClassicBloomKawaseUpsamplePS \<notin> sm"
  shows "\<exists>log'. KawaseBloom gb View sm SceneTex VRect c bShouldLog Ext Rect Desc' Bright =
           Some (None, gb, log')"
  using assms by (auto simp: KawaseBloom_def TShaderMapRef_IsValid_def)

lemma KawaseBloom_available:
  assumes "FClassicBloomKawaseDownsamplePS \<in> sm" "FClassicBloomKawaseUpsamplePS \<in> sm"
    and "Width Rect = X Ext" "Height Rect = Y Ext"
  shows "\<exists>C U dps ups fin t gb' log' ts.
     KawaseBloom gb View sm SceneTex VRect c bShouldLog Ext Rect Desc' Bright =
       Some (Some t, gb', log') \<and>
     length (MipTextures C) = nat (Clamp (KawaseMipCount c) 3 8) \<and>
     MipExtents C = map (MipExtentAt Ext) [0..<nat (Clamp (KawaseMipCount c) 3 8)] \<and>
     MipRects C = map RectOfExtent (MipExtents C) \<and>
     map (\<lambda>T. Extent (Desc T)) (MipTextures C) = MipExtents C \<and>
     length U = nat (Clamp (KawaseMipCount c) 3 8) - 1 \<and>
     (\<forall>i < length U. Extent (Desc (U ! i)) =
        MipExtents C ! (nat (Clamp (KawaseMipCount c) 3 8) - 2 - i)) \<and>
     Passes gb' = Passes gb @ dps @ ups @ [fin] \<and> Textures gb' = Textures gb @ ts \<and>
     length dps = nat (Clamp (KawaseMipCount c) 3 8) \<and>
     (\<forall>k < length dps. IsDownsamplePass C SceneTex k (dps ! k)) \<and>
     length ups = nat (Clamp (KawaseMipCount c) 3 8) - 1 \<and>
     (\<forall>i < length ups. IsUpsamplePass C U (nat (Clamp (KawaseMipCount c) 3 8)) i (ups ! i)) \<and>
     Shader fin = FClassicBloomKawaseUpsamplePS \<and>
     Param fin ''SourceTexture'' =
       Some (TextureParam (Some (U ! (nat (Clamp (KawaseMipCount c) 3 8) - 2)))) \<and>
     Param fin ''PreviousMipTexture'' = Some (TextureParam (Some (MipTextures C ! 0))) \<and>
     TargetTexture fin = Some t \<and> Desc t = Desc' \<and> PassViewport fin = Rect"
proof -
  define M where "M = Clamp (KawaseMipCount c) 3 8"
  have M: "3 \<le> M" "M \<le> 8" using Clamp_int_bounds [of 3 8 "KawaseMipCount c"] by (simp_all add: M_def)
  have M0: "0 \<le> M" "2 \<le> M" using M by simp_all
  from KawaseMipLoop [OF M0(1) assms(3,4), of gb]
  obtain C gb1 where mip: "for_up 0 M 1 KawaseCreateMip
           (\<lparr>CurrentExtent = Ext, CurrentRect = Rect, MipTextures = [], MipExtents = [],
             MipRects = []\<rparr>, gb) = Some (C, gb1)" and MI: "MipInvariant gb Ext M (C, gb1)"
    by blast
  from MI have C: "length (MipTextures C) = nat M"
     "MipExtents C = map (MipExtentAt Ext) [0..<nat M]"
     "MipRects C = map RectOfExtent (MipExtents C)"
     "map (\<lambda>T. Extent (Desc T)) (MipTextures C) = MipExtents C"
     "Textures gb1 = Textures gb @ MipTextures C" "Passes gb1 = Passes gb"
    unfolding MipInvariant_def by simp_all
  have len: "length (MipExtents C) = nat M" "length (MipRects C) = nat M"
    using C(2,3) by simp_all
  let ?Knee = "if bKawaseSoftThreshold c then Clamp (KawaseThresholdKnee c) 0.0 1.0 else 0.0"
  let ?FR = "Clamp (KawaseFilterRadius c) 0.0001 0.01"
  from KawaseDownsampleLoop [OF M0(1) C(1) len, of View c ?Knee SceneTex
      "Extent (Desc SceneTex)" VRect gb1]
  obtain s2 gb2 dps where down: "for_up 0 M 1 (KawaseDownsample View c ?Knee C)
           ((Some SceneTex, Extent (Desc SceneTex), VRect), gb1) = Some (s2, gb2)"
    and D: "Passes gb2 = Passes gb1 @ dps" "Textures gb2 = Textures gb1" "length dps = nat M"
      "\<forall>k < length dps. IsDownsamplePass C SceneTex k (dps ! k)" by blast
  from KawaseUpsampleTextureLoop [OF M0(2) len(1), of gb2]
  obtain U gb3 where uptex: "for_down (M - 2) (KawaseCreateUpsampleTexture C) ([], gb2) = Some (U, gb3)"
    and U: "length U = nat M - 1" "Textures gb3 = Textures gb2 @ U" "Passes gb3 = Passes gb2"
      "\<forall>i < length U. Extent (Desc (U ! i)) = MipExtents C ! (nat M - 2 - i)" by blast
  from KawaseUpsampleLoop [OF M0(2) C(1) len U(1), of View ?FR "MipExtents C ! (nat M - 1)" gb3]
  obtain s4 gb4 ups where up: "for_down (M - 2) (KawaseUpsample View ?FR C U)
           ((MipTextures C ! (nat M - 1), MipExtents C ! (nat M - 1), 0), gb3) = Some (s4, gb4)"
    and UP: "Passes gb4 = Passes gb3 @ ups" "Textures gb4 = Textures gb3" "length ups = nat M - 1"
      "\<forall>i < length ups. IsUpsamplePass C U (nat M) i (ups ! i)" by blast
  let ?r = "KawaseBloom gb View sm SceneTex VRect c bShouldLog Ext Rect Desc' Bright"
  have n: "nat (M - 1) = nat M - 1" "0 < length U" "0 \<le> M - 1" "M - 1 < int (nat M)"
    "nat (int (length U) - 1) = nat M - 2" "0 < length (MipTextures C)" "0 < nat M"
    "int (length U) - 1 < int (length U)" "0 \<le> int (length U) - 1"
    using M U(1) C(1) by auto
  have r: "\<exists>t gb' log' fin ts. ?r = Some (Some t, gb', log') \<and>
     Passes gb' = Passes gb4 @ [fin] \<and> Textures gb' = Textures gb @ ts \<and>
     Shader fin = FClassicBloomKawaseUpsamplePS \<and>
     Param fin ''SourceTexture'' = Some (TextureParam (Some (U ! (nat M - 2)))) \<and>
     Param fin ''PreviousMipTexture'' = Some (TextureParam (Some (MipTextures C ! 0))) \<and>
     TargetTexture fin = Some t \<and> Desc t = Desc' \<and> PassViewport fin = Rect"
    apply (rule exI [of _ "the (fst (the ?r))"])
    apply (rule exI [of _ "fst (snd (the ?r))"])
    apply (rule exI [of _ "snd (snd (the ?r))"])
    apply (rule exI [of _ "last (Passes (fst (snd (the ?r))))"])
    apply (rule exI [of _ "drop (length (Textures gb)) (Textures (fst (snd (the ?r))))"])
    using assms(1,2) mip down uptex up n C(1,5) D(2) U(2) UP(2) len
    apply (simp add: KawaseBloom_def Let_def M_def [symmetric] TShaderMapRef_IsValid_def
        TArray_get_def TArray_Last_def CreateTexture_eq AddFullscreenPass_def Param_def
        TargetTexture_def UpsampleParameters_def split del: if_split)
    done
  then obtain t gb' log' fin ts where R: "?r = Some (Some t, gb', log') \<and>
     Passes gb' = Passes gb4 @ [fin] \<and> Textures gb' = Textures gb @ ts \<and>
     Shader fin = FClassicBloomKawaseUpsamplePS \<and>
     Param fin ''SourceTexture'' = Some (TextureParam (Some (U ! (nat M - 2)))) \<and>
     Param fin ''PreviousMipTexture'' = Some (TextureParam (Some (MipTextures C ! 0))) \<and>
     TargetTexture fin = Some t \<and> Desc t = Desc' \<and> PassViewport fin = Rect"
    by (elim exE) (rule that)
  have P: "Passes gb' = Passes gb @ dps @ ups @ [fin]"
    using R UP(1) U(3) D(1) C(6) by simp
  show ?thesis
    unfolding M_def [symmetric]
    apply (rule exI [of _ C], rule exI [of _ U], rule exI [of _ dps], rule exI [of _ ups],
        rule exI [of _ fin], rule exI [of _ t], rule exI [of _ gb'], rule exI [of _ log'],
        rule exI [of _ ts])
    using R P C(1-4) U(1,4) D(3,4) UP(3,4) by simp
qed

lemma BlurStage_kawase:
  assumes "BloomMode c = Kawase"
    and "KawaseBloom gb View sm SceneTex VRect c bShouldLog Ext Rect Desc' Bright =
           Some (Some t, gb', log')"
  shows "BlurStage gb View sm SceneTex VRect c bShouldLog Divisor Ext Rect Desc' Bright =
           Some (t, gb', log')"
  using assms by (simp add: BlurStage_def Let_def)

lemma BlurStage_kawase_pyramid:
  assumes "BloomMode c = Kawase"
    and "FClassicBloomKawaseDownsamplePS \<in> sm" and "FClassicBloomKawaseUpsamplePS \<in> sm"
  shows "\<exists>t gb' log'.
     BlurStage gb View sm SceneTex VRect c bShouldLog Divisor Ext (ComputeDownsampledRect Ext)
       (BrightPassDesc_of Ext) Bright = Some (t, gb', log') \<and>
     (let M = nat (Clamp (KawaseMipCount c) 3 8);
          Downs = filter (\<lambda>p. Shader p = FClassicBloomKawaseDownsamplePS) (NewPasses gb gb');
          Ups = filter (\<lambda>p. Shader p = FClassicBloomKawaseUpsamplePS) (NewPasses gb gb')
      in 3 \<le> M \<and> M \<le> 8 \<and> NewPasses gb gb' = Downs @ Ups \<and>
         length Downs = M \<and> length Ups = M \<and>
         (\<forall>k < M.
            Param (Downs ! k) ''SourceTexture'' =
              Some (TextureParam (if k = 0 then Some SceneTex else TargetTexture (Downs ! (k - 1)))) \<and>
            Param (Downs ! k) ''bUseKarisAverage'' = Some (IntParam (if k = 0 then 1 else 0)) \<and>
            (\<exists>T. TargetTexture (Downs ! k) = Some T \<and> Extent (Desc T) = MipExtentAt Ext k) \<and>
            PassViewport (Downs ! k) = RectOfExtent (MipExtentAt Ext k)) \<and>
         (\<forall>i < M - 1.
            Param (Ups ! i) ''SourceTexture'' =
              Some (TextureParam (if i = 0 then TargetTexture (Downs ! (M - 1))
                                  else TargetTexture (Ups ! (i - 1)))) \<and>
            Param (Ups ! i) ''PreviousMipTexture'' =
              Some (TextureParam (TargetTexture (Downs ! (M - 2 - i)))) \<and>
            (\<exists>T. TargetTexture (Ups ! i) = Some T \<and> Extent (Desc T) = MipExtentAt Ext (M - 2 - i)) \<and>
            PassViewport (Ups ! i) = RectOfExtent (MipExtentAt Ext (M - 2 - i))) \<and>
         Param (Ups ! (M - 1)) ''SourceTexture'' =
           Some (TextureParam (TargetTexture (Ups ! (M - 2)))) \<and>
         Param (Ups ! (M - 1)) ''PreviousMipTexture'' =
           Some (TextureParam (TargetTexture (Downs ! 0))) \<and>
         TargetTexture (Ups ! (M - 1)) = Some t \<and> Desc t = BrightPassDesc_of Ext \<and>
         PassViewport (Ups ! (M - 1)) = ComputeDownsampledRect Ext)"
proof -
  define M where "M = nat (Clamp (KawaseMipCount c) 3 8)"
  have M: "3 \<le> M" "M \<le> 8"
    using Clamp_int_bounds [of 3 8 "KawaseMipCount c"] unfolding M_def by linarith+
  have wh: "Width (ComputeDownsampledRect Ext) = X Ext" "Height (ComputeDownsampledRect Ext) = Y Ext"
    by (simp_all add: ComputeDownsampledRect_def ZeroValue_def Width_def Height_def)
  from KawaseBloom_available [OF assms(2,3) wh, of gb View SceneTex VRect c bShouldLog
      "BrightPassDesc_of Ext" Bright, folded M_def]
  obtain C U dps ups fin t gb' log' ts where K:
    "KawaseBloom gb View sm SceneTex VRect c bShouldLog Ext (ComputeDownsampledRect Ext)
       (BrightPassDesc_of Ext) Bright = Some (Some t, gb', log') \<and>
     length (MipTextures C) = M \<and>
     MipExtents C = map (MipExtentAt Ext) [0..<M] \<and>
     MipRects C = map RectOfExtent (MipExtents C) \<and>
     map (\<lambda>T. Extent (Desc T)) (MipTextures C) = MipExtents C \<and>
     length U = M - 1 \<and>
     (\<forall>i < length U. Extent (Desc (U ! i)) = MipExtents C ! (M - 2 - i)) \<and>
     Passes gb' = Passes gb @ dps @ ups @ [fin] \<and> Textures gb' = Textures gb @ ts \<and>
     length dps = M \<and>
     (\<forall>k < length dps. IsDownsamplePass C SceneTex k (dps ! k)) \<and>
     length ups = M - 1 \<and>
     (\<forall>i < length ups. IsUpsamplePass C U M i (ups ! i)) \<and>
     Shader fin = FClassicBloomKawaseUpsamplePS \<and>
     Param fin ''SourceTexture'' = Some (TextureParam (Some (U ! (M - 2)))) \<and>
     Param fin ''PreviousMipTexture'' = Some (TextureParam (Some (MipTextures C ! 0))) \<and>
     TargetTexture fin = Some t \<and> Desc t = BrightPassDesc_of Ext \<and>
     PassViewport fin = ComputeDownsampledRect Ext"
    by (elim exE) (rule that)
  then have k: "KawaseBloom gb View sm SceneTex VRect c bShouldLog Ext (ComputeDownsampledRect Ext)
       (BrightPassDesc_of Ext) Bright = Some (Some t, gb', log')"
    and C: "length (MipTextures C) = M" "MipExtents C = map (MipExtentAt Ext) [0..<M]"
      "MipRects C = map RectOfExtent (MipExtents C)"
      "map (\<lambda>T. Extent (Desc T)) (MipTextures C) = MipExtents C"
    and U: "length U = M - 1" "\<forall>i < length U. Extent (Desc (U ! i)) = MipExtents C ! (M - 2 - i)"
    and P: "Passes gb' = Passes gb @ dps @ ups @ [fin]"
    and D: "length dps = M" "\<forall>k < length dps. IsDownsamplePass C SceneTex k (dps ! k)"
    and UP: "length ups = M - 1" "\<forall>i < length ups. IsUpsamplePass C U M i (ups ! i)"
    and F: "Shader fin = FClassicBloomKawaseUpsamplePS"
      "Param fin ''SourceTexture'' = Some (TextureParam (Some (U ! (M - 2))))"
      "Param fin ''PreviousMipTexture'' = Some (TextureParam (Some (MipTextures C ! 0)))"
      "TargetTexture fin = Some t" "Desc t = BrightPassDesc_of Ext"
      "PassViewport fin = ComputeDownsampledRect Ext"
    by blast+
  have dsh: "\<forall>p \<in> set dps. Shader p = FClassicBloomKawaseDownsamplePS"
    using D(2) by (auto simp: in_set_conv_nth IsDownsamplePass_def)
  have ush: "\<forall>p \<in> set ups. Shader p = FClassicBloomKawaseUpsamplePS"
    using UP(2) by (auto simp: in_set_conv_nth IsUpsamplePass_def)
  have new: "NewPasses gb gb' = dps @ ups @ [fin]" using P by (simp add: NewPasses_def)
  have fd: "filter (\<lambda>p. Shader p = FClassicBloomKawaseDownsamplePS) (NewPasses gb gb') = dps"
    using dsh ush F(1) by (simp add: new filter_id_conv filter_empty_conv)
  have fu: "filter (\<lambda>p. Shader p = FClassicBloomKawaseUpsamplePS) (NewPasses gb gb') = ups @ [fin]"
    using dsh ush F(1) by (simp add: new filter_id_conv filter_empty_conv)
  have ext: "\<And>k. k < M \<Longrightarrow> Extent (Desc (MipTextures C ! k)) = MipExtentAt Ext k"
  proof -
    fix k assume k: "k < M"
    have "Extent (Desc (MipTextures C ! k)) = map (\<lambda>T. Extent (Desc T)) (MipTextures C) ! k"
      using k C(1) by simp
    also have "\<dots> = MipExtentAt Ext k" using k C(2,4) by simp
    finally show "Extent (Desc (MipTextures C ! k)) = MipExtentAt Ext k" .
  qed
  have mext: "\<And>k. k < M \<Longrightarrow> MipExtents C ! k = MipExtentAt Ext k" using C(2) by simp
  have rect: "\<And>k. k < M \<Longrightarrow> MipRects C ! k = RectOfExtent (MipExtentAt Ext k)"
    using C(2,3) by simp
  have down: "\<And>k. k < M \<Longrightarrow> IsDownsamplePass C SceneTex k (dps ! k)" using D by simp
  have up: "\<And>i. i < M - 1 \<Longrightarrow> IsUpsamplePass C U M i (ups ! i)" using UP by simp
  have dt: "\<And>k. k < M \<Longrightarrow> TargetTexture (dps ! k) = Some (MipTextures C ! k)"
    using down by (simp add: IsDownsamplePass_def)
  have ut: "\<And>i. i < M - 1 \<Longrightarrow> TargetTexture (ups ! i) = Some (U ! i)"
    using up by (simp add: IsUpsamplePass_def)
  have un: "\<And>i. i < M - 1 \<Longrightarrow> (ups @ [fin]) ! i = ups ! i" "(ups @ [fin]) ! (M - 1) = fin"
    using UP(1) by (simp_all add: nth_append)
  have downs: "\<forall>k < M.
      Param (dps ! k) ''SourceTexture'' =
        Some (TextureParam (if k = 0 then Some SceneTex else TargetTexture (dps ! (k - 1)))) \<and>
      Param (dps ! k) ''bUseKarisAverage'' = Some (IntParam (if k = 0 then 1 else 0)) \<and>
      (\<exists>T. TargetTexture (dps ! k) = Some T \<and> Extent (Desc T) = MipExtentAt Ext k) \<and>
      PassViewport (dps ! k) = RectOfExtent (MipExtentAt Ext k)"
  proof (intro allI impI)
    fix k assume k: "k < M"
    have p: "k \<noteq> 0 \<Longrightarrow> TargetTexture (dps ! (k - 1)) = Some (MipTextures C ! (k - 1))"
      using k dt [of "k - 1"] by simp
    show "Param (dps ! k) ''SourceTexture'' =
        Some (TextureParam (if k = 0 then Some SceneTex else TargetTexture (dps ! (k - 1)))) \<and>
      Param (dps ! k) ''bUseKarisAverage'' = Some (IntParam (if k = 0 then 1 else 0)) \<and>
      (\<exists>T. TargetTexture (dps ! k) = Some T \<and> Extent (Desc T) = MipExtentAt Ext k) \<and>
      PassViewport (dps ! k) = RectOfExtent (MipExtentAt Ext k)"
      using down [OF k] p ext [OF k] rect [OF k] by (cases "k = 0") (simp_all add: IsDownsamplePass_def)
  qed
  have ups: "\<forall>i < M - 1.
      Param ((ups @ [fin]) ! i) ''SourceTexture'' =
        Some (TextureParam (if i = 0 then TargetTexture (dps ! (M - 1))
                            else TargetTexture ((ups @ [fin]) ! (i - 1)))) \<and>
      Param ((ups @ [fin]) ! i) ''PreviousMipTexture'' =
        Some (TextureParam (TargetTexture (dps ! (M - 2 - i)))) \<and>
      (\<exists>T. TargetTexture ((ups @ [fin]) ! i) = Some T \<and> Extent (Desc T) = MipExtentAt Ext (M - 2 - i)) \<and>
      PassViewport ((ups @ [fin]) ! i) = RectOfExtent (MipExtentAt Ext (M - 2 - i))"
  proof (intro allI impI)
    fix i assume i: "i < M - 1"
    have a: "TargetTexture (dps ! (M - 1)) = Some (MipTextures C ! (M - 1))"
      using dt [of "M - 1"] M by simp
    have b: "i \<noteq> 0 \<Longrightarrow> TargetTexture ((ups @ [fin]) ! (i - 1)) = Some (U ! (i - 1))"
      using i ut [of "i - 1"] un(1) [of "i - 1"] by simp
    have m: "M - 2 - i < M" using M by simp
    have c: "TargetTexture (dps ! (M - 2 - i)) = Some (MipTextures C ! (M - 2 - i))"
      using dt [OF m] .
    have d: "Extent (Desc (U ! i)) = MipExtentAt Ext (M - 2 - i)"
      using U i mext [OF m] by simp
    show "Param ((ups @ [fin]) ! i) ''SourceTexture'' =
        Some (TextureParam (if i = 0 then TargetTexture (dps ! (M - 1))
                            else TargetTexture ((ups @ [fin]) ! (i - 1)))) \<and>
      Param ((ups @ [fin]) ! i) ''PreviousMipTexture'' =
        Some (TextureParam (TargetTexture (dps ! (M - 2 - i)))) \<and>
      (\<exists>T. TargetTexture ((ups @ [fin]) ! i) = Some T \<and> Extent (Desc T) = MipExtentAt Ext (M - 2 - i)) \<and>
      PassViewport ((ups @ [fin]) ! i) = RectOfExtent (MipExtentAt Ext (M - 2 - i))"
      unfolding un(1) [OF i]
      using up [OF i] a b c d rect [OF m]
      by (cases "i = 0") (simp_all add: IsUpsamplePass_def)
  qed
  have fin: "Param ((ups @ [fin]) ! (M - 1)) ''SourceTexture'' =
        Some (TextureParam (TargetTexture ((ups @ [fin]) ! (M - 2))))"
     "Param ((ups @ [fin]) ! (M - 1)) ''PreviousMipTexture'' =
        Some (TextureParam (TargetTexture (dps ! 0)))"
     "TargetTexture ((ups @ [fin]) ! (M - 1)) = Some t"
     "PassViewport ((ups @ [fin]) ! (M - 1)) = ComputeDownsampledRect Ext"
    using F un(2) un(1) [of "M - 2"] ut [of "M - 2"] dt [of 0] M by simp_all
  have b: "BlurStage gb View sm SceneTex VRect c bShouldLog Divisor Ext (ComputeDownsampledRect Ext)
       (BrightPassDesc_of Ext) Bright = Some (t, gb', log')"
    using assms(1) k by (rule BlurStage_kawase)
  show ?thesis
    apply (rule exI [of _ t], rule exI [of _ gb'], rule exI [of _ log'])
    unfolding Let_def M_def [symmetric] fd fu
    using b M new D(1) UP(1) downs ups fin F(5) by simp
qed

subsection \<open>The blur stage, the bright pass, the composite\<close>

lemma BlurStage_standard:
  assumes "BloomMode c = Standard \<or> BloomMode c = SoftFocus \<or>
           (BloomMode c = Kawase \<and>
              (FClassicBloomKawaseDownsamplePS \<notin> sm \<or> FClassicBloomKawaseUpsamplePS \<notin> sm)) \<or>
           (BloomMode c = DirectionalGlare \<and> FClassicBloomGlareStreakPS \<notin> sm)"
  shows "\<exists>t gb' log'.
     BlurStage gb View sm SceneTex VRect c bShouldLog Divisor Ext Rect Desc' Bright =
       Some (t, gb', log') \<and>
     StandardBlur gb View c Ext Rect Desc' Bright = Some (t, gb')"
proof -
  obtain t gb' where s: "StandardBlur gb View c Ext Rect Desc' Bright = Some (t, gb')"
    using StandardBlur_total [of gb View c Ext Rect Desc' Bright] by blast
  consider (plain) "BloomMode c = Standard \<or> BloomMode c = SoftFocus"
    | (kawase) "BloomMode c = Kawase"
        "FClassicBloomKawaseDownsamplePS \<notin> sm \<or> FClassicBloomKawaseUpsamplePS \<notin> sm"
    | (glare) "BloomMode c = DirectionalGlare" "FClassicBloomGlareStreakPS \<notin> sm"
    using assms by blast
  then show ?thesis
  proof cases
    case plain
    then show ?thesis using s by (auto simp: BlurStage_def Let_def)
  next
    case kawase
    from KawaseBloom_unavailable [OF kawase(2), of gb View SceneTex VRect c bShouldLog Ext Rect Desc' Bright]
    obtain l where "KawaseBloom gb View sm SceneTex VRect c bShouldLog Ext Rect Desc' Bright =
        Some (None, gb, l)" by blast
    then show ?thesis using s kawase(1) by (simp add: BlurStage_def Let_def)
  next
    case glare
    from DirectionalGlareBloom_no_streak [OF glare(2), of gb View c bShouldLog Divisor Ext Rect Desc' Bright]
    obtain l where "DirectionalGlareBloom gb View sm c bShouldLog Divisor Ext Rect Desc' Bright =
        Some (None, gb, l)" by blast
    then show ?thesis using s glare(1) by (simp add: BlurStage_def Let_def)
  qed
qed

lemma BlurStage_no_accumulate:
  assumes "BloomMode c = DirectionalGlare" "FClassicBloomGlareStreakPS \<in> sm"
    "FClassicBloomGlareAccumulatePS \<notin> sm"
  shows "\<exists>gb1 t gb' log'.
     BlurStage gb View sm SceneTex VRect c bShouldLog Divisor Ext Rect Desc' Bright =
       Some (t, gb', log') \<and>
     ExtendsGraph gb gb1 {FClassicBloomGlareStreakPS} \<and>
     length (Passes gb1) = length (Passes gb) + nat (Clamp (GlareStreakCount c) 2 16) \<and>
     StandardBlur gb1 View c Ext Rect Desc' Bright = Some (t, gb')"
proof -
  from DirectionalGlareBloom_no_accumulate [OF assms(2,3), of gb View c bShouldLog Divisor Ext Rect Desc' Bright]
  obtain gb1 l where d: "DirectionalGlareBloom gb View sm c bShouldLog Divisor Ext Rect Desc' Bright =
        Some (None, gb1, l)" "ExtendsGraph gb gb1 {FClassicBloomGlareStreakPS}"
      "length (Passes gb1) = length (Passes gb) + nat (Clamp (GlareStreakCount c) 2 16)"
    by blast
  obtain t gb' where s: "StandardBlur gb1 View c Ext Rect Desc' Bright = Some (t, gb')"
    using StandardBlur_total [of gb1 View c Ext Rect Desc' Bright] by blast
  have "BlurStage gb View sm SceneTex VRect c bShouldLog Divisor Ext Rect Desc' Bright =
       Some (t, gb', l)"
    using d(1) s assms(1) by (simp add: BlurStage_def Let_def)
  with d(2,3) s show ?thesis by blast
qed

lemma DirectionalGlareBloom_extends:
  assumes "FClassicBloomGlareStreakPS \<in> sm" "FClassicBloomGlareAccumulatePS \<in> sm"
  shows "\<exists>t gb' log'.
     DirectionalGlareBloom gb View sm c bShouldLog Divisor Ext Rect Desc' Bright =
       Some (Some t, gb', log') \<and>
     ExtendsGraph gb gb'
       {FClassicBloomGlareStreakPS, FClassicBloomGlareAccumulatePS, FClassicBloomBlurPS}"
  using DirectionalGlareBloom_available [OF assms, of c gb View Rect Desc' bShouldLog Divisor Ext Bright]
  apply (elim exE conjE)
  subgoal for S gb1 sps aps A gb2 t gb' log' bh bv ts
    apply (rule exI [of _ t], rule exI [of _ gb'], rule exI [of _ log'])
    apply (simp add: ExtendsGraph_def)
    apply blast
    done
  done

lemma KawaseBloom_extends:
  assumes "FClassicBloomKawaseDownsamplePS \<in> sm" "FClassicBloomKawaseUpsamplePS \<in> sm"
    and "Width Rect = X Ext" "Height Rect = Y Ext"
  shows "\<exists>t gb' log'.
     KawaseBloom gb View sm SceneTex VRect c bShouldLog Ext Rect Desc' Bright =
       Some (Some t, gb', log') \<and>
     ExtendsGraph gb gb' {FClassicBloomKawaseDownsamplePS, FClassicBloomKawaseUpsamplePS}"
  using KawaseBloom_available [OF assms, of gb View SceneTex VRect c bShouldLog Desc' Bright]
  apply (elim exE conjE)
  subgoal for C U dps ups fin t gb' log' ts
    apply (rule exI [of _ t], rule exI [of _ gb'], rule exI [of _ log'])
    apply (simp add: ExtendsGraph_def)
    apply (auto simp: in_set_conv_nth IsDownsamplePass_def IsUpsamplePass_def)
    done
  done

lemma BlurStage_total:
  assumes "Width Rect = X Ext" "Height Rect = Y Ext"
  shows "\<exists>t gb' log'.
     BlurStage gb View sm SceneTex VRect c bShouldLog Divisor Ext Rect Desc' Bright =
       Some (t, gb', log') \<and>
     ExtendsGraph gb gb'
       {FClassicBloomBlurPS, FClassicBloomGlareStreakPS, FClassicBloomGlareAccumulatePS,
        FClassicBloomKawaseDownsamplePS, FClassicBloomKawaseUpsamplePS}"
proof -
  let ?Sh = "{FClassicBloomBlurPS, FClassicBloomGlareStreakPS, FClassicBloomGlareAccumulatePS,
        FClassicBloomKawaseDownsamplePS, FClassicBloomKawaseUpsamplePS}"
  let ?B = "BlurStage gb View sm SceneTex VRect c bShouldLog Divisor Ext Rect Desc' Bright"
  have sb: "\<And>g t g'. StandardBlur g View c Ext Rect Desc' Bright = Some (t, g') \<Longrightarrow>
      ExtendsGraph g g' ?Sh"
  proof -
    fix g t g' assume a: "StandardBlur g View c Ext Rect Desc' Bright = Some (t, g')"
    from StandardBlur_total [of g View c Ext Rect Desc' Bright] a
    have "ExtendsGraph g g' {FClassicBloomBlurPS}" by auto
    then show "ExtendsGraph g g' ?Sh" by (rule ExtendsGraph_mono) simp
  qed
  consider (std) "BloomMode c = Standard \<or> BloomMode c = SoftFocus \<or>
           (BloomMode c = Kawase \<and>
              (FClassicBloomKawaseDownsamplePS \<notin> sm \<or> FClassicBloomKawaseUpsamplePS \<notin> sm)) \<or>
           (BloomMode c = DirectionalGlare \<and> FClassicBloomGlareStreakPS \<notin> sm)"
    | (noacc) "BloomMode c = DirectionalGlare" "FClassicBloomGlareStreakPS \<in> sm"
        "FClassicBloomGlareAccumulatePS \<notin> sm"
    | (glare) "BloomMode c = DirectionalGlare" "FClassicBloomGlareStreakPS \<in> sm"
        "FClassicBloomGlareAccumulatePS \<in> sm"
    | (kawase) "BloomMode c = Kawase" "FClassicBloomKawaseDownsamplePS \<in> sm"
        "FClassicBloomKawaseUpsamplePS \<in> sm"
    by (cases "BloomMode c") auto
  then show ?thesis
  proof cases
    case std
    from BlurStage_standard [OF std, of gb View SceneTex VRect bShouldLog Divisor Ext Rect Desc' Bright]
    obtain t gb' log' where b: "?B = Some (t, gb', log')"
      "StandardBlur gb View c Ext Rect Desc' Bright = Some (t, gb')" by blast
    from sb [OF b(2)] b(1) show ?thesis by blast
  next
    case noacc
    from BlurStage_no_accumulate [OF noacc, of gb View SceneTex VRect bShouldLog Divisor Ext Rect Desc' Bright]
    obtain gb1 t gb' log' where b: "?B = Some (t, gb', log')"
      "ExtendsGraph gb gb1 {FClassicBloomGlareStreakPS}"
      "StandardBlur gb1 View c Ext Rect Desc' Bright = Some (t, gb')" by blast
    have "ExtendsGraph gb gb1 ?Sh" using b(2) by (rule ExtendsGraph_mono) simp
    then have "ExtendsGraph gb gb' ?Sh" using sb [OF b(3)] by (rule ExtendsGraph_trans_same)
    with b(1) show ?thesis by blast
  next
    case glare
    from DirectionalGlareBloom_extends [OF glare(2,3), of gb View c bShouldLog Divisor Ext Rect Desc' Bright]
    obtain t gb' log' where d:
      "DirectionalGlareBloom gb View sm c bShouldLog Divisor Ext Rect Desc' Bright =
         Some (Some t, gb', log')"
      "ExtendsGraph gb gb'
         {FClassicBloomGlareStreakPS, FClassicBloomGlareAccumulatePS, FClassicBloomBlurPS}"
      by blast
    have "?B = Some (t, gb', log')" using glare(1) d(1) by (rule BlurStage_glare)
    moreover have "ExtendsGraph gb gb' ?Sh" using d(2) by (rule ExtendsGraph_mono) auto
    ultimately show ?thesis by blast
  next
    case kawase
    from KawaseBloom_extends [OF kawase(2,3) assms, of gb View SceneTex VRect c bShouldLog Desc' Bright]
    obtain t gb' log' where k:
      "KawaseBloom gb View sm SceneTex VRect c bShouldLog Ext Rect Desc' Bright =
         Some (Some t, gb', log')"
      "ExtendsGraph gb gb' {FClassicBloomKawaseDownsamplePS, FClassicBloomKawaseUpsamplePS}"
      by blast
    have "?B = Some (t, gb', log')" using kawase(1) k(1) by (rule BlurStage_kawase)
    moreover have "ExtendsGraph gb gb' ?Sh" using k(2) by (rule ExtendsGraph_mono) auto
    ultimately show ?thesis by blast
  qed
qed

lemma FIntPoint_eta: "\<lparr>X = X p, Y = Y p\<rparr> = (p::FIntPoint)"
  by (cases p) simp

lemma BrightPass_shape:
  "\<exists>bp. Passes (fst (BrightPass gb View T VR c L Ext Rect BT)) = Passes gb @ [bp] \<and>
        Textures (fst (BrightPass gb View T VR c L Ext Rect BT)) = Textures gb \<and>
        Shader bp = FClassicBloomBrightPassPS \<and>
        Param bp ''BloomThreshold'' =
          Some (FloatParam (if BloomMode c = SoftFocus then 0.01 else BloomThreshold c)) \<and>
        Param bp ''SceneColorTexture'' = Some (TextureParam (Some T)) \<and>
        TargetTexture bp = Some BT \<and> PassViewport bp = Rect"
  by (simp add: BrightPass_def Let_def AddFullscreenPass_def Param_def TargetTexture_def
      split del: if_split)

lemma Composite_unavailable:
  assumes "FClassicBloomCompositePS \<notin> sm"
  shows "\<exists>g l ts. Composite gb View sm SceneColor T Over c L Ext Rect t = Some (SceneColor, g, l) \<and>
           Passes g = Passes gb \<and> Textures g = Textures gb @ ts"
proof (cases "IsValid Over")
  case True
  then obtain x where "Texture Over = Some x" by (auto simp: IsValid_def)
  with True assms show ?thesis
    by (simp add: Composite_def Let_def TShaderMapRef_IsValid_def split del: if_split)
next
  case False
  with assms show ?thesis
    by (simp add: Composite_def Let_def TShaderMapRef_IsValid_def CreateTexture_eq
        split del: if_split)
qed

lemma Composite_available:
  assumes "FClassicBloomCompositePS \<in> sm"
  shows "\<exists>Out g l cp ts OutTex.
     Composite gb View sm SceneColor T Over c L Ext Rect t = Some (Out, g, l) \<and>
     Passes g = Passes gb @ [cp] \<and> Textures g = Textures gb @ ts \<and>
     Shader cp = FClassicBloomCompositePS \<and>
     Texture Out = Some OutTex \<and> TargetTexture cp = Some OutTex \<and>
     PassViewport cp = ViewRect Out \<and>
     (if IsValid Over then Out = FScreenPassTexture.truncate Over \<and> ts = []
      else ViewRect Out = ViewRect SceneColor \<and> ts = [OutTex] \<and>
           Extent (Desc OutTex) = Extent (Desc T)) \<and>
     Param cp ''SceneColorTexture'' = Some (TextureParam (Some T)) \<and>
     Param cp ''BloomTexture'' = Some (TextureParam (Some t)) \<and>
     Param cp ''BloomIntensity'' =
       Some (FloatParam (if BloomMode c = SoftFocus then 0.0 else BloomIntensity c)) \<and>
     Param cp ''SoftFocusIntensity'' =
       Some (FloatParam (if BloomMode c = SoftFocus then BloomIntensity c else 0.0)) \<and>
     TransformsOf (Parameters cp) =
       [(''SvPositionToSceneColorUV'',
         SvPositionToTextureUV (FScreenPassTextureViewport (Extent (Desc OutTex)) (ViewRect Out))
           (FScreenPassTextureViewport (Extent (Desc T)) (ViewRect SceneColor))),
        (''SvPositionToBloomUV'',
         SvPositionToTextureUV (FScreenPassTextureViewport (Extent (Desc OutTex)) (ViewRect Out))
           (FScreenPassTextureViewport Ext Rect))]"
proof (cases "IsValid Over")
  case True
  then obtain x where x: "Texture Over = Some x" by (auto simp: IsValid_def)
  let ?r = "Composite gb View sm SceneColor T Over c L Ext Rect t"
  show ?thesis
    apply (rule exI [of _ "FScreenPassTexture.truncate Over"])
    apply (rule exI [of _ "fst (snd (the ?r))"])
    apply (rule exI [of _ "snd (snd (the ?r))"])
    apply (rule exI [of _ "last (Passes (fst (snd (the ?r))))"])
    apply (rule exI [of _ "[]"])
    apply (rule exI [of _ x])
    using True x assms
    apply (simp add: Composite_def Let_def TShaderMapRef_IsValid_def AddFullscreenPass_def
        Param_def TargetTexture_def FScreenPassTexture.truncate_def BilinearClampSampler_def
        SizeAndInvSize_def FIntPoint_eta split del: if_split)
    done
next
  case False
  let ?r = "Composite gb View sm SceneColor T Over c L Ext Rect t"
  show ?thesis
    apply (rule exI [of _ "fst (the ?r)"])
    apply (rule exI [of _ "fst (snd (the ?r))"])
    apply (rule exI [of _ "snd (snd (the ?r))"])
    apply (rule exI [of _ "last (Passes (fst (snd (the ?r))))"])
    apply (rule exI [of _ "[the (Texture (fst (the ?r)))]"])
    apply (rule exI [of _ "the (Texture (fst (the ?r)))"])
    using False assms
    apply (simp add: Composite_def Let_def TShaderMapRef_IsValid_def AddFullscreenPass_def
        Param_def TargetTexture_def FScreenPassTexture.truncate_def BilinearClampSampler_def
        SizeAndInvSize_def CreateTexture_eq FIntPoint_eta split del: if_split)
    done
qed

lemma DownsampledRect_size:
  "Width (ComputeDownsampledRect Ext) = X Ext" "Height (ComputeDownsampledRect Ext) = Y Ext"
  by (simp_all add: ComputeDownsampledRect_def ZeroValue_def Width_def Height_def)

lemma DownsampledRect_positive:
  assumes "0 < Width VR" "0 < Height VR"
  shows "0 < Width (ComputeDownsampledRect (ComputeDownsampledExtent VR (ComputeDivisor c)))"
    "0 < Height (ComputeDownsampledRect (ComputeDownsampledExtent VR (ComputeDivisor c)))"
  using DownsampledRect_degenerate [of VR c] assms by linarith+

lemma Composite_total:
  "\<exists>R g l ts. Composite gb View sm SceneColor T Over c L Ext Rect t = Some (R, g, l) \<and>
      Textures g = Textures gb @ ts"
proof (cases "FClassicBloomCompositePS \<in> sm")
  case True
  from Composite_available [OF True, of gb View SceneColor T Over c L Ext Rect t]
  show ?thesis by blast
next
  case False
  from Composite_unavailable [OF False, of gb View SceneColor T Over c L Ext Rect t]
  show ?thesis by blast
qed

lemma ClassicBloomScope_run:
  assumes "Texture (SceneColorInput Inputs) = Some T"
    and "0 < Width (ViewRect (SceneColorInput Inputs))"
    and "0 < Height (ViewRect (SceneColorInput Inputs))"
    and "FClassicBloomBrightPassPS \<in> sm"
    and "VR = ViewRect (SceneColorInput Inputs)"
    and "L = (bEnableDebugLogging c \<and> CurrentTime Ctx - LastLogTime Ctx > 1.0)"
    and "Ext = ComputeDownsampledExtent VR (ComputeDivisor c)"
    and "Rect = ComputeDownsampledRect Ext"
    and "BT = fst (CreateTexture gb (BrightPassDesc_of Ext) ''ClassicBloom.BrightPass'')"
    and "g1 = snd (CreateTexture gb (BrightPassDesc_of Ext) ''ClassicBloom.BrightPass'')"
    and "g2 = fst (BrightPass g1 View T VR c L Ext Rect BT)"
  shows "\<exists>t g3 l2 R g4 l3 r.
     BlurStage g2 View sm T VR c L (ComputeDivisor c) Ext Rect (BrightPassDesc_of Ext) BT =
       Some (t, g3, l2) \<and>
     Composite g3 View sm (SceneColorInput Inputs) T (OverrideOutput Inputs) c L Ext Rect t =
       Some (R, g4, l3) \<and>
     ClassicBloomScope Ctx gb View Inputs sm c = Some r \<and>
     ReturnValue r = R \<and> Graph r = g4 \<and>
     NewLastLogTime r = (if L then CurrentTime Ctx else LastLogTime Ctx)"
proof -
  have wh: "Width Rect = X Ext" "Height Rect = Y Ext"
    unfolding assms(8) by (rule DownsampledRect_size)+
  have pos: "0 < Width Rect" "0 < Height Rect"
    unfolding assms(8,7,5) using assms(2,3) by (rule DownsampledRect_positive)+
  from BlurStage_total [OF wh, of g2 View sm T VR c L "ComputeDivisor c" "BrightPassDesc_of Ext" BT]
  obtain t g3 l2 where b:
    "BlurStage g2 View sm T VR c L (ComputeDivisor c) Ext Rect (BrightPassDesc_of Ext) BT =
       Some (t, g3, l2)" by blast
  from Composite_total [of g3 View sm "SceneColorInput Inputs" T "OverrideOutput Inputs" c L Ext Rect t]
  obtain R g4 l3 where k:
    "Composite g3 View sm (SceneColorInput Inputs) T (OverrideOutput Inputs) c L Ext Rect t =
       Some (R, g4, l3)" by blast
  have "\<exists>r. ClassicBloomScope Ctx gb View Inputs sm c = Some r \<and>
     ReturnValue r = R \<and> Graph r = g4 \<and>
     NewLastLogTime r = (if L then CurrentTime Ctx else LastLogTime Ctx)"
    using assms(1-4) pos b k
    unfolding assms(5-11)
    by (simp add: ClassicBloomScope_def Let_def TShaderMapRef_IsValid_def split_beta
        split del: if_split)
  with b k show ?thesis by blast
qed

subsection \<open>The whole frame\<close>

lemma FrameRuns_scope:
  assumes "FrameRuns Ctx View Inputs sm c"
  shows "PostProcessPass_RenderThread Ctx gb View Inputs = ClassicBloomScope Ctx gb View Inputs sm c"
    and "\<exists>T. Texture (SceneColorInput Inputs) = Some T"
  using assms
  by (auto simp: FrameRuns_def PostProcessPass_RenderThread_def Let_def IsValid_def
      split: option.splits)

lemma valid_without_blur:
  "TShaderMapRef_IsValid (sm - {FClassicBloomBlurPS}) FClassicBloomBrightPassPS =
     TShaderMapRef_IsValid sm FClassicBloomBrightPassPS"
  "TShaderMapRef_IsValid (sm - {FClassicBloomBlurPS}) FClassicBloomCompositePS =
     TShaderMapRef_IsValid sm FClassicBloomCompositePS"
  "TShaderMapRef_IsValid (sm - {FClassicBloomBlurPS}) FClassicBloomGlareStreakPS =
     TShaderMapRef_IsValid sm FClassicBloomGlareStreakPS"
  "TShaderMapRef_IsValid (sm - {FClassicBloomBlurPS}) FClassicBloomGlareAccumulatePS =
     TShaderMapRef_IsValid sm FClassicBloomGlareAccumulatePS"
  "TShaderMapRef_IsValid (sm - {FClassicBloomBlurPS}) FClassicBloomKawaseDownsamplePS =
     TShaderMapRef_IsValid sm FClassicBloomKawaseDownsamplePS"
  "TShaderMapRef_IsValid (sm - {FClassicBloomBlurPS}) FClassicBloomKawaseUpsamplePS =
     TShaderMapRef_IsValid sm FClassicBloomKawaseUpsamplePS"
  by (simp_all add: TShaderMapRef_IsValid_def)

lemma valid_with_blur:
  "TShaderMapRef_IsValid (insert FClassicBloomBlurPS sm) FClassicBloomBrightPassPS =
     TShaderMapRef_IsValid sm FClassicBloomBrightPassPS"
  "TShaderMapRef_IsValid (insert FClassicBloomBlurPS sm) FClassicBloomCompositePS =
     TShaderMapRef_IsValid sm FClassicBloomCompositePS"
  "TShaderMapRef_IsValid (insert FClassicBloomBlurPS sm) FClassicBloomGlareStreakPS =
     TShaderMapRef_IsValid sm FClassicBloomGlareStreakPS"
  "TShaderMapRef_IsValid (insert FClassicBloomBlurPS sm) FClassicBloomGlareAccumulatePS =
     TShaderMapRef_IsValid sm FClassicBloomGlareAccumulatePS"
  "TShaderMapRef_IsValid (insert FClassicBloomBlurPS sm) FClassicBloomKawaseDownsamplePS =
     TShaderMapRef_IsValid sm FClassicBloomKawaseDownsamplePS"
  "TShaderMapRef_IsValid (insert FClassicBloomBlurPS sm) FClassicBloomKawaseUpsamplePS =
     TShaderMapRef_IsValid sm FClassicBloomKawaseUpsamplePS"
  by (simp_all add: TShaderMapRef_IsValid_def)

lemma ClassicBloomScope_without_blur:
  "ClassicBloomScope Ctx gb View Inputs (sm - {FClassicBloomBlurPS}) c =
   ClassicBloomScope Ctx gb View Inputs sm c"
  by (simp only: ClassicBloomScope_def BlurStage_def DirectionalGlareBloom_def KawaseBloom_def
      Composite_def valid_without_blur)

lemma ClassicBloomScope_with_blur:
  "ClassicBloomScope Ctx gb View Inputs (insert FClassicBloomBlurPS sm) c =
   ClassicBloomScope Ctx gb View Inputs sm c"
  by (simp only: ClassicBloomScope_def BlurStage_def DirectionalGlareBloom_def KawaseBloom_def
      Composite_def valid_with_blur)

lemma StandardBlur_passes:
  "\<exists>t gb' mid. StandardBlur gb View c Ext Rect Desc' Bright = Some (t, gb') \<and>
     Passes gb' = Passes gb @ mid \<and>
     (\<forall>p \<in> set mid. Shader p = FClassicBloomBlurPS) \<and>
     length mid = 2 * nat (Clamp (BlurPasses c) 1 4)"
  using StandardBlur_total [of gb View c Ext Rect Desc' Bright]
  by (auto simp: ExtendsGraph_def)

lemma BlurStage_fallback_passes:
  assumes "BloomMode c = Standard \<or> BloomMode c = SoftFocus \<or>
           (BloomMode c = Kawase \<and>
              (FClassicBloomKawaseDownsamplePS \<notin> sm \<or> FClassicBloomKawaseUpsamplePS \<notin> sm)) \<or>
           (BloomMode c = DirectionalGlare \<and>
              (FClassicBloomGlareStreakPS \<notin> sm \<or> FClassicBloomGlareAccumulatePS \<notin> sm))"
  shows "\<exists>t gb' log' mid.
     BlurStage gb View sm SceneTex VRect c bShouldLog Divisor Ext Rect Desc' Bright =
       Some (t, gb', log') \<and>
     Passes gb' = Passes gb @ mid \<and>
     (\<forall>p \<in> set mid. Shader p = FClassicBloomBlurPS \<or> Shader p = FClassicBloomGlareStreakPS) \<and>
     length (filter (\<lambda>p. Shader p = FClassicBloomBlurPS) mid) = 2 * nat (Clamp (BlurPasses c) 1 4)"
proof (cases "BloomMode c = DirectionalGlare \<and> FClassicBloomGlareStreakPS \<in> sm")
  case True
  then have a: "BloomMode c = DirectionalGlare" "FClassicBloomGlareStreakPS \<in> sm"
    "FClassicBloomGlareAccumulatePS \<notin> sm" using assms by auto
  from BlurStage_no_accumulate [OF a, of gb View SceneTex VRect bShouldLog Divisor Ext Rect Desc' Bright]
  obtain gb1 t gb' log' where b:
    "BlurStage gb View sm SceneTex VRect c bShouldLog Divisor Ext Rect Desc' Bright =
       Some (t, gb', log')"
    "ExtendsGraph gb gb1 {FClassicBloomGlareStreakPS}"
    "StandardBlur gb1 View c Ext Rect Desc' Bright = Some (t, gb')" by blast
  from b(2) obtain sps where s: "Passes gb1 = Passes gb @ sps"
    "\<forall>p \<in> set sps. Shader p = FClassicBloomGlareStreakPS"
    by (auto simp: ExtendsGraph_def)
  from StandardBlur_passes [of gb1 View c Ext Rect Desc' Bright] b(3)
  obtain mid where m: "Passes gb' = Passes gb1 @ mid"
    "\<forall>p \<in> set mid. Shader p = FClassicBloomBlurPS"
    "length mid = 2 * nat (Clamp (BlurPasses c) 1 4)" by auto
  have f: "filter (\<lambda>p. Shader p = FClassicBloomBlurPS) (sps @ mid) = mid"
    using s(2) m(2) by (simp add: filter_id_conv filter_empty_conv)
  have "Passes gb' = Passes gb @ (sps @ mid)" using s(1) m(1) by simp
  moreover have "\<forall>p \<in> set (sps @ mid).
      Shader p = FClassicBloomBlurPS \<or> Shader p = FClassicBloomGlareStreakPS"
    using s(2) m(2) by auto
  moreover have "length (filter (\<lambda>p. Shader p = FClassicBloomBlurPS) (sps @ mid)) =
      2 * nat (Clamp (BlurPasses c) 1 4)"
    unfolding f by (rule m(3))
  ultimately show ?thesis using b(1) by blast
next
  case False
  then have a: "BloomMode c = Standard \<or> BloomMode c = SoftFocus \<or>
           (BloomMode c = Kawase \<and>
              (FClassicBloomKawaseDownsamplePS \<notin> sm \<or> FClassicBloomKawaseUpsamplePS \<notin> sm)) \<or>
           (BloomMode c = DirectionalGlare \<and> FClassicBloomGlareStreakPS \<notin> sm)"
    using assms by auto
  from BlurStage_standard [OF a, of gb View SceneTex VRect bShouldLog Divisor Ext Rect Desc' Bright]
  obtain t gb' log' where b:
    "BlurStage gb View sm SceneTex VRect c bShouldLog Divisor Ext Rect Desc' Bright =
       Some (t, gb', log')"
    "StandardBlur gb View c Ext Rect Desc' Bright = Some (t, gb')" by blast
  from StandardBlur_passes [of gb View c Ext Rect Desc' Bright] b(2)
  obtain mid where m: "Passes gb' = Passes gb @ mid"
    "\<forall>p \<in> set mid. Shader p = FClassicBloomBlurPS"
    "length mid = 2 * nat (Clamp (BlurPasses c) 1 4)" by auto
  have "filter (\<lambda>p. Shader p = FClassicBloomBlurPS) mid = mid"
    using m(2) by (simp add: filter_id_conv)
  with m b(1) show ?thesis by auto
qed

lemma Frame_passes:
  assumes "FrameRuns Ctx View Inputs sm c"
    and "FClassicBloomBrightPassPS \<in> sm" and "FClassicBloomCompositePS \<in> sm"
    and "Ext = ComputeDownsampledExtent (ViewRect (SceneColorInput Inputs)) (ComputeDivisor c)"
  shows "\<exists>T r bp mid cp OutTex.
     Texture (SceneColorInput Inputs) = Some T \<and>
     PostProcessPass_RenderThread Ctx gb View Inputs = Some r \<and>
     Passes (Graph r) = Passes gb @ bp # mid @ [cp] \<and>
     Shader bp = FClassicBloomBrightPassPS \<and>
     Param bp ''BloomThreshold'' =
       Some (FloatParam (if BloomMode c = SoftFocus then 0.01 else BloomThreshold c)) \<and>
     (\<forall>p \<in> set mid. Shader p \<in>
        {FClassicBloomBlurPS, FClassicBloomGlareStreakPS, FClassicBloomGlareAccumulatePS,
         FClassicBloomKawaseDownsamplePS, FClassicBloomKawaseUpsamplePS}) \<and>
     Shader cp = FClassicBloomCompositePS \<and>
     Texture (ReturnValue r) = Some OutTex \<and> TargetTexture cp = Some OutTex \<and>
     PassViewport cp = ViewRect (ReturnValue r) \<and>
     Param cp ''BloomIntensity'' =
       Some (FloatParam (if BloomMode c = SoftFocus then 0 else BloomIntensity c)) \<and>
     Param cp ''SoftFocusIntensity'' =
       Some (FloatParam (if BloomMode c = SoftFocus then BloomIntensity c else 0)) \<and>
     TransformsOf (Parameters cp) =
       [(''SvPositionToSceneColorUV'',
         SvPositionToTextureUV
           (FScreenPassTextureViewport (Extent (Desc OutTex)) (ViewRect (ReturnValue r)))
           (FScreenPassTextureViewport (Extent (Desc T)) (ViewRect (SceneColorInput Inputs)))),
        (''SvPositionToBloomUV'',
         SvPositionToTextureUV
           (FScreenPassTextureViewport (Extent (Desc OutTex)) (ViewRect (ReturnValue r)))
           (FScreenPassTextureViewport Ext (ComputeDownsampledRect Ext)))]"
proof -
  from FrameRuns_scope [OF assms(1)] obtain T where
    p: "PostProcessPass_RenderThread Ctx gb View Inputs = ClassicBloomScope Ctx gb View Inputs sm c"
    and T: "Texture (SceneColorInput Inputs) = Some T" by blast
  have pos: "0 < Width (ViewRect (SceneColorInput Inputs))"
    "0 < Height (ViewRect (SceneColorInput Inputs))"
    using assms(1) by (simp_all add: FrameRuns_def)
  define VR where "VR = ViewRect (SceneColorInput Inputs)"
  define L where "L = (bEnableDebugLogging c \<and> CurrentTime Ctx - LastLogTime Ctx > 1.0)"
  have Ext: "Ext = ComputeDownsampledExtent VR (ComputeDivisor c)"
    unfolding VR_def by (rule assms(4))
  define Rect where "Rect = ComputeDownsampledRect Ext"
  define BT where "BT = fst (CreateTexture gb (BrightPassDesc_of Ext) ''ClassicBloom.BrightPass'')"
  define g1 where "g1 = snd (CreateTexture gb (BrightPassDesc_of Ext) ''ClassicBloom.BrightPass'')"
  define g2 where "g2 = fst (BrightPass g1 View T VR c L Ext Rect BT)"
  from ClassicBloomScope_run [OF T pos assms(2) VR_def L_def Ext Rect_def BT_def g1_def g2_def]
  obtain t g3 l2 R g4 l3 r where run:
    "BlurStage g2 View sm T VR c L (ComputeDivisor c) Ext Rect (BrightPassDesc_of Ext) BT =
       Some (t, g3, l2)"
    "Composite g3 View sm (SceneColorInput Inputs) T (OverrideOutput Inputs) c L Ext Rect t =
       Some (R, g4, l3)"
    "ClassicBloomScope Ctx gb View Inputs sm c = Some r" "ReturnValue r = R" "Graph r = g4"
    by blast
  have p1: "Passes g1 = Passes gb" by (simp add: g1_def CreateTexture_eq)
  from BrightPass_shape [of g1 View T VR c L Ext Rect BT, folded g2_def]
  obtain bp where bp: "Passes g2 = Passes g1 @ [bp]" "Shader bp = FClassicBloomBrightPassPS"
    "Param bp ''BloomThreshold'' =
       Some (FloatParam (if BloomMode c = SoftFocus then 0.01 else BloomThreshold c))"
    by blast
  have wh: "Width Rect = X Ext" "Height Rect = Y Ext"
    unfolding Rect_def by (rule DownsampledRect_size)+
  from BlurStage_total [OF wh, of g2 View sm T VR c L "ComputeDivisor c" "BrightPassDesc_of Ext" BT]
    run(1)
  have "ExtendsGraph g2 g3
       {FClassicBloomBlurPS, FClassicBloomGlareStreakPS, FClassicBloomGlareAccumulatePS,
        FClassicBloomKawaseDownsamplePS, FClassicBloomKawaseUpsamplePS}" by auto
  then obtain mid where mid: "Passes g3 = Passes g2 @ mid"
    "\<forall>p \<in> set mid. Shader p \<in>
        {FClassicBloomBlurPS, FClassicBloomGlareStreakPS, FClassicBloomGlareAccumulatePS,
         FClassicBloomKawaseDownsamplePS, FClassicBloomKawaseUpsamplePS}"
    unfolding ExtendsGraph_def by blast
  from Composite_available [OF assms(3), of g3 View "SceneColorInput Inputs" T
      "OverrideOutput Inputs" c L Ext Rect t] run(2)
  obtain cp OutTex where cp: "Passes g4 = Passes g3 @ [cp] \<and>
     Shader cp = FClassicBloomCompositePS \<and>
     Texture R = Some OutTex \<and> TargetTexture cp = Some OutTex \<and>
     PassViewport cp = ViewRect R \<and>
     Param cp ''BloomIntensity'' =
       Some (FloatParam (if BloomMode c = SoftFocus then 0 else BloomIntensity c)) \<and>
     Param cp ''SoftFocusIntensity'' =
       Some (FloatParam (if BloomMode c = SoftFocus then BloomIntensity c else 0)) \<and>
     TransformsOf (Parameters cp) =
       [(''SvPositionToSceneColorUV'',
         SvPositionToTextureUV (FScreenPassTextureViewport (Extent (Desc OutTex)) (ViewRect R))
           (FScreenPassTextureViewport (Extent (Desc T)) (ViewRect (SceneColorInput Inputs)))),
        (''SvPositionToBloomUV'',
         SvPositionToTextureUV (FScreenPassTextureViewport (Extent (Desc OutTex)) (ViewRect R))
           (FScreenPassTextureViewport Ext Rect))]"
    by auto
  have P: "Passes (Graph r) = Passes gb @ bp # mid @ [cp]"
    using run(5) p1 bp(1) mid(1) cp by simp
  show ?thesis
    apply (rule exI [of _ T], rule exI [of _ r], rule exI [of _ bp], rule exI [of _ mid],
        rule exI [of _ cp], rule exI [of _ OutTex])
    using T p run(3,4) P bp(2,3) mid(2) cp unfolding Rect_def by simp
qed

lemma Example_FrameRuns:
  assumes "IsActive c" "0 < BloomIntensity c"
  shows "FrameRuns (ExampleContext c) (ExampleView sm) (ExampleInputs (ExampleRect 1920 1080)) sm c"
  using assms
  by (simp add: FrameRuns_def ExampleContext_def ExampleView_def ExampleInputs_def
      ExampleRect_def IsValid_def IsEmpty_def Width_def Height_def)

lemma scope_bright_unavailable:
  assumes "Texture (SceneColorInput Inputs) = Some T" "FClassicBloomBrightPassPS \<notin> sm"
  shows "\<exists>r. ClassicBloomScope Ctx gb View Inputs sm c = Some r \<and>
     ReturnValue r = SceneColorInput Inputs \<and> Passes (Graph r) = Passes gb \<and>
     (Graph r = gb \<or>
      (0 < Width (ViewRect (SceneColorInput Inputs)) \<and>
       0 < Height (ViewRect (SceneColorInput Inputs)) \<and>
       map Name (NewTextures gb (Graph r)) = [''ClassicBloom.BrightPass'']))"
  using assms
  by (simp add: ClassicBloomScope_def Let_def TShaderMapRef_IsValid_def CreateTexture_eq
      NewTextures_def)

lemma scope_composite_unavailable:
  assumes "Texture (SceneColorInput Inputs) = Some T"
    and "0 < Width (ViewRect (SceneColorInput Inputs))"
    and "0 < Height (ViewRect (SceneColorInput Inputs))"
    and "FClassicBloomBrightPassPS \<in> sm" "FClassicBloomCompositePS \<notin> sm"
  shows "\<exists>r bp mid. ClassicBloomScope Ctx gb View Inputs sm c = Some r \<and>
     ReturnValue r = SceneColorInput Inputs \<and>
     NewPasses gb (Graph r) = bp # mid \<and> Shader bp = FClassicBloomBrightPassPS \<and>
     (\<forall>p \<in> set mid. Shader p \<in>
        {FClassicBloomBlurPS, FClassicBloomGlareStreakPS, FClassicBloomGlareAccumulatePS,
         FClassicBloomKawaseDownsamplePS, FClassicBloomKawaseUpsamplePS})"
proof -
  define VR where "VR = ViewRect (SceneColorInput Inputs)"
  define L where "L = (bEnableDebugLogging c \<and> CurrentTime Ctx - LastLogTime Ctx > 1.0)"
  define Ext where "Ext = ComputeDownsampledExtent VR (ComputeDivisor c)"
  define Rect where "Rect = ComputeDownsampledRect Ext"
  define BT where "BT = fst (CreateTexture gb (BrightPassDesc_of Ext) ''ClassicBloom.BrightPass'')"
  define g1 where "g1 = snd (CreateTexture gb (BrightPassDesc_of Ext) ''ClassicBloom.BrightPass'')"
  define g2 where "g2 = fst (BrightPass g1 View T VR c L Ext Rect BT)"
  from ClassicBloomScope_run [OF assms(1-4) VR_def L_def Ext_def Rect_def BT_def g1_def g2_def]
  obtain t g3 l2 R g4 l3 r where run:
    "BlurStage g2 View sm T VR c L (ComputeDivisor c) Ext Rect (BrightPassDesc_of Ext) BT =
       Some (t, g3, l2)"
    "Composite g3 View sm (SceneColorInput Inputs) T (OverrideOutput Inputs) c L Ext Rect t =
       Some (R, g4, l3)"
    "ClassicBloomScope Ctx gb View Inputs sm c = Some r" "ReturnValue r = R" "Graph r = g4"
    by blast
  have p1: "Passes g1 = Passes gb" by (simp add: g1_def CreateTexture_eq)
  from BrightPass_shape [of g1 View T VR c L Ext Rect BT, folded g2_def]
  obtain bp where bp: "Passes g2 = Passes g1 @ [bp]" "Shader bp = FClassicBloomBrightPassPS"
    by blast
  have wh: "Width Rect = X Ext" "Height Rect = Y Ext"
    unfolding Rect_def by (rule DownsampledRect_size)+
  from BlurStage_total [OF wh, of g2 View sm T VR c L "ComputeDivisor c" "BrightPassDesc_of Ext" BT]
    run(1)
  have "ExtendsGraph g2 g3
       {FClassicBloomBlurPS, FClassicBloomGlareStreakPS, FClassicBloomGlareAccumulatePS,
        FClassicBloomKawaseDownsamplePS, FClassicBloomKawaseUpsamplePS}" by auto
  then obtain mid where mid: "Passes g3 = Passes g2 @ mid"
    "\<forall>p \<in> set mid. Shader p \<in>
        {FClassicBloomBlurPS, FClassicBloomGlareStreakPS, FClassicBloomGlareAccumulatePS,
         FClassicBloomKawaseDownsamplePS, FClassicBloomKawaseUpsamplePS}"
    unfolding ExtendsGraph_def by blast
  from Composite_unavailable [OF assms(5), of g3 View "SceneColorInput Inputs" T
      "OverrideOutput Inputs" c L Ext Rect t] run(2)
  have k: "R = SceneColorInput Inputs" "Passes g4 = Passes g3" by auto
  have "NewPasses gb (Graph r) = bp # mid"
    using run(5) k(2) mid(1) bp(1) p1 by (simp add: NewPasses_def)
  with run(3,4) k(1) bp(2) mid(2) show ?thesis by blast
qed

lemma unavailable_returns_source:
  assumes "ShaderMap View = Some sm"
    and "FClassicBloomBrightPassPS \<notin> sm \<or> FClassicBloomCompositePS \<notin> sm"
  shows "\<exists>r. PostProcessPass_RenderThread Ctx gb View Inputs = Some r \<and>
             ReturnValue r = SceneColorInput Inputs"
proof (cases rule: PostProcessPass_cases [of Ctx gb View Inputs])
  case gate
  then show ?thesis by (simp add: Unchanged_def)
next
  case (scope sm' S c)
  then have sm: "sm' = sm" using assms(1) by simp
  from scope(1) obtain T where T: "Texture (SceneColorInput Inputs) = Some T"
    using IsValid_Texture by blast
  show ?thesis
  proof (cases "Width (ViewRect (SceneColorInput Inputs)) \<le> 0 \<or>
      Height (ViewRect (SceneColorInput Inputs)) \<le> 0")
    case True
    from scope_degenerate [OF T True, of Ctx gb View sm c] scope(12) sm show ?thesis by auto
  next
    case False
    then have pos: "0 < Width (ViewRect (SceneColorInput Inputs))"
      "0 < Height (ViewRect (SceneColorInput Inputs))" by auto
    show ?thesis
    proof (cases "FClassicBloomBrightPassPS \<in> sm")
      case True
      then have "FClassicBloomCompositePS \<notin> sm" using assms(2) by blast
      from scope_composite_unavailable [OF T pos True this, of Ctx gb View c] scope(12) sm
      show ?thesis by auto
    next
      case False
      from scope_bright_unavailable [OF T False, of Ctx gb View c] scope(12) sm
      show ?thesis by auto
    qed
  qed
qed

lemma ClassicBloomScope_total:
  assumes "Texture (SceneColorInput Inputs) = Some T"
  shows "\<exists>r. ClassicBloomScope Ctx gb View Inputs sm c = Some r"
proof (cases "Width (ViewRect (SceneColorInput Inputs)) \<le> 0 \<or>
      Height (ViewRect (SceneColorInput Inputs)) \<le> 0")
  case True
  from scope_degenerate [OF assms True, of Ctx gb View sm c] show ?thesis by blast
next
  case False
  then have pos: "0 < Width (ViewRect (SceneColorInput Inputs))"
    "0 < Height (ViewRect (SceneColorInput Inputs))" by auto
  show ?thesis
  proof (cases "FClassicBloomBrightPassPS \<in> sm")
    case True
    from ClassicBloomScope_run [OF assms pos True refl refl refl refl refl refl refl]
    show ?thesis by blast
  next
    case False
    from scope_bright_unavailable [OF assms False, of Ctx gb View c] show ?thesis by blast
  qed
qed

lemma PostProcessPass_total: "\<exists>r. PostProcessPass_RenderThread Ctx gb View Inputs = Some r"
proof (cases rule: PostProcessPass_cases [of Ctx gb View Inputs])
  case gate
  then show ?thesis by simp
next
  case (scope sm S c)
  from scope(1) obtain T where "Texture (SceneColorInput Inputs) = Some T"
    using IsValid_Texture by blast
  from ClassicBloomScope_total [OF this, of Ctx gb View sm c] scope(12) show ?thesis by simp
qed

lemma other_fields:
  "IsActive (c\<lparr>BlurSamples := n, bHighQualityUpsampling := b\<rparr>) = IsActive c"
  "BloomMode (c\<lparr>BlurSamples := n, bHighQualityUpsampling := b\<rparr>) = BloomMode c"
  "BloomIntensity (c\<lparr>BlurSamples := n, bHighQualityUpsampling := b\<rparr>) = BloomIntensity c"
  "BloomThreshold (c\<lparr>BlurSamples := n, bHighQualityUpsampling := b\<rparr>) = BloomThreshold c"
  "BloomSize (c\<lparr>BlurSamples := n, bHighQualityUpsampling := b\<rparr>) = BloomSize c"
  "bUseSceneColor (c\<lparr>BlurSamples := n, bHighQualityUpsampling := b\<rparr>) = bUseSceneColor c"
  "BloomTint (c\<lparr>BlurSamples := n, bHighQualityUpsampling := b\<rparr>) = BloomTint c"
  "BloomBlendMode (c\<lparr>BlurSamples := n, bHighQualityUpsampling := b\<rparr>) = BloomBlendMode c"
  "BloomSaturation (c\<lparr>BlurSamples := n, bHighQualityUpsampling := b\<rparr>) = BloomSaturation c"
  "bProtectHighlights (c\<lparr>BlurSamples := n, bHighQualityUpsampling := b\<rparr>) = bProtectHighlights c"
  "HighlightProtection (c\<lparr>BlurSamples := n, bHighQualityUpsampling := b\<rparr>) = HighlightProtection c"
  "DownsampleScale (c\<lparr>BlurSamples := n, bHighQualityUpsampling := b\<rparr>) = DownsampleScale c"
  "BlurPasses (c\<lparr>BlurSamples := n, bHighQualityUpsampling := b\<rparr>) = BlurPasses c"
  "GlareStreakCount (c\<lparr>BlurSamples := n, bHighQualityUpsampling := b\<rparr>) = GlareStreakCount c"
  "GlareStreakLength (c\<lparr>BlurSamples := n, bHighQualityUpsampling := b\<rparr>) = GlareStreakLength c"
  "GlareRotationOffset (c\<lparr>BlurSamples := n, bHighQualityUpsampling := b\<rparr>) = GlareRotationOffset c"
  "GlareFalloff (c\<lparr>BlurSamples := n, bHighQualityUpsampling := b\<rparr>) = GlareFalloff c"
  "KawaseMipCount (c\<lparr>BlurSamples := n, bHighQualityUpsampling := b\<rparr>) = KawaseMipCount c"
  "KawaseFilterRadius (c\<lparr>BlurSamples := n, bHighQualityUpsampling := b\<rparr>) = KawaseFilterRadius c"
  "bKawaseSoftThreshold (c\<lparr>BlurSamples := n, bHighQualityUpsampling := b\<rparr>) = bKawaseSoftThreshold c"
  "KawaseThresholdKnee (c\<lparr>BlurSamples := n, bHighQualityUpsampling := b\<rparr>) = KawaseThresholdKnee c"
  "SoftFocusOverlayMultiplier (c\<lparr>BlurSamples := n, bHighQualityUpsampling := b\<rparr>) = SoftFocusOverlayMultiplier c"
  "SoftFocusBlendStrength (c\<lparr>BlurSamples := n, bHighQualityUpsampling := b\<rparr>) = SoftFocusBlendStrength c"
  "SoftFocusSoftLightMultiplier (c\<lparr>BlurSamples := n, bHighQualityUpsampling := b\<rparr>) = SoftFocusSoftLightMultiplier c"
  "SoftFocusFinalBlend (c\<lparr>BlurSamples := n, bHighQualityUpsampling := b\<rparr>) = SoftFocusFinalBlend c"
  "PostProcessPass (c\<lparr>BlurSamples := n, bHighQualityUpsampling := b\<rparr>) = PostProcessPass c"
  "bUseAdaptiveBrightnessScaling (c\<lparr>BlurSamples := n, bHighQualityUpsampling := b\<rparr>) = bUseAdaptiveBrightnessScaling c"
  "GameModeBloomScale (c\<lparr>BlurSamples := n, bHighQualityUpsampling := b\<rparr>) = GameModeBloomScale c"
  "bEnableDebugLogging (c\<lparr>BlurSamples := n, bHighQualityUpsampling := b\<rparr>) = bEnableDebugLogging c"
  "bShowBloomOnly (c\<lparr>BlurSamples := n, bHighQualityUpsampling := b\<rparr>) = bShowBloomOnly c"
  "bShowGammaCompensation (c\<lparr>BlurSamples := n, bHighQualityUpsampling := b\<rparr>) = bShowGammaCompensation c"
  "bAutoReinitializeRect (c\<lparr>BlurSamples := n, bHighQualityUpsampling := b\<rparr>) = bAutoReinitializeRect c"
  "ReinitializeInterval (c\<lparr>BlurSamples := n, bHighQualityUpsampling := b\<rparr>) = ReinitializeInterval c"
  "bReinitializeRect (c\<lparr>BlurSamples := n, bHighQualityUpsampling := b\<rparr>) = bReinitializeRect c"
  by simp_all

lemma StandardBlurIteration_fields:
  "StandardBlurIteration View (c\<lparr>BlurSamples := n, bHighQualityUpsampling := b\<rparr>) Ext Rect T1 T2 =
   StandardBlurIteration View c Ext Rect T1 T2"
  by (rule ext)+ (simp add: StandardBlurIteration_def)

lemma KawaseDownsample_fields:
  "KawaseDownsample View (c\<lparr>BlurSamples := n, bHighQualityUpsampling := b\<rparr>) Knee C =
   KawaseDownsample View c Knee C"
  by (rule ext)+ (simp add: KawaseDownsample_def)

lemma StandardBlur_fields:
  "StandardBlur gb View (c\<lparr>BlurSamples := n, bHighQualityUpsampling := b\<rparr>) Ext Rect Desc' BT =
   StandardBlur gb View c Ext Rect Desc' BT"
  unfolding StandardBlur_def StandardBlurIteration_fields other_fields by (rule refl)

lemma DirectionalGlareBloom_fields:
  "DirectionalGlareBloom gb View sm (c\<lparr>BlurSamples := n, bHighQualityUpsampling := b\<rparr>) L D Ext Rect Desc' BT =
   DirectionalGlareBloom gb View sm c L D Ext Rect Desc' BT"
  unfolding DirectionalGlareBloom_def other_fields by (rule refl)

lemma KawaseBloom_fields:
  "KawaseBloom gb View sm T VR (c\<lparr>BlurSamples := n, bHighQualityUpsampling := b\<rparr>) L Ext Rect Desc' BT =
   KawaseBloom gb View sm T VR c L Ext Rect Desc' BT"
  unfolding KawaseBloom_def KawaseDownsample_fields other_fields by (rule refl)

lemma BlurStage_fields:
  "BlurStage gb View sm T VR (c\<lparr>BlurSamples := n, bHighQualityUpsampling := b\<rparr>) L D Ext Rect Desc' BT =
   BlurStage gb View sm T VR c L D Ext Rect Desc' BT"
  unfolding BlurStage_def DirectionalGlareBloom_fields KawaseBloom_fields StandardBlur_fields other_fields by (rule refl)

lemma BrightPass_fields:
  "BrightPass gb View T VR (c\<lparr>BlurSamples := n, bHighQualityUpsampling := b\<rparr>) L Ext Rect BT =
   BrightPass gb View T VR c L Ext Rect BT"
  unfolding BrightPass_def other_fields by (rule refl)

lemma Composite_fields:
  "Composite gb View sm SC T Over (c\<lparr>BlurSamples := n, bHighQualityUpsampling := b\<rparr>) L Ext Rect t =
   Composite gb View sm SC T Over c L Ext Rect t"
  unfolding Composite_def other_fields by (rule refl)

lemma ComputeDivisor_fields:
  "ComputeDivisor (c\<lparr>BlurSamples := n, bHighQualityUpsampling := b\<rparr>) =
   ComputeDivisor c"
  unfolding ComputeDivisor_def other_fields by (rule refl)

lemma ClassicBloomScope_fields:
  assumes "CurrentTime Ctx' = CurrentTime Ctx" "LastLogTime Ctx' = LastLogTime Ctx"
  shows "map_option (\<lambda>r. (ReturnValue r, Graph r, NewLastLogTime r))
           (ClassicBloomScope Ctx' gb View Inputs sm
              (c\<lparr>BlurSamples := n, bHighQualityUpsampling := b\<rparr>)) =
         map_option (\<lambda>r. (ReturnValue r, Graph r, NewLastLogTime r))
           (ClassicBloomScope Ctx gb View Inputs sm c)"
  unfolding ClassicBloomScope_def other_fields BlurStage_fields BrightPass_fields Composite_fields
    ComputeDivisor_fields assms
  by (simp add: Let_def split_beta split: option.splits Option.bind_splits)

lemma FindActiveComponent_fields:
  "rel_option (\<lambda>c c'. \<exists>n b. c' = c\<lparr>BlurSamples := n, bHighQualityUpsampling := b\<rparr>)
     (FindActiveComponent Objs xs)
     (FindActiveComponent
        (\<lambda>h. map_option (\<lambda>c. c\<lparr>BlurSamples := samples h, bHighQualityUpsampling := quality h\<rparr>) (Objs h)) xs)"
proof (induction xs)
  case Nil
  show ?case by simp
next
  case (Cons h xs)
  show ?case
  proof (cases "Objs h")
    case None
    then show ?thesis using Cons by simp
  next
    case (Some c)
    then show ?thesis using Cons by (cases "IsActive c") auto
  qed
qed

lemma DirectionalGlareBloom_records:
  assumes "FClassicBloomGlareStreakPS \<in> sm" "FClassicBloomGlareAccumulatePS \<in> sm"
  shows "\<exists>t gb' log'.
     DirectionalGlareBloom gb View sm c bShouldLog Divisor Ext Rect Desc' Bright =
       Some (Some t, gb', log') \<and> Passes gb' \<noteq> Passes gb"
  using DirectionalGlareBloom_available [OF assms, of c gb View Rect Desc' bShouldLog Divisor Ext Bright]
  apply (elim exE conjE)
  subgoal for S gb1 sps aps A gb2 t gb' log' bh bv ts
    apply (rule exI [of _ t], rule exI [of _ gb'], rule exI [of _ log'])
    apply simp
    done
  done

lemma KawaseBloom_records:
  assumes "FClassicBloomKawaseDownsamplePS \<in> sm" "FClassicBloomKawaseUpsamplePS \<in> sm"
    and "Width Rect = X Ext" "Height Rect = Y Ext"
  shows "\<exists>t gb' log'.
     KawaseBloom gb View sm SceneTex VRect c bShouldLog Ext Rect Desc' Bright =
       Some (Some t, gb', log') \<and> Passes gb' \<noteq> Passes gb"
  using KawaseBloom_available [OF assms, of gb View SceneTex VRect c bShouldLog Desc' Bright]
  apply (elim exE conjE)
  subgoal for C U dps ups fin t gb' log' ts
    apply (rule exI [of _ t], rule exI [of _ gb'], rule exI [of _ log'])
    apply simp
    done
  done

lemma BlurStage_records:
  assumes "Width Rect = X Ext" "Height Rect = Y Ext"
  shows "\<exists>t gb' log' mid ts.
     BlurStage gb View sm SceneTex VRect c bShouldLog Divisor Ext Rect Desc' Bright =
       Some (t, gb', log') \<and>
     Passes gb' = Passes gb @ mid \<and> mid \<noteq> [] \<and> Textures gb' = Textures gb @ ts \<and>
     (\<forall>p \<in> set mid. Shader p \<in>
        {FClassicBloomBlurPS, FClassicBloomGlareStreakPS, FClassicBloomGlareAccumulatePS,
         FClassicBloomKawaseDownsamplePS, FClassicBloomKawaseUpsamplePS})"
proof -
  let ?B = "BlurStage gb View sm SceneTex VRect c bShouldLog Divisor Ext Rect Desc' Bright"
  from BlurStage_total [OF assms, of gb View sm SceneTex VRect c bShouldLog Divisor Desc' Bright]
  obtain t gb' log' mid ts where b: "?B = Some (t, gb', log')"
    "Passes gb' = Passes gb @ mid" "Textures gb' = Textures gb @ ts"
    "\<forall>p \<in> set mid. Shader p \<in>
        {FClassicBloomBlurPS, FClassicBloomGlareStreakPS, FClassicBloomGlareAccumulatePS,
         FClassicBloomKawaseDownsamplePS, FClassicBloomKawaseUpsamplePS}"
    unfolding ExtendsGraph_def by blast
  have "mid \<noteq> []"
  proof (cases "BloomMode c = Standard \<or> BloomMode c = SoftFocus \<or>
           (BloomMode c = Kawase \<and>
              (FClassicBloomKawaseDownsamplePS \<notin> sm \<or> FClassicBloomKawaseUpsamplePS \<notin> sm)) \<or>
           (BloomMode c = DirectionalGlare \<and>
              (FClassicBloomGlareStreakPS \<notin> sm \<or> FClassicBloomGlareAccumulatePS \<notin> sm))")
    case True
    from BlurStage_fallback_passes [OF True, of gb View SceneTex VRect bShouldLog Divisor Ext Rect
        Desc' Bright] b(1,2)
    have n: "length (filter (\<lambda>p. Shader p = FClassicBloomBlurPS) mid) =
        2 * nat (Clamp (BlurPasses c) 1 4)" by auto
    have "1 \<le> Clamp (BlurPasses c) 1 4" using Clamp_int_bounds [of 1 4 "BlurPasses c"] by simp
    then have "0 < length (filter (\<lambda>p. Shader p = FClassicBloomBlurPS) mid)" unfolding n by simp
    then show ?thesis by auto
  next
    case False
    then consider (glare) "BloomMode c = DirectionalGlare" "FClassicBloomGlareStreakPS \<in> sm"
        "FClassicBloomGlareAccumulatePS \<in> sm"
      | (kawase) "BloomMode c = Kawase" "FClassicBloomKawaseDownsamplePS \<in> sm"
        "FClassicBloomKawaseUpsamplePS \<in> sm"
      by (cases "BloomMode c") auto
    then show ?thesis
    proof cases
      case glare
      from DirectionalGlareBloom_records [OF glare(2,3), of gb View c bShouldLog Divisor Ext Rect
          Desc' Bright]
      obtain t' g' l' where d:
        "DirectionalGlareBloom gb View sm c bShouldLog Divisor Ext Rect Desc' Bright =
           Some (Some t', g', l')" "Passes g' \<noteq> Passes gb"
        by blast
      have "?B = Some (t', g', l')" using glare(1) d(1) by (rule BlurStage_glare)
      with b(1) have "g' = gb'" by simp
      with d(2) b(2) show ?thesis by auto
    next
      case kawase
      from KawaseBloom_records [OF kawase(2,3) assms, of gb View SceneTex VRect c bShouldLog
          Desc' Bright]
      obtain t' g' l' where k:
        "KawaseBloom gb View sm SceneTex VRect c bShouldLog Ext Rect Desc' Bright =
           Some (Some t', g', l')" "Passes g' \<noteq> Passes gb"
        by blast
      have "?B = Some (t', g', l')" using kawase(1) k(1) by (rule BlurStage_kawase)
      with b(1) have "g' = gb'" by simp
      with k(2) b(2) show ?thesis by auto
    qed
  qed
  with b show ?thesis by blast
qed

lemma Composite_unavailable_textures:
  assumes "FClassicBloomCompositePS \<notin> sm"
  shows "\<exists>g l ts. Composite gb View sm SceneColor T Over c L Ext Rect t = Some (SceneColor, g, l) \<and>
           Passes g = Passes gb \<and> Textures g = Textures gb @ ts \<and>
           map Name ts = (if IsValid Over then [] else [''ClassicBloom.Output''])"
proof (cases "IsValid Over")
  case True
  then obtain x where "Texture Over = Some x" by (auto simp: IsValid_def)
  with True assms show ?thesis
    by (simp add: Composite_def Let_def TShaderMapRef_IsValid_def split del: if_split)
next
  case False
  with assms show ?thesis
    by (simp add: Composite_def Let_def TShaderMapRef_IsValid_def CreateTexture_eq
        split del: if_split)
qed

lemma scope_composite_unavailable_graph:
  assumes "Texture (SceneColorInput Inputs) = Some T"
    and "0 < Width (ViewRect (SceneColorInput Inputs))"
    and "0 < Height (ViewRect (SceneColorInput Inputs))"
    and "FClassicBloomBrightPassPS \<in> sm" "FClassicBloomCompositePS \<notin> sm"
  shows "\<exists>r bp mid names. ClassicBloomScope Ctx gb View Inputs sm c = Some r \<and>
     ReturnValue r = SceneColorInput Inputs \<and>
     NewPasses gb (Graph r) = bp # mid \<and> Shader bp = FClassicBloomBrightPassPS \<and> mid \<noteq> [] \<and>
     (\<forall>p \<in> set mid. Shader p \<in>
        {FClassicBloomBlurPS, FClassicBloomGlareStreakPS, FClassicBloomGlareAccumulatePS,
         FClassicBloomKawaseDownsamplePS, FClassicBloomKawaseUpsamplePS}) \<and>
     map Name (NewTextures gb (Graph r)) =
       ''ClassicBloom.BrightPass'' # names @
       (if IsValid (OverrideOutput Inputs) then [] else [''ClassicBloom.Output''])"
proof -
  define VR where "VR = ViewRect (SceneColorInput Inputs)"
  define L where "L = (bEnableDebugLogging c \<and> CurrentTime Ctx - LastLogTime Ctx > 1.0)"
  define Ext where "Ext = ComputeDownsampledExtent VR (ComputeDivisor c)"
  define Rect where "Rect = ComputeDownsampledRect Ext"
  define BT where "BT = fst (CreateTexture gb (BrightPassDesc_of Ext) ''ClassicBloom.BrightPass'')"
  define g1 where "g1 = snd (CreateTexture gb (BrightPassDesc_of Ext) ''ClassicBloom.BrightPass'')"
  define g2 where "g2 = fst (BrightPass g1 View T VR c L Ext Rect BT)"
  from ClassicBloomScope_run [OF assms(1-4) VR_def L_def Ext_def Rect_def BT_def g1_def g2_def]
  obtain t g3 l2 R g4 l3 r where run:
    "BlurStage g2 View sm T VR c L (ComputeDivisor c) Ext Rect (BrightPassDesc_of Ext) BT =
       Some (t, g3, l2)"
    "Composite g3 View sm (SceneColorInput Inputs) T (OverrideOutput Inputs) c L Ext Rect t =
       Some (R, g4, l3)"
    "ClassicBloomScope Ctx gb View Inputs sm c = Some r" "ReturnValue r = R" "Graph r = g4"
    by blast
  have p1: "Passes g1 = Passes gb" "Textures g1 = Textures gb @ [BT]"
    "Name BT = ''ClassicBloom.BrightPass''"
    by (simp_all add: g1_def BT_def CreateTexture_eq)
  from BrightPass_shape [of g1 View T VR c L Ext Rect BT, folded g2_def]
  obtain bp where bp: "Passes g2 = Passes g1 @ [bp]" "Textures g2 = Textures g1"
    "Shader bp = FClassicBloomBrightPassPS"
    by blast
  have wh: "Width Rect = X Ext" "Height Rect = Y Ext"
    unfolding Rect_def by (rule DownsampledRect_size)+
  from BlurStage_records [OF wh, of g2 View sm T VR c L "ComputeDivisor c" "BrightPassDesc_of Ext" BT]
    run(1)
  obtain mid ts where mid: "Passes g3 = Passes g2 @ mid" "mid \<noteq> []"
    "Textures g3 = Textures g2 @ ts"
    "\<forall>p \<in> set mid. Shader p \<in>
        {FClassicBloomBlurPS, FClassicBloomGlareStreakPS, FClassicBloomGlareAccumulatePS,
         FClassicBloomKawaseDownsamplePS, FClassicBloomKawaseUpsamplePS}"
    by auto
  from Composite_unavailable_textures [OF assms(5), of g3 View "SceneColorInput Inputs" T
      "OverrideOutput Inputs" c L Ext Rect t] run(2)
  obtain ts' where k: "R = SceneColorInput Inputs" "Passes g4 = Passes g3"
    "Textures g4 = Textures g3 @ ts'"
    "map Name ts' = (if IsValid (OverrideOutput Inputs) then [] else [''ClassicBloom.Output''])"
    by auto
  have np: "NewPasses gb (Graph r) = bp # mid"
    using run(5) k(2) mid(1) bp(1) p1(1) by (simp add: NewPasses_def)
  have "NewTextures gb (Graph r) = BT # ts @ ts'"
    using run(5) k(3) mid(3) bp(2) p1(2) by (simp add: NewTextures_def)
  then have nt: "map Name (NewTextures gb (Graph r)) =
       ''ClassicBloom.BrightPass'' # map Name ts @
       (if IsValid (OverrideOutput Inputs) then [] else [''ClassicBloom.Output''])"
    using p1(3) k(4) by simp
  show ?thesis
    apply (rule exI [of _ r], rule exI [of _ bp], rule exI [of _ mid], rule exI [of _ "map Name ts"])
    using run(3,4) k(1) np bp(3) mid(2,4) nt by simp
qed

lemma Composite_passes:
  "\<exists>R g l ts cps. Composite gb View sm SceneColor T Over c L Ext Rect t = Some (R, g, l) \<and>
      Textures g = Textures gb @ ts \<and> Passes g = Passes gb @ cps \<and>
      (\<forall>p \<in> set cps. Shader p = FClassicBloomCompositePS \<and>
         Param p ''BloomTexture'' = Some (TextureParam (Some t)))"
proof (cases "FClassicBloomCompositePS \<in> sm")
  case True
  from Composite_available [OF True, of gb View SceneColor T Over c L Ext Rect t]
  obtain Out g l cp ts where "Composite gb View sm SceneColor T Over c L Ext Rect t = Some (Out, g, l) \<and>
     Passes g = Passes gb @ [cp] \<and> Textures g = Textures gb @ ts \<and>
     Shader cp = FClassicBloomCompositePS \<and>
     Param cp ''BloomTexture'' = Some (TextureParam (Some t))"
    by (elim exE conjE) (rule that, intro conjI, assumption+)
  then show ?thesis
    by (intro exI [of _ Out] exI [of _ g] exI [of _ l] exI [of _ ts] exI [of _ "[cp]"]) simp
next
  case False
  from Composite_unavailable [OF False, of gb View SceneColor T Over c L Ext Rect t]
  obtain g l ts where "Composite gb View sm SceneColor T Over c L Ext Rect t = Some (SceneColor, g, l)"
    "Passes g = Passes gb" "Textures g = Textures gb @ ts" by blast
  then show ?thesis
    by (intro exI [of _ SceneColor] exI [of _ g] exI [of _ l] exI [of _ ts] exI [of _ "[]"]) simp
qed

lemma Frame_structure:
  assumes "FrameRuns Ctx View Inputs sm c" and "FClassicBloomBrightPassPS \<in> sm"
    and "VR = ViewRect (SceneColorInput Inputs)"
    and "L = (bEnableDebugLogging c \<and> CurrentTime Ctx - LastLogTime Ctx > 1.0)"
    and "Ext = ComputeDownsampledExtent VR (ComputeDivisor c)"
  shows "\<exists>r T BT bp g2 t g3 l2 cps ts.
     PostProcessPass_RenderThread Ctx gb View Inputs = Some r \<and>
     Texture (SceneColorInput Inputs) = Some T \<and>
     Handle BT = length (Textures gb) \<and> Name BT = ''ClassicBloom.BrightPass'' \<and>
     Desc BT = BrightPassDesc_of Ext \<and>
     Shader bp = FClassicBloomBrightPassPS \<and>
     Param bp ''SceneColorTexture'' = Some (TextureParam (Some T)) \<and>
     TargetTexture bp = Some BT \<and> PassViewport bp = ComputeDownsampledRect Ext \<and>
     Passes g2 = Passes gb @ [bp] \<and> Textures g2 = Textures gb @ [BT] \<and>
     BlurStage g2 View sm T VR c L (ComputeDivisor c) Ext (ComputeDownsampledRect Ext)
       (BrightPassDesc_of Ext) BT = Some (t, g3, l2) \<and>
     Passes (Graph r) = Passes g3 @ cps \<and>
     (\<forall>p \<in> set cps. Shader p = FClassicBloomCompositePS \<and>
        Param p ''BloomTexture'' = Some (TextureParam (Some t))) \<and>
     Textures (Graph r) = Textures g3 @ ts"
proof -
  from FrameRuns_scope [OF assms(1)] obtain T where
    p: "PostProcessPass_RenderThread Ctx gb View Inputs = ClassicBloomScope Ctx gb View Inputs sm c"
    and T: "Texture (SceneColorInput Inputs) = Some T" by blast
  have pos: "0 < Width (ViewRect (SceneColorInput Inputs))"
    "0 < Height (ViewRect (SceneColorInput Inputs))"
    using assms(1) by (simp_all add: FrameRuns_def)
  define Rect where "Rect = ComputeDownsampledRect Ext"
  define BT where "BT = fst (CreateTexture gb (BrightPassDesc_of Ext) ''ClassicBloom.BrightPass'')"
  define g1 where "g1 = snd (CreateTexture gb (BrightPassDesc_of Ext) ''ClassicBloom.BrightPass'')"
  define g2 where "g2 = fst (BrightPass g1 View T VR c L Ext Rect BT)"
  from ClassicBloomScope_run [OF T pos assms(2,3,4,5) Rect_def BT_def g1_def g2_def]
  obtain t g3 l2 R g4 l3 r where run:
    "BlurStage g2 View sm T VR c L (ComputeDivisor c) Ext Rect (BrightPassDesc_of Ext) BT =
       Some (t, g3, l2)"
    "Composite g3 View sm (SceneColorInput Inputs) T (OverrideOutput Inputs) c L Ext Rect t =
       Some (R, g4, l3)"
    "ClassicBloomScope Ctx gb View Inputs sm c = Some r" "ReturnValue r = R" "Graph r = g4"
    by blast
  have p1: "Passes g1 = Passes gb" "Textures g1 = Textures gb @ [BT]"
    "Name BT = ''ClassicBloom.BrightPass''" "Handle BT = length (Textures gb)"
    "Desc BT = BrightPassDesc_of Ext"
    by (simp_all add: g1_def BT_def CreateTexture_eq)
  from BrightPass_shape [of g1 View T VR c L Ext Rect BT, folded g2_def]
  obtain bp where bp: "Passes g2 = Passes g1 @ [bp]" "Textures g2 = Textures g1"
    "Shader bp = FClassicBloomBrightPassPS"
    "Param bp ''SceneColorTexture'' = Some (TextureParam (Some T))"
    "TargetTexture bp = Some BT" "PassViewport bp = Rect"
    by blast
  from Composite_passes [of g3 View sm "SceneColorInput Inputs" T "OverrideOutput Inputs" c L
      Ext Rect t] run(2)
  obtain ts cps where k: "Textures g4 = Textures g3 @ ts" "Passes g4 = Passes g3 @ cps"
    "\<forall>p \<in> set cps. Shader p = FClassicBloomCompositePS \<and>
        Param p ''BloomTexture'' = Some (TextureParam (Some t))"
    by auto
  show ?thesis
    apply (rule exI [of _ r], rule exI [of _ T], rule exI [of _ BT], rule exI [of _ bp],
        rule exI [of _ g2], rule exI [of _ t], rule exI [of _ g3], rule exI [of _ l2],
        rule exI [of _ cps], rule exI [of _ ts])
    using p run(1,3,5) T p1 bp k unfolding Rect_def by simp
qed


subsection \<open>Missing programs, the composite, the two unused settings\<close>

text \<open>
  C5 (amended). When the bright-pass program or the composite program is missing from the
  shader map of the view, the callback returns the scene colour it was given. What a
  frame that passes the gates recorded before the failing check stays in the graph.
  Without the bright-pass program it adds no pass and one texture,
  \<^verbatim>\<open>ClassicBloom.BrightPass\<close>. With the bright-pass program and without the composite program
  it adds the bright pass and after it at least one pass, all of the blur stage; the
  first texture it adds is \<^verbatim>\<open>ClassicBloom.BrightPass\<close> and, when the override output is not
  valid, the last is \<^verbatim>\<open>ClassicBloom.Output\<close>. In \<^verbatim>\<open>Kawase\<close> mode without one of the Kawase
  programs, and in \<^verbatim>\<open>DirectionalGlare\<close> mode without the streak program, the blur stage
  returns what \<^const>\<open>StandardBlur\<close> returns on the same graph. In \<^verbatim>\<open>DirectionalGlare\<close> mode
  with the streak program and without the accumulate program, the blur stage returns what
  \<^const>\<open>StandardBlur\<close> returns on the graph that holds the K streak passes already recorded.
  In a frame that passes the gates, has the bright-pass program and misses a program of
  the selected \<^verbatim>\<open>Kawase\<close> or \<^verbatim>\<open>DirectionalGlare\<close> strategy, the passes between the bright pass and
  the composite passes are blur and streak passes only, 2N of them blur passes.
\<close>

theorem unavailable_program:
  "(ShaderMap View = Some sm \<and>
      (FClassicBloomBrightPassPS \<notin> sm \<or> FClassicBloomCompositePS \<notin> sm) \<longrightarrow>
      (\<exists>r. PostProcessPass_RenderThread Ctx gb View Inputs = Some r \<and>
           ReturnValue r = SceneColorInput Inputs)) \<and>
   (FrameRuns Ctx View Inputs sm c \<and> FClassicBloomBrightPassPS \<notin> sm \<longrightarrow>
      (\<exists>r. PostProcessPass_RenderThread Ctx gb View Inputs = Some r \<and>
           NewPasses gb (Graph r) = [] \<and>
           map Name (NewTextures gb (Graph r)) = [''ClassicBloom.BrightPass''])) \<and>
   (FrameRuns Ctx View Inputs sm c \<and> FClassicBloomBrightPassPS \<in> sm \<and>
      FClassicBloomCompositePS \<notin> sm \<longrightarrow>
      (\<exists>r bp mid names. PostProcessPass_RenderThread Ctx gb View Inputs = Some r \<and>
           ReturnValue r = SceneColorInput Inputs \<and>
           NewPasses gb (Graph r) = bp # mid \<and> Shader bp = FClassicBloomBrightPassPS \<and>
           mid \<noteq> [] \<and>
           (\<forall>p \<in> set mid. Shader p \<in>
              {FClassicBloomBlurPS, FClassicBloomGlareStreakPS, FClassicBloomGlareAccumulatePS,
               FClassicBloomKawaseDownsamplePS, FClassicBloomKawaseUpsamplePS}) \<and>
           map Name (NewTextures gb (Graph r)) =
             ''ClassicBloom.BrightPass'' # names @
             (if IsValid (OverrideOutput Inputs) then [] else [''ClassicBloom.Output'']))) \<and>
   ((BloomMode k = Kawase \<and>
       (FClassicBloomKawaseDownsamplePS \<notin> sm \<or> FClassicBloomKawaseUpsamplePS \<notin> sm)) \<or>
    (BloomMode k = DirectionalGlare \<and> FClassicBloomGlareStreakPS \<notin> sm) \<longrightarrow>
      (\<exists>t gb' log'.
         BlurStage gb View sm SceneTex VRect k bShouldLog Divisor Ext Rect Desc' Bright =
           Some (t, gb', log') \<and>
         StandardBlur gb View k Ext Rect Desc' Bright = Some (t, gb'))) \<and>
   (BloomMode k = DirectionalGlare \<and> FClassicBloomGlareStreakPS \<in> sm \<and>
      FClassicBloomGlareAccumulatePS \<notin> sm \<longrightarrow>
      (\<exists>gb1 t gb' log'.
         BlurStage gb View sm SceneTex VRect k bShouldLog Divisor Ext Rect Desc' Bright =
           Some (t, gb', log') \<and>
         ExtendsGraph gb gb1 {FClassicBloomGlareStreakPS} \<and>
         length (Passes gb1) = length (Passes gb) + nat (Clamp (GlareStreakCount k) 2 16) \<and>
         StandardBlur gb1 View k Ext Rect Desc' Bright = Some (t, gb'))) \<and>
   (FrameRuns Ctx View Inputs sm c \<and> FClassicBloomBrightPassPS \<in> sm \<and>
      ((BloomMode c = Kawase \<and>
          (FClassicBloomKawaseDownsamplePS \<notin> sm \<or> FClassicBloomKawaseUpsamplePS \<notin> sm)) \<or>
       (BloomMode c = DirectionalGlare \<and>
          (FClassicBloomGlareStreakPS \<notin> sm \<or> FClassicBloomGlareAccumulatePS \<notin> sm))) \<longrightarrow>
      (\<exists>r bp mid cps. PostProcessPass_RenderThread Ctx gb View Inputs = Some r \<and>
           NewPasses gb (Graph r) = bp # mid @ cps \<and> Shader bp = FClassicBloomBrightPassPS \<and>
           (\<forall>p \<in> set mid. Shader p = FClassicBloomBlurPS \<or> Shader p = FClassicBloomGlareStreakPS) \<and>
           length (filter (\<lambda>p. Shader p = FClassicBloomBlurPS) mid) =
             2 * nat (Clamp (BlurPasses c) 1 4) \<and>
           (\<forall>p \<in> set cps. Shader p = FClassicBloomCompositePS)))"
proof (intro conjI impI)
  assume "ShaderMap View = Some sm \<and>
      (FClassicBloomBrightPassPS \<notin> sm \<or> FClassicBloomCompositePS \<notin> sm)"
  then show "\<exists>r. PostProcessPass_RenderThread Ctx gb View Inputs = Some r \<and>
           ReturnValue r = SceneColorInput Inputs"
    using unavailable_returns_source [of View sm Ctx gb Inputs] by blast
next
  assume a: "FrameRuns Ctx View Inputs sm c \<and> FClassicBloomBrightPassPS \<notin> sm"
  then have f: "FrameRuns Ctx View Inputs sm c" and b: "FClassicBloomBrightPassPS \<notin> sm" by auto
  from FrameRuns_scope [OF f] obtain T where
    p: "PostProcessPass_RenderThread Ctx gb View Inputs = ClassicBloomScope Ctx gb View Inputs sm c"
    and T: "Texture (SceneColorInput Inputs) = Some T" by blast
  have pos: "0 < Width (ViewRect (SceneColorInput Inputs))"
    "0 < Height (ViewRect (SceneColorInput Inputs))"
    using f by (simp_all add: FrameRuns_def)
  have "\<exists>r. ClassicBloomScope Ctx gb View Inputs sm c = Some r \<and>
     Passes (Graph r) = Passes gb \<and>
     map Name (NewTextures gb (Graph r)) = [''ClassicBloom.BrightPass'']"
    using T b pos DownsampledRect_positive [OF pos, of c]
    by (simp add: ClassicBloomScope_def Let_def TShaderMapRef_IsValid_def CreateTexture_eq
        NewTextures_def not_le)
  then show "\<exists>r. PostProcessPass_RenderThread Ctx gb View Inputs = Some r \<and>
           NewPasses gb (Graph r) = [] \<and>
           map Name (NewTextures gb (Graph r)) = [''ClassicBloom.BrightPass'']"
    unfolding p by (auto simp: NewPasses_def)
next
  assume a: "FrameRuns Ctx View Inputs sm c \<and> FClassicBloomBrightPassPS \<in> sm \<and>
      FClassicBloomCompositePS \<notin> sm"
  then have f: "FrameRuns Ctx View Inputs sm c" and b: "FClassicBloomBrightPassPS \<in> sm"
    "FClassicBloomCompositePS \<notin> sm" by auto
  from FrameRuns_scope [OF f] obtain T where
    p: "PostProcessPass_RenderThread Ctx gb View Inputs = ClassicBloomScope Ctx gb View Inputs sm c"
    and T: "Texture (SceneColorInput Inputs) = Some T" by blast
  have pos: "0 < Width (ViewRect (SceneColorInput Inputs))"
    "0 < Height (ViewRect (SceneColorInput Inputs))"
    using f by (simp_all add: FrameRuns_def)
  from scope_composite_unavailable_graph [OF T pos b, of Ctx gb View c]
  show "\<exists>r bp mid names. PostProcessPass_RenderThread Ctx gb View Inputs = Some r \<and>
           ReturnValue r = SceneColorInput Inputs \<and>
           NewPasses gb (Graph r) = bp # mid \<and> Shader bp = FClassicBloomBrightPassPS \<and>
           mid \<noteq> [] \<and>
           (\<forall>p \<in> set mid. Shader p \<in>
              {FClassicBloomBlurPS, FClassicBloomGlareStreakPS, FClassicBloomGlareAccumulatePS,
               FClassicBloomKawaseDownsamplePS, FClassicBloomKawaseUpsamplePS}) \<and>
           map Name (NewTextures gb (Graph r)) =
             ''ClassicBloom.BrightPass'' # names @
             (if IsValid (OverrideOutput Inputs) then [] else [''ClassicBloom.Output''])"
    unfolding p .
next
  assume "(BloomMode k = Kawase \<and>
       (FClassicBloomKawaseDownsamplePS \<notin> sm \<or> FClassicBloomKawaseUpsamplePS \<notin> sm)) \<or>
    (BloomMode k = DirectionalGlare \<and> FClassicBloomGlareStreakPS \<notin> sm)"
  then have "BloomMode k = Standard \<or> BloomMode k = SoftFocus \<or>
           (BloomMode k = Kawase \<and>
              (FClassicBloomKawaseDownsamplePS \<notin> sm \<or> FClassicBloomKawaseUpsamplePS \<notin> sm)) \<or>
           (BloomMode k = DirectionalGlare \<and> FClassicBloomGlareStreakPS \<notin> sm)" by blast
  then show "\<exists>t gb' log'.
         BlurStage gb View sm SceneTex VRect k bShouldLog Divisor Ext Rect Desc' Bright =
           Some (t, gb', log') \<and>
         StandardBlur gb View k Ext Rect Desc' Bright = Some (t, gb')"
    by (rule BlurStage_standard)
next
  assume "BloomMode k = DirectionalGlare \<and> FClassicBloomGlareStreakPS \<in> sm \<and>
      FClassicBloomGlareAccumulatePS \<notin> sm"
  then have "BloomMode k = DirectionalGlare" "FClassicBloomGlareStreakPS \<in> sm"
      "FClassicBloomGlareAccumulatePS \<notin> sm" by auto
  then show "\<exists>gb1 t gb' log'.
         BlurStage gb View sm SceneTex VRect k bShouldLog Divisor Ext Rect Desc' Bright =
           Some (t, gb', log') \<and>
         ExtendsGraph gb gb1 {FClassicBloomGlareStreakPS} \<and>
         length (Passes gb1) = length (Passes gb) + nat (Clamp (GlareStreakCount k) 2 16) \<and>
         StandardBlur gb1 View k Ext Rect Desc' Bright = Some (t, gb')"
    by (rule BlurStage_no_accumulate)
next
  assume a: "FrameRuns Ctx View Inputs sm c \<and> FClassicBloomBrightPassPS \<in> sm \<and>
      ((BloomMode c = Kawase \<and>
          (FClassicBloomKawaseDownsamplePS \<notin> sm \<or> FClassicBloomKawaseUpsamplePS \<notin> sm)) \<or>
       (BloomMode c = DirectionalGlare \<and>
          (FClassicBloomGlareStreakPS \<notin> sm \<or> FClassicBloomGlareAccumulatePS \<notin> sm)))"
  then have f: "FrameRuns Ctx View Inputs sm c" and b: "FClassicBloomBrightPassPS \<in> sm" by auto
  from a have m: "BloomMode c = Standard \<or> BloomMode c = SoftFocus \<or>
           (BloomMode c = Kawase \<and>
              (FClassicBloomKawaseDownsamplePS \<notin> sm \<or> FClassicBloomKawaseUpsamplePS \<notin> sm)) \<or>
           (BloomMode c = DirectionalGlare \<and>
              (FClassicBloomGlareStreakPS \<notin> sm \<or> FClassicBloomGlareAccumulatePS \<notin> sm))"
    by blast
  define VR where "VR = ViewRect (SceneColorInput Inputs)"
  define L where "L = (bEnableDebugLogging c \<and> CurrentTime Ctx - LastLogTime Ctx > 1.0)"
  define Ext' where "Ext' = ComputeDownsampledExtent VR (ComputeDivisor c)"
  from Frame_structure [OF f b VR_def L_def Ext'_def, of gb]
  obtain r T BT bp g2 t g3 l2 cps where F:
    "PostProcessPass_RenderThread Ctx gb View Inputs = Some r \<and>
     Shader bp = FClassicBloomBrightPassPS \<and>
     Passes g2 = Passes gb @ [bp] \<and>
     BlurStage g2 View sm T VR c L (ComputeDivisor c) Ext' (ComputeDownsampledRect Ext')
       (BrightPassDesc_of Ext') BT = Some (t, g3, l2) \<and>
     Passes (Graph r) = Passes g3 @ cps \<and>
     (\<forall>p \<in> set cps. Shader p = FClassicBloomCompositePS \<and>
        Param p ''BloomTexture'' = Some (TextureParam (Some t)))"
    by (elim exE conjE) (rule that, intro conjI, assumption+)
  from BlurStage_fallback_passes [OF m, of g2 View T VR L "ComputeDivisor c" Ext'
      "ComputeDownsampledRect Ext'" "BrightPassDesc_of Ext'" BT] F
  obtain mid where mid: "Passes g3 = Passes g2 @ mid"
    "\<forall>p \<in> set mid. Shader p = FClassicBloomBlurPS \<or> Shader p = FClassicBloomGlareStreakPS"
    "length (filter (\<lambda>p. Shader p = FClassicBloomBlurPS) mid) = 2 * nat (Clamp (BlurPasses c) 1 4)"
    by auto
  have np: "NewPasses gb (Graph r) = bp # mid @ cps" using F mid(1) by (simp add: NewPasses_def)
  show "\<exists>r bp mid cps. PostProcessPass_RenderThread Ctx gb View Inputs = Some r \<and>
           NewPasses gb (Graph r) = bp # mid @ cps \<and> Shader bp = FClassicBloomBrightPassPS \<and>
           (\<forall>p \<in> set mid. Shader p = FClassicBloomBlurPS \<or> Shader p = FClassicBloomGlareStreakPS) \<and>
           length (filter (\<lambda>p. Shader p = FClassicBloomBlurPS) mid) =
             2 * nat (Clamp (BlurPasses c) 1 4) \<and>
           (\<forall>p \<in> set cps. Shader p = FClassicBloomCompositePS)"
    apply (rule exI [of _ r], rule exI [of _ bp], rule exI [of _ mid], rule exI [of _ cps])
    using F np mid(2,3) by simp
qed

theorem unavailable_program_witness:
  "(ShaderMap (ExampleView (AllShaders - {FClassicBloomCompositePS})) =
      Some (AllShaders - {FClassicBloomCompositePS}) \<and>
    FClassicBloomCompositePS \<notin> AllShaders - {FClassicBloomCompositePS}) \<and>
   (\<exists>r. PostProcessPass_RenderThread (ExampleContext DefaultComponent) ExampleGraph
          (ExampleView (AllShaders - {FClassicBloomCompositePS}))
          (ExampleInputs (ExampleRect 1920 1080)) = Some r \<and>
        ReturnValue r = SceneColorInput (ExampleInputs (ExampleRect 1920 1080))) \<and>
   (FrameRuns (ExampleContext DefaultComponent) (ExampleView (AllShaders - {FClassicBloomBrightPassPS}))
      (ExampleInputs (ExampleRect 1920 1080)) (AllShaders - {FClassicBloomBrightPassPS})
      DefaultComponent \<and>
    FClassicBloomBrightPassPS \<notin> AllShaders - {FClassicBloomBrightPassPS}) \<and>
   (\<exists>r. PostProcessPass_RenderThread (ExampleContext DefaultComponent) ExampleGraph
          (ExampleView (AllShaders - {FClassicBloomBrightPassPS}))
          (ExampleInputs (ExampleRect 1920 1080)) = Some r \<and>
        NewPasses ExampleGraph (Graph r) = [] \<and>
        map Name (NewTextures ExampleGraph (Graph r)) = [''ClassicBloom.BrightPass'']) \<and>
   (FrameRuns (ExampleContext DefaultComponent) (ExampleView (AllShaders - {FClassicBloomCompositePS}))
      (ExampleInputs (ExampleRect 1920 1080)) (AllShaders - {FClassicBloomCompositePS})
      DefaultComponent \<and>
    FClassicBloomBrightPassPS \<in> AllShaders - {FClassicBloomCompositePS}) \<and>
   (\<exists>r bp mid names. PostProcessPass_RenderThread (ExampleContext DefaultComponent) ExampleGraph
          (ExampleView (AllShaders - {FClassicBloomCompositePS}))
          (ExampleInputs (ExampleRect 1920 1080)) = Some r \<and>
        ReturnValue r = SceneColorInput (ExampleInputs (ExampleRect 1920 1080)) \<and>
        NewPasses ExampleGraph (Graph r) = bp # mid \<and> Shader bp = FClassicBloomBrightPassPS \<and>
        mid \<noteq> [] \<and>
        map Name (NewTextures ExampleGraph (Graph r)) =
          ''ClassicBloom.BrightPass'' # names @ [''ClassicBloom.Output'']) \<and>
   (BloomMode (DefaultComponent\<lparr>BloomMode := Kawase\<rparr>) = Kawase \<and>
    FClassicBloomKawaseDownsamplePS \<notin> AllShaders - {FClassicBloomKawaseDownsamplePS}) \<and>
   (\<exists>t gb' log'.
      BlurStage (snd ExampleBrightPass) (ExampleView (AllShaders - {FClassicBloomKawaseDownsamplePS}))
        (AllShaders - {FClassicBloomKawaseDownsamplePS}) ExampleSceneColorTexture
        (ExampleRect 1920 1080) (DefaultComponent\<lparr>BloomMode := Kawase\<rparr>) False 2
        \<lparr>X = 960, Y = 540\<rparr> (ComputeDownsampledRect \<lparr>X = 960, Y = 540\<rparr>)
        (BrightPassDesc_of \<lparr>X = 960, Y = 540\<rparr>) (fst ExampleBrightPass) = Some (t, gb', log') \<and>
      StandardBlur (snd ExampleBrightPass)
        (ExampleView (AllShaders - {FClassicBloomKawaseDownsamplePS}))
        (DefaultComponent\<lparr>BloomMode := Kawase\<rparr>)
        \<lparr>X = 960, Y = 540\<rparr> (ComputeDownsampledRect \<lparr>X = 960, Y = 540\<rparr>)
        (BrightPassDesc_of \<lparr>X = 960, Y = 540\<rparr>) (fst ExampleBrightPass) = Some (t, gb')) \<and>
   (BloomMode (DefaultComponent\<lparr>BloomMode := DirectionalGlare\<rparr>) = DirectionalGlare \<and>
    FClassicBloomGlareStreakPS \<in> AllShaders - {FClassicBloomGlareAccumulatePS} \<and>
    FClassicBloomGlareAccumulatePS \<notin> AllShaders - {FClassicBloomGlareAccumulatePS}) \<and>
   (\<exists>gb1 t gb' log'.
      BlurStage (snd ExampleBrightPass) (ExampleView (AllShaders - {FClassicBloomGlareAccumulatePS}))
        (AllShaders - {FClassicBloomGlareAccumulatePS}) ExampleSceneColorTexture
        (ExampleRect 1920 1080) (DefaultComponent\<lparr>BloomMode := DirectionalGlare\<rparr>) False 2
        \<lparr>X = 960, Y = 540\<rparr> (ComputeDownsampledRect \<lparr>X = 960, Y = 540\<rparr>)
        (BrightPassDesc_of \<lparr>X = 960, Y = 540\<rparr>) (fst ExampleBrightPass) = Some (t, gb', log') \<and>
      length (Passes gb1) = length (Passes (snd ExampleBrightPass)) + 6 \<and>
      StandardBlur gb1 (ExampleView (AllShaders - {FClassicBloomGlareAccumulatePS}))
        (DefaultComponent\<lparr>BloomMode := DirectionalGlare\<rparr>)
        \<lparr>X = 960, Y = 540\<rparr> (ComputeDownsampledRect \<lparr>X = 960, Y = 540\<rparr>)
        (BrightPassDesc_of \<lparr>X = 960, Y = 540\<rparr>) (fst ExampleBrightPass) = Some (t, gb')) \<and>
   (FrameRuns (ExampleContext (DefaultComponent\<lparr>BloomMode := Kawase\<rparr>))
      (ExampleView (AllShaders - {FClassicBloomKawaseDownsamplePS}))
      (ExampleInputs (ExampleRect 1920 1080))
      (AllShaders - {FClassicBloomKawaseDownsamplePS}) (DefaultComponent\<lparr>BloomMode := Kawase\<rparr>) \<and>
    FClassicBloomBrightPassPS \<in> AllShaders - {FClassicBloomKawaseDownsamplePS}) \<and>
   (\<exists>r bp mid cps.
      PostProcessPass_RenderThread (ExampleContext (DefaultComponent\<lparr>BloomMode := Kawase\<rparr>))
        ExampleGraph (ExampleView (AllShaders - {FClassicBloomKawaseDownsamplePS}))
        (ExampleInputs (ExampleRect 1920 1080)) = Some r \<and>
      NewPasses ExampleGraph (Graph r) = bp # mid @ cps \<and> Shader bp = FClassicBloomBrightPassPS \<and>
      (\<forall>p \<in> set mid. Shader p = FClassicBloomBlurPS \<or> Shader p = FClassicBloomGlareStreakPS) \<and>
      length (filter (\<lambda>p. Shader p = FClassicBloomBlurPS) mid) = 2 \<and>
      (\<forall>p \<in> set cps. Shader p = FClassicBloomCompositePS))"
proof -
  let ?In = "ExampleInputs (ExampleRect 1920 1080)"
  let ?Ctx = "ExampleContext DefaultComponent"
  let ?E = "\<lparr>X = 960, Y = 540\<rparr>"
  have a: "IsActive DefaultComponent" "0 < BloomIntensity DefaultComponent"
    by (simp_all add: DefaultComponent_def)
  have h1: "ShaderMap (ExampleView (AllShaders - {FClassicBloomCompositePS})) =
      Some (AllShaders - {FClassicBloomCompositePS}) \<and>
    FClassicBloomCompositePS \<notin> AllShaders - {FClassicBloomCompositePS}"
    by (simp add: ExampleView_def)
  then have h1': "ShaderMap (ExampleView (AllShaders - {FClassicBloomCompositePS})) =
      Some (AllShaders - {FClassicBloomCompositePS}) \<and>
    (FClassicBloomBrightPassPS \<notin> AllShaders - {FClassicBloomCompositePS} \<or>
     FClassicBloomCompositePS \<notin> AllShaders - {FClassicBloomCompositePS})" by blast
  have h2: "FrameRuns ?Ctx (ExampleView (AllShaders - {FClassicBloomBrightPassPS})) ?In
      (AllShaders - {FClassicBloomBrightPassPS}) DefaultComponent \<and>
    FClassicBloomBrightPassPS \<notin> AllShaders - {FClassicBloomBrightPassPS}"
    using Example_FrameRuns [OF a] by simp
  have h3: "FrameRuns ?Ctx (ExampleView (AllShaders - {FClassicBloomCompositePS})) ?In
      (AllShaders - {FClassicBloomCompositePS}) DefaultComponent \<and>
    FClassicBloomBrightPassPS \<in> AllShaders - {FClassicBloomCompositePS}"
    using Example_FrameRuns [OF a] by (simp add: AllShaders_def)
  then have h3': "FrameRuns ?Ctx (ExampleView (AllShaders - {FClassicBloomCompositePS})) ?In
      (AllShaders - {FClassicBloomCompositePS}) DefaultComponent \<and>
    FClassicBloomBrightPassPS \<in> AllShaders - {FClassicBloomCompositePS} \<and>
    FClassicBloomCompositePS \<notin> AllShaders - {FClassicBloomCompositePS}" by simp
  have h4: "BloomMode (DefaultComponent\<lparr>BloomMode := Kawase\<rparr>) = Kawase \<and>
    FClassicBloomKawaseDownsamplePS \<notin> AllShaders - {FClassicBloomKawaseDownsamplePS}"
    by simp
  have h5: "BloomMode (DefaultComponent\<lparr>BloomMode := DirectionalGlare\<rparr>) = DirectionalGlare \<and>
    FClassicBloomGlareStreakPS \<in> AllShaders - {FClassicBloomGlareAccumulatePS} \<and>
    FClassicBloomGlareAccumulatePS \<notin> AllShaders - {FClassicBloomGlareAccumulatePS}"
    by (simp add: AllShaders_def)
  have h6: "FrameRuns (ExampleContext (DefaultComponent\<lparr>BloomMode := Kawase\<rparr>))
      (ExampleView (AllShaders - {FClassicBloomKawaseDownsamplePS})) ?In
      (AllShaders - {FClassicBloomKawaseDownsamplePS}) (DefaultComponent\<lparr>BloomMode := Kawase\<rparr>) \<and>
    FClassicBloomBrightPassPS \<in> AllShaders - {FClassicBloomKawaseDownsamplePS}"
    using Example_FrameRuns [of "DefaultComponent\<lparr>BloomMode := Kawase\<rparr>"
        "AllShaders - {FClassicBloomKawaseDownsamplePS}"]
    by (simp add: AllShaders_def DefaultComponent_def)
  have h6': "FrameRuns (ExampleContext (DefaultComponent\<lparr>BloomMode := Kawase\<rparr>))
      (ExampleView (AllShaders - {FClassicBloomKawaseDownsamplePS})) ?In
      (AllShaders - {FClassicBloomKawaseDownsamplePS}) (DefaultComponent\<lparr>BloomMode := Kawase\<rparr>) \<and>
    FClassicBloomBrightPassPS \<in> AllShaders - {FClassicBloomKawaseDownsamplePS} \<and>
    ((BloomMode (DefaultComponent\<lparr>BloomMode := Kawase\<rparr>) = Kawase \<and>
        (FClassicBloomKawaseDownsamplePS \<notin> AllShaders - {FClassicBloomKawaseDownsamplePS} \<or>
         FClassicBloomKawaseUpsamplePS \<notin> AllShaders - {FClassicBloomKawaseDownsamplePS})) \<or>
     (BloomMode (DefaultComponent\<lparr>BloomMode := Kawase\<rparr>) = DirectionalGlare \<and>
        (FClassicBloomGlareStreakPS \<notin> AllShaders - {FClassicBloomKawaseDownsamplePS} \<or>
         FClassicBloomGlareAccumulatePS \<notin> AllShaders - {FClassicBloomKawaseDownsamplePS})))"
    using h6 h4 by blast
  have n6: "2 * nat (Clamp (BlurPasses (DefaultComponent\<lparr>BloomMode := Kawase\<rparr>)) 1 4) = 2"
    by (simp add: DefaultComponent_def Clamp_def)
  have k: "nat (Clamp (GlareStreakCount (DefaultComponent\<lparr>BloomMode := DirectionalGlare\<rparr>)) 2 16) = 6"
    by (simp add: DefaultComponent_def Clamp_def)
  note c1 = unavailable_program [where View = "ExampleView (AllShaders - {FClassicBloomCompositePS})"
      and sm = "AllShaders - {FClassicBloomCompositePS}" and Ctx = ?Ctx and gb = ExampleGraph
      and Inputs = ?In, THEN conjunct1, THEN mp, OF h1']
  note c2 = unavailable_program [where View = "ExampleView (AllShaders - {FClassicBloomBrightPassPS})"
      and sm = "AllShaders - {FClassicBloomBrightPassPS}" and Ctx = ?Ctx and gb = ExampleGraph
      and Inputs = ?In and c = DefaultComponent,
      THEN conjunct2, THEN conjunct1, THEN mp, OF h2]
  note c3 = unavailable_program [where View = "ExampleView (AllShaders - {FClassicBloomCompositePS})"
      and sm = "AllShaders - {FClassicBloomCompositePS}" and Ctx = ?Ctx and gb = ExampleGraph
      and Inputs = ?In and c = DefaultComponent,
      THEN conjunct2, THEN conjunct2, THEN conjunct1, THEN mp, OF h3']
  note c4 = unavailable_program [where View = "ExampleView (AllShaders - {FClassicBloomKawaseDownsamplePS})"
      and sm = "AllShaders - {FClassicBloomKawaseDownsamplePS}" and gb = "snd ExampleBrightPass"
      and k = "DefaultComponent\<lparr>BloomMode := Kawase\<rparr>"
      and SceneTex = ExampleSceneColorTexture and VRect = "ExampleRect 1920 1080"
      and bShouldLog = False and Divisor = 2 and Ext = ?E and Rect = "ComputeDownsampledRect ?E"
      and Desc' = "BrightPassDesc_of ?E" and Bright = "fst ExampleBrightPass",
      THEN conjunct2, THEN conjunct2, THEN conjunct2, THEN conjunct1, THEN mp,
      OF disjI1, OF conjI [OF conjunct1 [OF h4] disjI1 [OF conjunct2 [OF h4]]]]
  note c5 = unavailable_program [where View = "ExampleView (AllShaders - {FClassicBloomGlareAccumulatePS})"
      and sm = "AllShaders - {FClassicBloomGlareAccumulatePS}" and gb = "snd ExampleBrightPass"
      and k = "DefaultComponent\<lparr>BloomMode := DirectionalGlare\<rparr>"
      and SceneTex = ExampleSceneColorTexture and VRect = "ExampleRect 1920 1080"
      and bShouldLog = False and Divisor = 2 and Ext = ?E and Rect = "ComputeDownsampledRect ?E"
      and Desc' = "BrightPassDesc_of ?E" and Bright = "fst ExampleBrightPass",
      THEN conjunct2, THEN conjunct2, THEN conjunct2, THEN conjunct2, THEN conjunct1, THEN mp,
      OF h5, unfolded k]
  note c6 = unavailable_program [where View = "ExampleView (AllShaders - {FClassicBloomKawaseDownsamplePS})"
      and sm = "AllShaders - {FClassicBloomKawaseDownsamplePS}"
      and Ctx = "ExampleContext (DefaultComponent\<lparr>BloomMode := Kawase\<rparr>)" and gb = ExampleGraph
      and Inputs = ?In and c = "DefaultComponent\<lparr>BloomMode := Kawase\<rparr>",
      THEN conjunct2, THEN conjunct2, THEN conjunct2, THEN conjunct2, THEN conjunct2, THEN mp,
      OF h6', unfolded n6]
  have ov: "\<not> IsValid (OverrideOutput ?In)" by (simp add: ExampleInputs_def IsValid_def)
  from c3 have c3': "\<exists>r bp mid names. PostProcessPass_RenderThread ?Ctx ExampleGraph
          (ExampleView (AllShaders - {FClassicBloomCompositePS})) ?In = Some r \<and>
        ReturnValue r = SceneColorInput ?In \<and>
        NewPasses ExampleGraph (Graph r) = bp # mid \<and> Shader bp = FClassicBloomBrightPassPS \<and>
        mid \<noteq> [] \<and>
        map Name (NewTextures ExampleGraph (Graph r)) =
          ''ClassicBloom.BrightPass'' # names @ [''ClassicBloom.Output'']"
    unfolding if_not_P [OF ov]
    apply (elim exE conjE)
    subgoal for r bp mid names
      apply (rule exI [of _ r], rule exI [of _ bp], rule exI [of _ mid], rule exI [of _ names])
      apply (intro conjI; assumption)
      done
    done
  from c5 have c5': "\<exists>gb1 t gb' log'.
      BlurStage (snd ExampleBrightPass) (ExampleView (AllShaders - {FClassicBloomGlareAccumulatePS}))
        (AllShaders - {FClassicBloomGlareAccumulatePS}) ExampleSceneColorTexture
        (ExampleRect 1920 1080) (DefaultComponent\<lparr>BloomMode := DirectionalGlare\<rparr>) False 2
        ?E (ComputeDownsampledRect ?E) (BrightPassDesc_of ?E) (fst ExampleBrightPass) =
        Some (t, gb', log') \<and>
      length (Passes gb1) = length (Passes (snd ExampleBrightPass)) + 6 \<and>
      StandardBlur gb1 (ExampleView (AllShaders - {FClassicBloomGlareAccumulatePS}))
        (DefaultComponent\<lparr>BloomMode := DirectionalGlare\<rparr>)
        ?E (ComputeDownsampledRect ?E) (BrightPassDesc_of ?E) (fst ExampleBrightPass) =
        Some (t, gb')"
    by blast
  show ?thesis
    by (intro conjI) (rule h1 [THEN conjunct1] h1 [THEN conjunct2] c1 h2 [THEN conjunct1]
        h2 [THEN conjunct2] c2 h3 [THEN conjunct1] h3 [THEN conjunct2] c3'
        h4 [THEN conjunct1] h4 [THEN conjunct2] c4 h5 [THEN conjunct1]
        h5 [THEN conjunct2, THEN conjunct1] h5 [THEN conjunct2, THEN conjunct2] c5'
        h6 [THEN conjunct1] h6 [THEN conjunct2] c6)+
qed

text \<open>
  C5 as first stated says that a missing program has no other effect. The default frame
  with the composite program missing starts from a graph without passes and leaves three.
\<close>

theorem no_other_effect_counterexample:
  "RecordedPasses
     (PostProcessPass_RenderThread (ExampleContext DefaultComponent) ExampleGraph
        (ExampleView (AllShaders - {FClassicBloomCompositePS}))
        (ExampleInputs (ExampleRect 1920 1080))) =
   [''BrightPass'', ''BlurHorizontal'', ''BlurVertical'']"
  by code_simp

text \<open>
  C6 (amended). A frame that passes the gates with the bright-pass and the composite
  programs available records exactly one composite pass, the last pass of the graph, drawn
  into the texture of the returned output over its rectangle. The parameters of that pass
  hold two coordinate transforms, \<^verbatim>\<open>SvPositionToSceneColorUV\<close> and \<^verbatim>\<open>SvPositionToBloomUV\<close>;
  both start from the viewport of the output, the first ends in the viewport of the scene
  colour, the second in the viewport of the bloom texture (the downsampled extent and
  rectangle).
\<close>

theorem composite_transforms:
  assumes "FrameRuns Ctx View Inputs sm c"
    and "FClassicBloomBrightPassPS \<in> sm" and "FClassicBloomCompositePS \<in> sm"
  shows "\<exists>r T OutTex cp.
     PostProcessPass_RenderThread Ctx gb View Inputs = Some r \<and>
     Texture (SceneColorInput Inputs) = Some T \<and> Texture (ReturnValue r) = Some OutTex \<and>
     filter (\<lambda>p. Shader p = FClassicBloomCompositePS) (NewPasses gb (Graph r)) = [cp] \<and>
     last (Passes (Graph r)) = cp \<and>
     TargetTexture cp = Some OutTex \<and> PassViewport cp = ViewRect (ReturnValue r) \<and>
     (let Ext = ComputeDownsampledExtent (ViewRect (SceneColorInput Inputs)) (ComputeDivisor c);
          OutputViewport =
            FScreenPassTextureViewport (Extent (Desc OutTex)) (ViewRect (ReturnValue r))
      in TransformsOf (Parameters cp) =
           [(''SvPositionToSceneColorUV'',
             SvPositionToTextureUV OutputViewport
               (FScreenPassTextureViewport (Extent (Desc T)) (ViewRect (SceneColorInput Inputs)))),
            (''SvPositionToBloomUV'',
             SvPositionToTextureUV OutputViewport
               (FScreenPassTextureViewport Ext (ComputeDownsampledRect Ext)))])"
proof -
  define Ext where "Ext = ComputeDownsampledExtent (ViewRect (SceneColorInput Inputs)) (ComputeDivisor c)"
  from Frame_passes [OF assms Ext_def, of gb]
  obtain T r bp mid cp OutTex where f:
    "Texture (SceneColorInput Inputs) = Some T \<and>
     PostProcessPass_RenderThread Ctx gb View Inputs = Some r \<and>
     Passes (Graph r) = Passes gb @ bp # mid @ [cp] \<and>
     Shader bp = FClassicBloomBrightPassPS \<and>
     (\<forall>p \<in> set mid. Shader p \<in>
        {FClassicBloomBlurPS, FClassicBloomGlareStreakPS, FClassicBloomGlareAccumulatePS,
         FClassicBloomKawaseDownsamplePS, FClassicBloomKawaseUpsamplePS}) \<and>
     Shader cp = FClassicBloomCompositePS \<and>
     Texture (ReturnValue r) = Some OutTex \<and> TargetTexture cp = Some OutTex \<and>
     PassViewport cp = ViewRect (ReturnValue r) \<and>
     TransformsOf (Parameters cp) =
       [(''SvPositionToSceneColorUV'',
         SvPositionToTextureUV
           (FScreenPassTextureViewport (Extent (Desc OutTex)) (ViewRect (ReturnValue r)))
           (FScreenPassTextureViewport (Extent (Desc T)) (ViewRect (SceneColorInput Inputs)))),
        (''SvPositionToBloomUV'',
         SvPositionToTextureUV
           (FScreenPassTextureViewport (Extent (Desc OutTex)) (ViewRect (ReturnValue r)))
           (FScreenPassTextureViewport Ext (ComputeDownsampledRect Ext)))]"
    by (elim exE conjE) (rule that, intro conjI, assumption+)
  then have new: "NewPasses gb (Graph r) = bp # mid @ [cp]" by (simp add: NewPasses_def)
  have m: "filter (\<lambda>p. Shader p = FClassicBloomCompositePS) mid = []"
    using f by (auto simp: filter_empty_conv)
  have fl: "filter (\<lambda>p. Shader p = FClassicBloomCompositePS) (NewPasses gb (Graph r)) = [cp]"
    unfolding new using f m by simp
  have l: "last (Passes (Graph r)) = cp" using f by simp
  show ?thesis
    apply (rule exI [of _ r], rule exI [of _ T], rule exI [of _ OutTex], rule exI [of _ cp])
    unfolding Let_def Ext_def [symmetric]
    using f fl l by simp
qed

theorem composite_transforms_witness:
  "FrameRuns (ExampleContext DefaultComponent) (ExampleView AllShaders)
     (ExampleInputs (ExampleRect 1920 1080)) AllShaders DefaultComponent \<and>
   FClassicBloomBrightPassPS \<in> AllShaders \<and> FClassicBloomCompositePS \<in> AllShaders \<and>
   (\<exists>r OutTex cp.
      PostProcessPass_RenderThread (ExampleContext DefaultComponent) ExampleGraph
        (ExampleView AllShaders) (ExampleInputs (ExampleRect 1920 1080)) = Some r \<and>
      Texture (ReturnValue r) = Some OutTex \<and>
      filter (\<lambda>p. Shader p = FClassicBloomCompositePS) (NewPasses ExampleGraph (Graph r)) = [cp] \<and>
      TransformsOf (Parameters cp) =
        [(''SvPositionToSceneColorUV'',
          SvPositionToTextureUV
            (FScreenPassTextureViewport (Extent (Desc OutTex)) (ViewRect (ReturnValue r)))
            (FScreenPassTextureViewport \<lparr>X = 1920, Y = 1080\<rparr> (ExampleRect 1920 1080))),
         (''SvPositionToBloomUV'',
          SvPositionToTextureUV
            (FScreenPassTextureViewport (Extent (Desc OutTex)) (ViewRect (ReturnValue r)))
            (FScreenPassTextureViewport \<lparr>X = 960, Y = 540\<rparr>
               (ComputeDownsampledRect \<lparr>X = 960, Y = 540\<rparr>)))])"
proof -
  have a: "IsActive DefaultComponent" "0 < BloomIntensity DefaultComponent"
    by (simp_all add: DefaultComponent_def)
  have h: "FrameRuns (ExampleContext DefaultComponent) (ExampleView AllShaders)
     (ExampleInputs (ExampleRect 1920 1080)) AllShaders DefaultComponent"
    using a by (rule Example_FrameRuns)
  have s: "FClassicBloomBrightPassPS \<in> AllShaders" "FClassicBloomCompositePS \<in> AllShaders"
    by (simp_all add: AllShaders_def)
  have d: "ComputeDivisor DefaultComponent = 2"
    by code_simp
  have e: "ComputeDownsampledExtent (ViewRect (SceneColorInput (ExampleInputs (ExampleRect 1920 1080))))
      (ComputeDivisor DefaultComponent) = \<lparr>X = 960, Y = 540\<rparr>"
    unfolding d
    by (simp add: ComputeDownsampledExtent_def ExampleInputs_def ExampleRect_def Width_def Height_def
        DivideAndRoundUp_pt_def DivideAndRoundUp_def sdiv_nonneg)
  have t: "Texture (SceneColorInput (ExampleInputs (ExampleRect 1920 1080))) =
      Some ExampleSceneColorTexture"
    "ViewRect (SceneColorInput (ExampleInputs (ExampleRect 1920 1080))) = ExampleRect 1920 1080"
    "Extent (Desc ExampleSceneColorTexture) = \<lparr>X = 1920, Y = 1080\<rparr>"
    by (simp_all add: ExampleInputs_def ExampleSceneColorTexture_def Create2D_def)
  from composite_transforms [OF h s, of ExampleGraph, unfolded Let_def e]
  have "\<exists>r OutTex cp.
      PostProcessPass_RenderThread (ExampleContext DefaultComponent) ExampleGraph
        (ExampleView AllShaders) (ExampleInputs (ExampleRect 1920 1080)) = Some r \<and>
      Texture (ReturnValue r) = Some OutTex \<and>
      filter (\<lambda>p. Shader p = FClassicBloomCompositePS) (NewPasses ExampleGraph (Graph r)) = [cp] \<and>
      TransformsOf (Parameters cp) =
        [(''SvPositionToSceneColorUV'',
          SvPositionToTextureUV
            (FScreenPassTextureViewport (Extent (Desc OutTex)) (ViewRect (ReturnValue r)))
            (FScreenPassTextureViewport \<lparr>X = 1920, Y = 1080\<rparr> (ExampleRect 1920 1080))),
         (''SvPositionToBloomUV'',
          SvPositionToTextureUV
            (FScreenPassTextureViewport (Extent (Desc OutTex)) (ViewRect (ReturnValue r)))
            (FScreenPassTextureViewport \<lparr>X = 960, Y = 540\<rparr>
               (ComputeDownsampledRect \<lparr>X = 960, Y = 540\<rparr>)))]"
    unfolding t by (elim exE conjE) (simp add: t)
  with h s show ?thesis by blast
qed

text \<open>
  C6 as first stated counts three transforms. The composite pass of the default frame has
  two.
\<close>

theorem three_transforms_counterexample:
  "map (map fst)
     (CompositeTransforms
        (PostProcessPass_RenderThread (ExampleContext DefaultComponent) ExampleGraph
           (ExampleView AllShaders) (ExampleInputs (ExampleRect 1920 1080)))) =
   [[''SvPositionToSceneColorUV'', ''SvPositionToBloomUV'']]"
  by code_simp

text \<open>
  C7. A frame that passes the gates with the bright-pass and the composite programs
  available records the bright pass first and the composite pass last, and no other pass
  runs either program. The bright pass receives the threshold 0.01 in \<^verbatim>\<open>SoftFocus\<close> mode,
  whatever the configured threshold, and the configured threshold in every other mode.
  The composite pass receives bloom intensity 0 and soft-focus intensity equal to the
  configured bloom intensity in \<^verbatim>\<open>SoftFocus\<close> mode; in every other mode it receives the
  configured bloom intensity and soft-focus intensity 0.
\<close>

theorem soft_focus_channels:
  assumes "FrameRuns Ctx View Inputs sm c"
    and "FClassicBloomBrightPassPS \<in> sm" and "FClassicBloomCompositePS \<in> sm"
  shows "\<exists>r bp mid cp.
     PostProcessPass_RenderThread Ctx gb View Inputs = Some r \<and>
     NewPasses gb (Graph r) = bp # mid @ [cp] \<and>
     Shader bp = FClassicBloomBrightPassPS \<and>
     (\<forall>p \<in> set mid. Shader p \<noteq> FClassicBloomBrightPassPS \<and> Shader p \<noteq> FClassicBloomCompositePS) \<and>
     Shader cp = FClassicBloomCompositePS \<and>
     Param bp ''BloomThreshold'' =
       Some (FloatParam (if BloomMode c = SoftFocus then 0.01 else BloomThreshold c)) \<and>
     Param cp ''BloomIntensity'' =
       Some (FloatParam (if BloomMode c = SoftFocus then 0 else BloomIntensity c)) \<and>
     Param cp ''SoftFocusIntensity'' =
       Some (FloatParam (if BloomMode c = SoftFocus then BloomIntensity c else 0))"
proof -
  from Frame_passes [OF assms refl, of gb]
  obtain r bp mid cp where f:
    "PostProcessPass_RenderThread Ctx gb View Inputs = Some r \<and>
     Passes (Graph r) = Passes gb @ bp # mid @ [cp] \<and>
     Shader bp = FClassicBloomBrightPassPS \<and>
     Param bp ''BloomThreshold'' =
       Some (FloatParam (if BloomMode c = SoftFocus then 0.01 else BloomThreshold c)) \<and>
     (\<forall>p \<in> set mid. Shader p \<in>
        {FClassicBloomBlurPS, FClassicBloomGlareStreakPS, FClassicBloomGlareAccumulatePS,
         FClassicBloomKawaseDownsamplePS, FClassicBloomKawaseUpsamplePS}) \<and>
     Shader cp = FClassicBloomCompositePS \<and>
     Param cp ''BloomIntensity'' =
       Some (FloatParam (if BloomMode c = SoftFocus then 0 else BloomIntensity c)) \<and>
     Param cp ''SoftFocusIntensity'' =
       Some (FloatParam (if BloomMode c = SoftFocus then BloomIntensity c else 0))"
    by (elim exE conjE) (rule that, intro conjI, assumption+)
  then have new: "NewPasses gb (Graph r) = bp # mid @ [cp]" by (simp add: NewPasses_def)
  have m: "\<forall>p \<in> set mid. Shader p \<noteq> FClassicBloomBrightPassPS \<and> Shader p \<noteq> FClassicBloomCompositePS"
    using f by auto
  show ?thesis
    apply (rule exI [of _ r], rule exI [of _ bp], rule exI [of _ mid], rule exI [of _ cp])
    using f new m by (simp split del: if_split)
qed

theorem soft_focus_channels_witness:
  "FrameRuns (ExampleContext (DefaultComponent\<lparr>BloomMode := SoftFocus\<rparr>)) (ExampleView AllShaders)
     (ExampleInputs (ExampleRect 1920 1080)) AllShaders (DefaultComponent\<lparr>BloomMode := SoftFocus\<rparr>) \<and>
   FClassicBloomBrightPassPS \<in> AllShaders \<and> FClassicBloomCompositePS \<in> AllShaders \<and>
   (\<exists>r bp mid cp.
      PostProcessPass_RenderThread (ExampleContext (DefaultComponent\<lparr>BloomMode := SoftFocus\<rparr>))
        ExampleGraph (ExampleView AllShaders) (ExampleInputs (ExampleRect 1920 1080)) = Some r \<and>
      NewPasses ExampleGraph (Graph r) = bp # mid @ [cp] \<and>
      Param bp ''BloomThreshold'' = Some (FloatParam 0.01) \<and>
      Param cp ''BloomIntensity'' = Some (FloatParam 0) \<and>
      Param cp ''SoftFocusIntensity'' = Some (FloatParam 2))"
proof -
  let ?c = "DefaultComponent\<lparr>BloomMode := SoftFocus\<rparr>"
  have a: "IsActive ?c" "0 < BloomIntensity ?c" by (simp_all add: DefaultComponent_def)
  have h: "FrameRuns (ExampleContext ?c) (ExampleView AllShaders)
     (ExampleInputs (ExampleRect 1920 1080)) AllShaders ?c"
    using a by (rule Example_FrameRuns)
  have s: "FClassicBloomBrightPassPS \<in> AllShaders" "FClassicBloomCompositePS \<in> AllShaders"
    by (simp_all add: AllShaders_def)
  have v: "BloomMode ?c = SoftFocus" "BloomIntensity ?c = 2" by (simp_all add: DefaultComponent_def)
  from soft_focus_channels [OF h s, of ExampleGraph]
  have "\<exists>r bp mid cp.
      PostProcessPass_RenderThread (ExampleContext ?c)
        ExampleGraph (ExampleView AllShaders) (ExampleInputs (ExampleRect 1920 1080)) = Some r \<and>
      NewPasses ExampleGraph (Graph r) = bp # mid @ [cp] \<and>
      Param bp ''BloomThreshold'' = Some (FloatParam 0.01) \<and>
      Param cp ''BloomIntensity'' = Some (FloatParam 0) \<and>
      Param cp ''SoftFocusIntensity'' = Some (FloatParam 2)"
    unfolding v by (simp only: HOL.simp_thms if_True) blast
  with h s show ?thesis by blast
qed

text \<open>
  C9. Whenever the standard blur runs (mode \<^verbatim>\<open>Standard\<close> or \<^verbatim>\<open>SoftFocus\<close>, or \<^verbatim>\<open>Kawase\<close> or
  \<^verbatim>\<open>DirectionalGlare\<close> with one of their programs missing), a frame that passes the gates with
  the bright-pass and the composite programs available records two blur passes for each
  of the clamped \<^verbatim>\<open>BlurPasses\<close> iterations and ends with the composite pass, whether the
  blur program is in the shader map or not: the scope computes the same result with the
  blur program removed from the map and with it added.
\<close>

theorem blur_program_unchecked:
  assumes "FrameRuns Ctx View Inputs sm c"
    and "FClassicBloomBrightPassPS \<in> sm" and "FClassicBloomCompositePS \<in> sm"
    and "BloomMode c = Standard \<or> BloomMode c = SoftFocus \<or>
         (BloomMode c = Kawase \<and>
            (FClassicBloomKawaseDownsamplePS \<notin> sm \<or> FClassicBloomKawaseUpsamplePS \<notin> sm)) \<or>
         (BloomMode c = DirectionalGlare \<and>
            (FClassicBloomGlareStreakPS \<notin> sm \<or> FClassicBloomGlareAccumulatePS \<notin> sm))"
  shows "\<exists>r. PostProcessPass_RenderThread Ctx gb View Inputs = Some r \<and>
     length (filter (\<lambda>p. Shader p = FClassicBloomBlurPS) (NewPasses gb (Graph r))) =
       2 * nat (Clamp (BlurPasses c) 1 4) \<and>
     Shader (last (Passes (Graph r))) = FClassicBloomCompositePS \<and>
     ClassicBloomScope Ctx gb View Inputs (sm - {FClassicBloomBlurPS}) c = Some r \<and>
     ClassicBloomScope Ctx gb View Inputs (insert FClassicBloomBlurPS sm) c = Some r"
proof -
  from FrameRuns_scope [OF assms(1)] obtain T where
    p: "PostProcessPass_RenderThread Ctx gb View Inputs = ClassicBloomScope Ctx gb View Inputs sm c"
    and T: "Texture (SceneColorInput Inputs) = Some T" by blast
  have pos: "0 < Width (ViewRect (SceneColorInput Inputs))"
    "0 < Height (ViewRect (SceneColorInput Inputs))"
    using assms(1) by (simp_all add: FrameRuns_def)
  define VR where "VR = ViewRect (SceneColorInput Inputs)"
  define L where "L = (bEnableDebugLogging c \<and> CurrentTime Ctx - LastLogTime Ctx > 1.0)"
  define Ext where "Ext = ComputeDownsampledExtent VR (ComputeDivisor c)"
  define Rect where "Rect = ComputeDownsampledRect Ext"
  define BT where "BT = fst (CreateTexture gb (BrightPassDesc_of Ext) ''ClassicBloom.BrightPass'')"
  define g1 where "g1 = snd (CreateTexture gb (BrightPassDesc_of Ext) ''ClassicBloom.BrightPass'')"
  define g2 where "g2 = fst (BrightPass g1 View T VR c L Ext Rect BT)"
  from ClassicBloomScope_run [OF T pos assms(2) VR_def L_def Ext_def Rect_def BT_def g1_def g2_def]
  obtain t g3 l2 R g4 l3 r where run:
    "BlurStage g2 View sm T VR c L (ComputeDivisor c) Ext Rect (BrightPassDesc_of Ext) BT =
       Some (t, g3, l2)"
    "Composite g3 View sm (SceneColorInput Inputs) T (OverrideOutput Inputs) c L Ext Rect t =
       Some (R, g4, l3)"
    "ClassicBloomScope Ctx gb View Inputs sm c = Some r" "Graph r = g4"
    by blast
  have p1: "Passes g1 = Passes gb" by (simp add: g1_def CreateTexture_eq)
  from BrightPass_shape [of g1 View T VR c L Ext Rect BT, folded g2_def]
  obtain bp where bp: "Passes g2 = Passes g1 @ [bp]" "Shader bp = FClassicBloomBrightPassPS"
    by blast
  from BlurStage_fallback_passes [OF assms(4), of g2 View T VR L "ComputeDivisor c" Ext Rect
      "BrightPassDesc_of Ext" BT] run(1)
  obtain mid where mid: "Passes g3 = Passes g2 @ mid"
    "\<forall>p \<in> set mid. Shader p = FClassicBloomBlurPS \<or> Shader p = FClassicBloomGlareStreakPS"
    "length (filter (\<lambda>p. Shader p = FClassicBloomBlurPS) mid) = 2 * nat (Clamp (BlurPasses c) 1 4)"
    by auto
  from Composite_available [OF assms(3), of g3 View "SceneColorInput Inputs" T
      "OverrideOutput Inputs" c L Ext Rect t] run(2)
  obtain cp where cp: "Passes g4 = Passes g3 @ [cp]" "Shader cp = FClassicBloomCompositePS"
    by auto
  have new: "NewPasses gb (Graph r) = bp # mid @ [cp]"
    using run(4) p1 bp(1) mid(1) cp(1) by (simp add: NewPasses_def)
  have "length (filter (\<lambda>p. Shader p = FClassicBloomBlurPS) (NewPasses gb (Graph r))) =
       2 * nat (Clamp (BlurPasses c) 1 4)"
    unfolding new using bp(2) cp(2) mid(3) by simp
  moreover have "Shader (last (Passes (Graph r))) = FClassicBloomCompositePS"
    using run(4) cp by simp
  ultimately show ?thesis
    using p run(3) by (simp add: ClassicBloomScope_without_blur ClassicBloomScope_with_blur)
qed

theorem blur_program_unchecked_witness:
  "FrameRuns (ExampleContext DefaultComponent) (ExampleView (AllShaders - {FClassicBloomBlurPS}))
     (ExampleInputs (ExampleRect 1920 1080)) (AllShaders - {FClassicBloomBlurPS}) DefaultComponent \<and>
   FClassicBloomBrightPassPS \<in> AllShaders - {FClassicBloomBlurPS} \<and>
   FClassicBloomCompositePS \<in> AllShaders - {FClassicBloomBlurPS} \<and>
   BloomMode DefaultComponent = Standard \<and>
   FClassicBloomBlurPS \<notin> AllShaders - {FClassicBloomBlurPS} \<and>
   (\<exists>r. PostProcessPass_RenderThread (ExampleContext DefaultComponent) ExampleGraph
          (ExampleView (AllShaders - {FClassicBloomBlurPS}))
          (ExampleInputs (ExampleRect 1920 1080)) = Some r \<and>
        length (filter (\<lambda>p. Shader p = FClassicBloomBlurPS) (NewPasses ExampleGraph (Graph r))) = 2 \<and>
        Shader (last (Passes (Graph r))) = FClassicBloomCompositePS)"
proof -
  let ?sm = "AllShaders - {FClassicBloomBlurPS}"
  have a: "IsActive DefaultComponent" "0 < BloomIntensity DefaultComponent"
    by (simp_all add: DefaultComponent_def)
  have h: "FrameRuns (ExampleContext DefaultComponent) (ExampleView ?sm)
     (ExampleInputs (ExampleRect 1920 1080)) ?sm DefaultComponent"
    using a by (rule Example_FrameRuns)
  have s: "FClassicBloomBrightPassPS \<in> ?sm" "FClassicBloomCompositePS \<in> ?sm"
    "FClassicBloomBlurPS \<notin> ?sm"
    by (simp_all add: AllShaders_def)
  have m: "BloomMode DefaultComponent = Standard" by (simp add: DefaultComponent_def)
  have n: "2 * nat (Clamp (BlurPasses DefaultComponent) 1 4) = 2"
    by (simp add: DefaultComponent_def Clamp_def)
  from blur_program_unchecked [OF h s(1,2) disjI1 [OF m], of ExampleGraph, unfolded n]
  have "\<exists>r. PostProcessPass_RenderThread (ExampleContext DefaultComponent) ExampleGraph
          (ExampleView ?sm) (ExampleInputs (ExampleRect 1920 1080)) = Some r \<and>
        length (filter (\<lambda>p. Shader p = FClassicBloomBlurPS) (NewPasses ExampleGraph (Graph r))) = 2 \<and>
        Shader (last (Passes (Graph r))) = FClassicBloomCompositePS"
    by blast
  with h s m show ?thesis by blast
qed

text \<open>
  C10. Change \<^verbatim>\<open>BlurSamples\<close> and \<^verbatim>\<open>bHighQualityUpsampling\<close> of the registered components in
  any way and leave everything else as it is: the callback returns in both frames, with
  the same output, the same graph (every texture, every pass, every parameter) and the
  same time of the last log.
\<close>

theorem graph_independent_of_blur_samples:
  "\<exists>r r'.
     PostProcessPass_RenderThread Ctx gb View Inputs = Some r \<and>
     PostProcessPass_RenderThread
       (Ctx\<lparr>Objects := \<lambda>h. map_option
                 (\<lambda>c. c\<lparr>BlurSamples := samples h, bHighQualityUpsampling := quality h\<rparr>) (Objects Ctx h)\<rparr>)
       gb View Inputs = Some r' \<and>
     ReturnValue r' = ReturnValue r \<and> Graph r' = Graph r \<and>
     NewLastLogTime r' = NewLastLogTime r"
proof -
  let ?Objs = "\<lambda>h. map_option
      (\<lambda>c. c\<lparr>BlurSamples := samples h, bHighQualityUpsampling := quality h\<rparr>) (Objects Ctx h)"
  let ?Ctx = "Ctx\<lparr>Objects := ?Objs\<rparr>"
  let ?f = "\<lambda>r. (ReturnValue r, Graph r, NewLastLogTime r)"
  have eq: "map_option ?f (PostProcessPass_RenderThread ?Ctx gb View Inputs) =
            map_option ?f (PostProcessPass_RenderThread Ctx gb View Inputs)"
  proof (cases rule: PostProcessPass_cases [of Ctx gb View Inputs])
    case gate
    have "PostProcessPass_RenderThread ?Ctx gb View Inputs =
          Some (Unchanged ?Ctx gb (SceneColorInput Inputs))"
    proof (cases "WeakSubsystem Ctx")
      case None
      then show ?thesis
        by (simp add: PostProcessPass_RenderThread_def Let_def split: option.splits)
    next
      case (Some S)
      from FindActiveComponent_fields [where Objs = "Objects Ctx" and xs = "BloomComponents S" and samples = samples and quality = quality]
      show ?thesis using gate(2) Some
        by (cases "FindActiveComponent (Objects Ctx) (BloomComponents S)";
            cases "FindActiveComponent ?Objs (BloomComponents S)")
           (auto simp: PostProcessPass_RenderThread_def Let_def split: option.splits)
    qed
    with gate(1) show ?thesis by (simp add: Unchanged_def)
  next
    case (scope sm S c)
    from FindActiveComponent_fields [where Objs = "Objects Ctx" and xs = "BloomComponents S" and samples = samples and quality = quality] scope(10)
    obtain n b where c': "FindActiveComponent ?Objs (BloomComponents S) =
        Some (c\<lparr>BlurSamples := n, bHighQualityUpsampling := b\<rparr>)"
      by (cases "FindActiveComponent ?Objs (BloomComponents S)") auto
    have "PostProcessPass_RenderThread ?Ctx gb View Inputs =
        ClassicBloomScope ?Ctx gb View Inputs sm (c\<lparr>BlurSamples := n, bHighQualityUpsampling := b\<rparr>)"
      using scope(1-9,11) c' by (simp add: PostProcessPass_RenderThread_def Let_def)
    moreover have "map_option ?f
        (ClassicBloomScope ?Ctx gb View Inputs sm (c\<lparr>BlurSamples := n, bHighQualityUpsampling := b\<rparr>)) =
        map_option ?f (ClassicBloomScope Ctx gb View Inputs sm c)"
      by (rule ClassicBloomScope_fields) simp_all
    ultimately show ?thesis using scope(12) by simp
  qed
  obtain r where r: "PostProcessPass_RenderThread Ctx gb View Inputs = Some r"
    using PostProcessPass_total [of Ctx gb View Inputs] by blast
  with eq obtain r' where r': "PostProcessPass_RenderThread ?Ctx gb View Inputs = Some r'"
    "?f r' = ?f r" by auto
  with r show ?thesis by auto
qed

theorem graph_independent_of_blur_samples_witness:
  "\<exists>r r'.
     PostProcessPass_RenderThread (ExampleContext DefaultComponent) ExampleGraph
       (ExampleView AllShaders) (ExampleInputs (ExampleRect 1920 1080)) = Some r \<and>
     PostProcessPass_RenderThread
       ((ExampleContext DefaultComponent)
          \<lparr>Objects := \<lambda>h. map_option (\<lambda>c. c\<lparr>BlurSamples := 9, bHighQualityUpsampling := True\<rparr>)
                           (Objects (ExampleContext DefaultComponent) h)\<rparr>)
       ExampleGraph (ExampleView AllShaders) (ExampleInputs (ExampleRect 1920 1080)) = Some r' \<and>
     ReturnValue r' = ReturnValue r \<and> Graph r' = Graph r \<and>
     NewLastLogTime r' = NewLastLogTime r \<and>
     map EventName (Passes (Graph r')) =
       [''BrightPass'', ''BlurHorizontal'', ''BlurVertical'', ''CompositeBloom'']"
proof -
  let ?P = "PostProcessPass_RenderThread (ExampleContext DefaultComponent) ExampleGraph
       (ExampleView AllShaders) (ExampleInputs (ExampleRect 1920 1080))"
  from graph_independent_of_blur_samples [where Ctx = "ExampleContext DefaultComponent"
      and gb = ExampleGraph and View = "ExampleView AllShaders"
      and Inputs = "ExampleInputs (ExampleRect 1920 1080)"
      and samples = "\<lambda>h. 9" and quality = "\<lambda>h. True"]
  obtain r r' where
    r: "?P = Some r" and
    r': "PostProcessPass_RenderThread
       ((ExampleContext DefaultComponent)
          \<lparr>Objects := \<lambda>h. map_option (\<lambda>c. c\<lparr>BlurSamples := 9, bHighQualityUpsampling := True\<rparr>)
                           (Objects (ExampleContext DefaultComponent) h)\<rparr>)
       ExampleGraph (ExampleView AllShaders) (ExampleInputs (ExampleRect 1920 1080)) = Some r'" and
    e: "ReturnValue r' = ReturnValue r" "Graph r' = Graph r" "NewLastLogTime r' = NewLastLogTime r"
    by blast
  have "RecordedPasses ?P = [''BrightPass'', ''BlurHorizontal'', ''BlurVertical'', ''CompositeBloom'']"
    by code_simp
  then have "map EventName (Passes (Graph r)) =
       [''BrightPass'', ''BlurHorizontal'', ''BlurVertical'', ''CompositeBloom'']"
    unfolding r by (simp add: RecordedPasses_def)
  then have m: "map EventName (Passes (Graph r')) =
       [''BrightPass'', ''BlurHorizontal'', ''BlurVertical'', ''CompositeBloom'']"
    unfolding e(2) .
  show ?thesis
    apply (rule exI [of _ r], rule exI [of _ r'])
    apply (intro conjI)
         apply (rule r, rule r', rule e(1), rule e(2), rule e(3), rule m)
    done
qed

subsection \<open>The working resolution and the Kawase pyramid in the frame\<close>



text \<open>
  C3. Take a frame that passes the gates in \<^verbatim>\<open>Kawase\<close> mode with the bright-pass and both
  Kawase programs available. After the bright pass, which writes the new texture
  \<^verbatim>\<open>ClassicBloom.BrightPass\<close>, the frame records M downsample passes and then M upsample
  passes, M the mip count clamped to 3..8, and after them composite passes only, which
  read the result \<open>t\<close> as bloom texture. Downsample pass 0 reads the scene colour texture
  of the inputs (another texture than the bright-pass one when it belongs to the graph),
  pass k > 0 reads the target of pass k - 1; the target of pass k has the extent of
  \<^const>\<open>MipExtentAt\<close> (the bright-pass extent halved k + 1 times, rounding up, at least
  1 by 1) and the pass draws the rectangle at the origin of exactly that extent; only
  pass 0 sets the Karis flag. Upsample pass 0 reads the smallest mip, pass i > 0 the
  target of pass i - 1; pass i blends with mip M - 2 - i and writes a texture of that
  mip's extent. The last upsample pass reads the target of the pass before it, blends
  with mip 0 and writes \<open>t\<close>, a texture with the description of the bright-pass
  texture, over the rectangle of the bright pass.
\<close>

theorem kawase_pyramid:
  assumes "FrameRuns Ctx View Inputs sm c" and "BloomMode c = Kawase"
    and "FClassicBloomBrightPassPS \<in> sm"
    and "FClassicBloomKawaseDownsamplePS \<in> sm" and "FClassicBloomKawaseUpsamplePS \<in> sm"
  shows "\<exists>r T BT bp t cps.
     PostProcessPass_RenderThread Ctx gb View Inputs = Some r \<and>
     Texture (SceneColorInput Inputs) = Some T \<and>
     Name BT = ''ClassicBloom.BrightPass'' \<and> (Handle T < length (Textures gb) \<longrightarrow> T \<noteq> BT) \<and>
     Shader bp = FClassicBloomBrightPassPS \<and> TargetTexture bp = Some BT \<and>
     (\<forall>p \<in> set cps. Shader p = FClassicBloomCompositePS \<and>
        Param p ''BloomTexture'' = Some (TextureParam (Some t))) \<and>
     (let M = nat (Clamp (KawaseMipCount c) 3 8);
          Downs = filter (\<lambda>p. Shader p = FClassicBloomKawaseDownsamplePS) (NewPasses gb (Graph r));
          Ups = filter (\<lambda>p. Shader p = FClassicBloomKawaseUpsamplePS) (NewPasses gb (Graph r))
      in NewPasses gb (Graph r) = bp # Downs @ Ups @ cps \<and>
         3 \<le> M \<and> M \<le> 8 \<and> length Downs = M \<and> length Ups = M \<and>
         (\<forall>k < M.
            Param (Downs ! k) ''SourceTexture'' =
              Some (TextureParam (if k = 0 then Some T else TargetTexture (Downs ! (k - 1)))) \<and>
            Param (Downs ! k) ''bUseKarisAverage'' = Some (IntParam (if k = 0 then 1 else 0)) \<and>
            (\<exists>T'. TargetTexture (Downs ! k) = Some T' \<and>
                  Extent (Desc T') = MipExtentAt (Extent (Desc BT)) k) \<and>
            PassViewport (Downs ! k) = RectOfExtent (MipExtentAt (Extent (Desc BT)) k)) \<and>
         (\<forall>i < M - 1.
            Param (Ups ! i) ''SourceTexture'' =
              Some (TextureParam (if i = 0 then TargetTexture (Downs ! (M - 1))
                                  else TargetTexture (Ups ! (i - 1)))) \<and>
            Param (Ups ! i) ''PreviousMipTexture'' =
              Some (TextureParam (TargetTexture (Downs ! (M - 2 - i)))) \<and>
            (\<exists>T'. TargetTexture (Ups ! i) = Some T' \<and>
                  Extent (Desc T') = MipExtentAt (Extent (Desc BT)) (M - 2 - i)) \<and>
            PassViewport (Ups ! i) = RectOfExtent (MipExtentAt (Extent (Desc BT)) (M - 2 - i))) \<and>
         Param (Ups ! (M - 1)) ''SourceTexture'' =
           Some (TextureParam (TargetTexture (Ups ! (M - 2)))) \<and>
         Param (Ups ! (M - 1)) ''PreviousMipTexture'' =
           Some (TextureParam (TargetTexture (Downs ! 0))) \<and>
         TargetTexture (Ups ! (M - 1)) = Some t \<and> Desc t = Desc BT \<and>
         PassViewport (Ups ! (M - 1)) = PassViewport bp)"
proof -
  define VR where "VR = ViewRect (SceneColorInput Inputs)"
  define L where "L = (bEnableDebugLogging c \<and> CurrentTime Ctx - LastLogTime Ctx > 1.0)"
  define Ext where "Ext = ComputeDownsampledExtent VR (ComputeDivisor c)"
  define M where "M = nat (Clamp (KawaseMipCount c) 3 8)"
  from Frame_structure [OF assms(1,3) VR_def L_def Ext_def, of gb]
  obtain r T BT bp g2 t g3 l2 cps ts where F:
    "PostProcessPass_RenderThread Ctx gb View Inputs = Some r \<and>
     Texture (SceneColorInput Inputs) = Some T \<and>
     Handle BT = length (Textures gb) \<and> Name BT = ''ClassicBloom.BrightPass'' \<and>
     Desc BT = BrightPassDesc_of Ext \<and>
     Shader bp = FClassicBloomBrightPassPS \<and>
     TargetTexture bp = Some BT \<and> PassViewport bp = ComputeDownsampledRect Ext \<and>
     Passes g2 = Passes gb @ [bp] \<and>
     BlurStage g2 View sm T VR c L (ComputeDivisor c) Ext (ComputeDownsampledRect Ext)
       (BrightPassDesc_of Ext) BT = Some (t, g3, l2) \<and>
     Passes (Graph r) = Passes g3 @ cps \<and>
     (\<forall>p \<in> set cps. Shader p = FClassicBloomCompositePS \<and>
        Param p ''BloomTexture'' = Some (TextureParam (Some t)))"
    by (elim exE conjE) (rule that, intro conjI, assumption+)
  then have f: "PostProcessPass_RenderThread Ctx gb View Inputs = Some r"
    "Texture (SceneColorInput Inputs) = Some T"
    "Handle BT = length (Textures gb)" "Name BT = ''ClassicBloom.BrightPass''"
    "Desc BT = BrightPassDesc_of Ext" "Shader bp = FClassicBloomBrightPassPS"
    "TargetTexture bp = Some BT" "PassViewport bp = ComputeDownsampledRect Ext"
    "Passes g2 = Passes gb @ [bp]"
    "BlurStage g2 View sm T VR c L (ComputeDivisor c) Ext (ComputeDownsampledRect Ext)
       (BrightPassDesc_of Ext) BT = Some (t, g3, l2)"
    "Passes (Graph r) = Passes g3 @ cps"
    "\<forall>p \<in> set cps. Shader p = FClassicBloomCompositePS \<and>
        Param p ''BloomTexture'' = Some (TextureParam (Some t))"
    by blast+
  let ?D = "filter (\<lambda>p. Shader p = FClassicBloomKawaseDownsamplePS) (NewPasses g2 g3)"
  let ?U = "filter (\<lambda>p. Shader p = FClassicBloomKawaseUpsamplePS) (NewPasses g2 g3)"
  from BlurStage_kawase_pyramid [OF assms(2,4,5), of g2 View T VR L "ComputeDivisor c" Ext BT,
      unfolded Let_def, folded M_def] f(10)
  have S: "3 \<le> M \<and> M \<le> 8 \<and> NewPasses g2 g3 = ?D @ ?U \<and>
         length ?D = M \<and> length ?U = M \<and>
         (\<forall>k < M.
            Param (?D ! k) ''SourceTexture'' =
              Some (TextureParam (if k = 0 then Some T else TargetTexture (?D ! (k - 1)))) \<and>
            Param (?D ! k) ''bUseKarisAverage'' = Some (IntParam (if k = 0 then 1 else 0)) \<and>
            (\<exists>T'. TargetTexture (?D ! k) = Some T' \<and> Extent (Desc T') = MipExtentAt Ext k) \<and>
            PassViewport (?D ! k) = RectOfExtent (MipExtentAt Ext k)) \<and>
         (\<forall>i < M - 1.
            Param (?U ! i) ''SourceTexture'' =
              Some (TextureParam (if i = 0 then TargetTexture (?D ! (M - 1))
                                  else TargetTexture (?U ! (i - 1)))) \<and>
            Param (?U ! i) ''PreviousMipTexture'' =
              Some (TextureParam (TargetTexture (?D ! (M - 2 - i)))) \<and>
            (\<exists>T'. TargetTexture (?U ! i) = Some T' \<and> Extent (Desc T') = MipExtentAt Ext (M - 2 - i)) \<and>
            PassViewport (?U ! i) = RectOfExtent (MipExtentAt Ext (M - 2 - i))) \<and>
         Param (?U ! (M - 1)) ''SourceTexture'' =
           Some (TextureParam (TargetTexture (?U ! (M - 2)))) \<and>
         Param (?U ! (M - 1)) ''PreviousMipTexture'' =
           Some (TextureParam (TargetTexture (?D ! 0))) \<and>
         TargetTexture (?U ! (M - 1)) = Some t \<and> Desc t = BrightPassDesc_of Ext \<and>
         PassViewport (?U ! (M - 1)) = ComputeDownsampledRect Ext"
    by (elim exE conjE) simp
  then have mid: "NewPasses g2 g3 = ?D @ ?U" by blast
  from BlurStage_total [OF DownsampledRect_size, of g2 View sm T VR c L "ComputeDivisor c" Ext
      "BrightPassDesc_of Ext" BT] f(10)
  obtain m where m: "Passes g3 = Passes g2 @ m" unfolding ExtendsGraph_def by auto
  then have m': "NewPasses g2 g3 = m" by (simp add: NewPasses_def)
  have "NewPasses gb (Graph r) = bp # m @ cps"
    using f(9,11) m by (simp add: NewPasses_def)
  then have np: "NewPasses gb (Graph r) = bp # NewPasses g2 g3 @ cps"
    unfolding m' .
  have fd: "filter (\<lambda>p. Shader p = FClassicBloomKawaseDownsamplePS) (NewPasses gb (Graph r)) = ?D"
    unfolding np using f(6,12) by (simp add: filter_empty_conv)
  have fu: "filter (\<lambda>p. Shader p = FClassicBloomKawaseUpsamplePS) (NewPasses gb (Graph r)) = ?U"
    unfolding np using f(6,12) by (simp add: filter_empty_conv)
  have np': "NewPasses gb (Graph r) = bp # ?D @ ?U @ cps"
    using np mid by simp
  have ex: "Extent (Desc BT) = Ext" using f(5) by (simp add: BrightPassDesc_of_def Create2D_def)
  have ex2: "Extent (BrightPassDesc_of Ext) = Ext" by (simp add: BrightPassDesc_of_def Create2D_def)
  have ne: "Handle T < length (Textures gb) \<longrightarrow> T \<noteq> BT" using f(3) by auto
  have body: "NewPasses gb (Graph r) = bp # ?D @ ?U @ cps \<and>
         3 \<le> M \<and> M \<le> 8 \<and> length ?D = M \<and> length ?U = M \<and>
         (\<forall>k < M.
            Param (?D ! k) ''SourceTexture'' =
              Some (TextureParam (if k = 0 then Some T else TargetTexture (?D ! (k - 1)))) \<and>
            Param (?D ! k) ''bUseKarisAverage'' = Some (IntParam (if k = 0 then 1 else 0)) \<and>
            (\<exists>T'. TargetTexture (?D ! k) = Some T' \<and>
                  Extent (Desc T') = MipExtentAt (Extent (Desc BT)) k) \<and>
            PassViewport (?D ! k) = RectOfExtent (MipExtentAt (Extent (Desc BT)) k)) \<and>
         (\<forall>i < M - 1.
            Param (?U ! i) ''SourceTexture'' =
              Some (TextureParam (if i = 0 then TargetTexture (?D ! (M - 1))
                                  else TargetTexture (?U ! (i - 1)))) \<and>
            Param (?U ! i) ''PreviousMipTexture'' =
              Some (TextureParam (TargetTexture (?D ! (M - 2 - i)))) \<and>
            (\<exists>T'. TargetTexture (?U ! i) = Some T' \<and>
                  Extent (Desc T') = MipExtentAt (Extent (Desc BT)) (M - 2 - i)) \<and>
            PassViewport (?U ! i) = RectOfExtent (MipExtentAt (Extent (Desc BT)) (M - 2 - i))) \<and>
         Param (?U ! (M - 1)) ''SourceTexture'' =
           Some (TextureParam (TargetTexture (?U ! (M - 2)))) \<and>
         Param (?U ! (M - 1)) ''PreviousMipTexture'' =
           Some (TextureParam (TargetTexture (?D ! 0))) \<and>
         TargetTexture (?U ! (M - 1)) = Some t \<and> Desc t = Desc BT \<and>
         PassViewport (?U ! (M - 1)) = PassViewport bp"
    unfolding f(5) ex2 f(8)
    apply (rule conjI)
     apply (rule np')
    apply (insert S)
    apply (elim conjE)
    apply (intro conjI; assumption)
    done
  show ?thesis
    apply (rule exI [of _ r], rule exI [of _ T], rule exI [of _ BT], rule exI [of _ bp],
        rule exI [of _ t], rule exI [of _ cps])
    unfolding Let_def M_def [symmetric] fd fu
    using f(1,2,4) ne f(6,7,12) body
    apply (elim conjE)
    apply (intro conjI; assumption)
    done
qed

theorem kawase_pyramid_witness:
  "FrameRuns (ExampleContext (DefaultComponent\<lparr>BloomMode := Kawase, KawaseMipCount := 3\<rparr>))
     (ExampleView AllShaders) (ExampleInputs (ExampleRect 1920 1080)) AllShaders
     (DefaultComponent\<lparr>BloomMode := Kawase, KawaseMipCount := 3\<rparr>) \<and>
   BloomMode (DefaultComponent\<lparr>BloomMode := Kawase, KawaseMipCount := 3\<rparr>) = Kawase \<and>
   FClassicBloomBrightPassPS \<in> AllShaders \<and>
   FClassicBloomKawaseDownsamplePS \<in> AllShaders \<and> FClassicBloomKawaseUpsamplePS \<in> AllShaders \<and>
   (\<exists>r T BT bp t cps.
      PostProcessPass_RenderThread
        (ExampleContext (DefaultComponent\<lparr>BloomMode := Kawase, KawaseMipCount := 3\<rparr>)) ExampleGraph
        (ExampleView AllShaders) (ExampleInputs (ExampleRect 1920 1080)) = Some r \<and>
      Texture (SceneColorInput (ExampleInputs (ExampleRect 1920 1080))) = Some T \<and>
      Name BT = ''ClassicBloom.BrightPass'' \<and> T \<noteq> BT \<and>
      Shader bp = FClassicBloomBrightPassPS \<and> TargetTexture bp = Some BT \<and>
      NewPasses ExampleGraph (Graph r) =
        bp # filter (\<lambda>p. Shader p = FClassicBloomKawaseDownsamplePS) (NewPasses ExampleGraph (Graph r)) @
             filter (\<lambda>p. Shader p = FClassicBloomKawaseUpsamplePS) (NewPasses ExampleGraph (Graph r)) @
             cps \<and>
      length (filter (\<lambda>p. Shader p = FClassicBloomKawaseDownsamplePS)
                (NewPasses ExampleGraph (Graph r))) = 3 \<and>
      length (filter (\<lambda>p. Shader p = FClassicBloomKawaseUpsamplePS)
                (NewPasses ExampleGraph (Graph r))) = 3 \<and>
      Param (filter (\<lambda>p. Shader p = FClassicBloomKawaseDownsamplePS)
               (NewPasses ExampleGraph (Graph r)) ! 0) ''SourceTexture'' =
        Some (TextureParam (Some T)) \<and>
      TargetTexture (filter (\<lambda>p. Shader p = FClassicBloomKawaseUpsamplePS)
                       (NewPasses ExampleGraph (Graph r)) ! 2) = Some t \<and>
      Desc t = Desc BT)"
proof -
  let ?c = "DefaultComponent\<lparr>BloomMode := Kawase, KawaseMipCount := 3\<rparr>"
  let ?In = "ExampleInputs (ExampleRect 1920 1080)"
  have a: "IsActive ?c" "0 < BloomIntensity ?c" by (simp_all add: DefaultComponent_def)
  have fr: "FrameRuns (ExampleContext ?c) (ExampleView AllShaders) ?In AllShaders ?c"
    using a by (rule Example_FrameRuns)
  have h: "BloomMode ?c = Kawase" "FClassicBloomBrightPassPS \<in> AllShaders"
    "FClassicBloomKawaseDownsamplePS \<in> AllShaders" "FClassicBloomKawaseUpsamplePS \<in> AllShaders"
    by (simp_all add: AllShaders_def)
  have k: "nat (Clamp (KawaseMipCount ?c) 3 8) = 3" by (simp add: Clamp_def)
  have tx: "Texture (SceneColorInput ?In) = Some ExampleSceneColorTexture"
    "Handle ExampleSceneColorTexture < length (Textures ExampleGraph)"
    by (simp_all add: ExampleInputs_def ExampleGraph_def ExampleSceneColorTexture_def)
  note T = kawase_pyramid [OF fr h, of ExampleGraph, unfolded Let_def k tx(1)]
  from T have e: "\<exists>r T BT bp t cps.
      PostProcessPass_RenderThread (ExampleContext ?c) ExampleGraph (ExampleView AllShaders) ?In =
        Some r \<and>
      Texture (SceneColorInput ?In) = Some T \<and>
      Name BT = ''ClassicBloom.BrightPass'' \<and> T \<noteq> BT \<and>
      Shader bp = FClassicBloomBrightPassPS \<and> TargetTexture bp = Some BT \<and>
      NewPasses ExampleGraph (Graph r) =
        bp # filter (\<lambda>p. Shader p = FClassicBloomKawaseDownsamplePS) (NewPasses ExampleGraph (Graph r)) @
             filter (\<lambda>p. Shader p = FClassicBloomKawaseUpsamplePS) (NewPasses ExampleGraph (Graph r)) @
             cps \<and>
      length (filter (\<lambda>p. Shader p = FClassicBloomKawaseDownsamplePS)
                (NewPasses ExampleGraph (Graph r))) = 3 \<and>
      length (filter (\<lambda>p. Shader p = FClassicBloomKawaseUpsamplePS)
                (NewPasses ExampleGraph (Graph r))) = 3 \<and>
      Param (filter (\<lambda>p. Shader p = FClassicBloomKawaseDownsamplePS)
               (NewPasses ExampleGraph (Graph r)) ! 0) ''SourceTexture'' =
        Some (TextureParam (Some T)) \<and>
      TargetTexture (filter (\<lambda>p. Shader p = FClassicBloomKawaseUpsamplePS)
                       (NewPasses ExampleGraph (Graph r)) ! 2) = Some t \<and>
      Desc t = Desc BT"
    unfolding tx(1)
    apply (elim exE conjE)
    subgoal for r T BT bp t cps
      apply (rule exI [of _ r], rule exI [of _ T], rule exI [of _ BT], rule exI [of _ bp],
          rule exI [of _ t], rule exI [of _ cps])
      using tx(2)
      apply (intro conjI)
                 apply assumption
                apply assumption
               apply assumption
              apply (drule spec [of _ 0], simp)
             apply assumption
            apply assumption
           apply assumption
          apply assumption
         apply assumption
        apply (drule spec [of _ 0], simp)
       apply simp
      apply assumption
      done
    done
  show ?thesis
    by (intro conjI) (rule fr h e)+
qed

end
